theory Spec2Isabelle
  imports Main "HOL-Library.AList" "HOL-Library.Word"
begin

unbundle bit_operations_syntax

section \<open>The data model of MallocChecker.cpp\<close>

text \<open>
  Symbols and statements are engine objects compared by pointer identity; they are
  modelled by natural numbers. The persistent maps registered with the program state
  (\<open>REGISTER_MAP_WITH_PROGRAMSTATE\<close>) are association lists in iteration order:
  \<open>get\<close> is \<^const>\<open>map_of\<close>, \<open>set\<close> is \<^const>\<open>AList.update\<close> and \<open>remove\<close> is
  \<^const>\<open>AList.delete\<close>. A \<open>ProgramStateRef\<close> may be null and is an \<open>option\<close>.
\<close>

type_synonym SymbolRef = nat
type_synonym StmtRef = nat

datatype AllocationFamily =
  AF_None | AF_Malloc | AF_CXXNew | AF_CXXNewArray | AF_IfNameIndex | AF_Alloca | AF_InnerBuffer

datatype Kind = Allocated | AllocatedOfSizeZero | Released | Relinquished | Escaped

datatype RefState = RefState (getKind: Kind) (getStmt: StmtRef) (getAllocationFamily: AllocationFamily)

definition isAllocated :: "RefState \<Rightarrow> bool" where
  "isAllocated RS = (getKind RS = Allocated)"

definition isAllocatedOfSizeZero :: "RefState \<Rightarrow> bool" where
  "isAllocatedOfSizeZero RS = (getKind RS = AllocatedOfSizeZero)"

definition isReleased :: "RefState \<Rightarrow> bool" where
  "isReleased RS = (getKind RS = Released)"

definition isRelinquished :: "RefState \<Rightarrow> bool" where
  "isRelinquished RS = (getKind RS = Relinquished)"

definition isEscaped :: "RefState \<Rightarrow> bool" where
  "isEscaped RS = (getKind RS = Escaped)"

text \<open>
  The named constructors of \<open>RefState\<close>. The private constructor asserts
  \<open>family != AF_None\<close>; the assertion is the predicate \<open>RefState_assert\<close>, checked
  by the modelled callers that can reach it with a family of their own choosing.
\<close>

definition RefState_assert :: "AllocationFamily \<Rightarrow> bool" where
  "RefState_assert family = (family \<noteq> AF_None)"

definition getAllocated :: "AllocationFamily \<Rightarrow> StmtRef \<Rightarrow> RefState" where
  "getAllocated family s = RefState Allocated s family"

definition getAllocatedOfSizeZero :: "RefState \<Rightarrow> RefState" where
  "getAllocatedOfSizeZero RS = RefState AllocatedOfSizeZero (getStmt RS) (getAllocationFamily RS)"

definition getReleased :: "AllocationFamily \<Rightarrow> StmtRef \<Rightarrow> RefState" where
  "getReleased family s = RefState Released s family"

definition getRelinquished :: "AllocationFamily \<Rightarrow> StmtRef \<Rightarrow> RefState" where
  "getRelinquished family s = RefState Relinquished s family"

definition getEscaped :: "RefState \<Rightarrow> RefState" where
  "getEscaped RS = RefState Escaped (getStmt RS) (getAllocationFamily RS)"

datatype OwnershipAfterReallocKind =
  OAR_ToBeFreedAfterFailure | OAR_FreeOnFailure | OAR_DoNotTrackAfterFailure

datatype ReallocPair = ReallocPair (ReallocatedSym: SymbolRef) (OwnershipKind: OwnershipAfterReallocKind)

text \<open>
  The program state: the four traits the checker registers, and the part owned by the
  engine (environment, store and constraints), which the checker never reads directly.
\<close>

record 'e ProgramState =
  RegionState :: "(SymbolRef \<times> RefState) list"
  ReallocPairs :: "(SymbolRef \<times> ReallocPair) list"
  FreeReturnValue :: "(SymbolRef \<times> SymbolRef) list"
  ReallocSizeZeroSymbols :: "SymbolRef list"
  EngineState :: 'e

definition get_RegionState :: "'e ProgramState \<Rightarrow> SymbolRef \<Rightarrow> RefState option" where
  "get_RegionState state Sym = map_of (RegionState state) Sym"

definition set_RegionState :: "SymbolRef \<Rightarrow> RefState \<Rightarrow> 'e ProgramState \<Rightarrow> 'e ProgramState" where
  "set_RegionState Sym RS state = state\<lparr>RegionState := AList.update Sym RS (RegionState state)\<rparr>"

definition remove_RegionState :: "SymbolRef \<Rightarrow> 'e ProgramState \<Rightarrow> 'e ProgramState" where
  "remove_RegionState Sym state = state\<lparr>RegionState := AList.delete Sym (RegionState state)\<rparr>"

definition get_ReallocPairs :: "'e ProgramState \<Rightarrow> SymbolRef \<Rightarrow> ReallocPair option" where
  "get_ReallocPairs state Sym = map_of (ReallocPairs state) Sym"

definition set_ReallocPairs :: "SymbolRef \<Rightarrow> ReallocPair \<Rightarrow> 'e ProgramState \<Rightarrow> 'e ProgramState" where
  "set_ReallocPairs Sym RP state = state\<lparr>ReallocPairs := AList.update Sym RP (ReallocPairs state)\<rparr>"

definition remove_ReallocPairs :: "SymbolRef \<Rightarrow> 'e ProgramState \<Rightarrow> 'e ProgramState" where
  "remove_ReallocPairs Sym state = state\<lparr>ReallocPairs := AList.delete Sym (ReallocPairs state)\<rparr>"

definition get_FreeReturnValue :: "'e ProgramState \<Rightarrow> SymbolRef \<Rightarrow> SymbolRef option" where
  "get_FreeReturnValue state Sym = map_of (FreeReturnValue state) Sym"

definition set_FreeReturnValue :: "SymbolRef \<Rightarrow> SymbolRef \<Rightarrow> 'e ProgramState \<Rightarrow> 'e ProgramState" where
  "set_FreeReturnValue Sym ret state = state\<lparr>FreeReturnValue := AList.update Sym ret (FreeReturnValue state)\<rparr>"

definition remove_FreeReturnValue :: "SymbolRef \<Rightarrow> 'e ProgramState \<Rightarrow> 'e ProgramState" where
  "remove_FreeReturnValue Sym state = state\<lparr>FreeReturnValue := AList.delete Sym (FreeReturnValue state)\<rparr>"

definition contains_ReallocSizeZeroSymbols :: "'e ProgramState \<Rightarrow> SymbolRef \<Rightarrow> bool" where
  "contains_ReallocSizeZeroSymbols state Sym = (Sym \<in> set (ReallocSizeZeroSymbols state))"

definition add_ReallocSizeZeroSymbols :: "SymbolRef \<Rightarrow> 'e ProgramState \<Rightarrow> 'e ProgramState" where
  "add_ReallocSizeZeroSymbols Sym state =
     (if Sym \<in> set (ReallocSizeZeroSymbols state) then state
      else state\<lparr>ReallocSizeZeroSymbols := Sym # ReallocSizeZeroSymbols state\<rparr>)"

subsection \<open>The constraint manager\<close>

text \<open>
  \<open>ConstraintManager::isNull\<close> answers from the constraints of a state, which are part of
  the engine's share of the state; the answer is three-valued.
\<close>

datatype ConditionTruthVal = ConstrainedTrue | ConstrainedFalse | Underconstrained

definition isConstrainedTrue :: "ConditionTruthVal \<Rightarrow> bool" where
  "isConstrainedTrue v = (v = ConstrainedTrue)"

type_synonym 'e ConstraintManager = "'e \<Rightarrow> SymbolRef \<Rightarrow> ConditionTruthVal"

section \<open>The assumption hook\<close>

text \<open>
  \<open>MallocChecker::evalAssume\<close>. Both loops iterate over a snapshot of the map taken
  before the loop while they update \<open>state\<close>; the snapshot is the list argument.
\<close>

fun evalAssume_RegionState_loop ::
  "'e ConstraintManager \<Rightarrow> (SymbolRef \<times> RefState) list \<Rightarrow> 'e ProgramState \<Rightarrow> 'e ProgramState" where
  "evalAssume_RegionState_loop CMgr [] state = state"
| "evalAssume_RegionState_loop CMgr (I # RS) state =
     (let AllocFailed = CMgr (EngineState state) (fst I) in
      evalAssume_RegionState_loop CMgr RS
        (if isConstrainedTrue AllocFailed then remove_RegionState (fst I) state else state))"

definition evalAssume_ReallocPairs_body ::
  "'e ConstraintManager \<Rightarrow> SymbolRef \<times> ReallocPair \<Rightarrow> 'e ProgramState \<Rightarrow> 'e ProgramState" where
  "evalAssume_ReallocPairs_body CMgr I state =
     (let AllocFailed = CMgr (EngineState state) (fst I) in
      if \<not> isConstrainedTrue AllocFailed then state
      else
        let ReallocSym = ReallocatedSym (snd I);
            state1 =
              (case get_RegionState state ReallocSym of
                 Some RS \<Rightarrow>
                   if isReleased RS then
                     (case OwnershipKind (snd I) of
                        OAR_ToBeFreedAfterFailure \<Rightarrow>
                          set_RegionState ReallocSym
                            (getAllocated (getAllocationFamily RS) (getStmt RS)) state
                      | OAR_DoNotTrackAfterFailure \<Rightarrow> remove_RegionState ReallocSym state
                      | OAR_FreeOnFailure \<Rightarrow> state)
                   else state
               | None \<Rightarrow> state)
        in remove_ReallocPairs (fst I) state1)"

fun evalAssume_ReallocPairs_loop ::
  "'e ConstraintManager \<Rightarrow> (SymbolRef \<times> ReallocPair) list \<Rightarrow> 'e ProgramState \<Rightarrow> 'e ProgramState" where
  "evalAssume_ReallocPairs_loop CMgr [] state = state"
| "evalAssume_ReallocPairs_loop CMgr (I # RP) state =
     evalAssume_ReallocPairs_loop CMgr RP (evalAssume_ReallocPairs_body CMgr I state)"

definition evalAssume :: "'e ConstraintManager \<Rightarrow> 'e ProgramState \<Rightarrow> 'e ProgramState" where
  "evalAssume CMgr state =
     (let state1 = evalAssume_RegionState_loop CMgr (RegionState state) state
      in evalAssume_ReallocPairs_loop CMgr (ReallocPairs state1) state1)"


section \<open>The engine, as the checker sees it\<close>

text \<open>
  Symbolic values and memory regions belong to the engine. Regions are kept in the form
  \<open>StripCasts\<close> returns; a sub-region (element, field or base-object region) carries the
  offset from its base that \<open>getAsOffset\<close> computes.
\<close>

type_synonym QualType = nat

datatype MemSpace =
  UnknownSpaceRegion | HeapSpaceRegion | StackLocalsSpaceRegion | StackArgumentsSpaceRegion
  | GlobalsSpaceRegion | CodeSpaceRegion

datatype RegionOffset = InvalidOffset | SymbolicOffset | ConcreteOffset int

datatype MemRegion =
  SymbolicRegion SymbolRef MemSpace
  | AllocaRegion
  | BlockDataRegion MemSpace
  | VarRegion MemSpace
  | SubRegion MemRegion RegionOffset

fun getBaseRegion :: "MemRegion \<Rightarrow> MemRegion" where
  "getBaseRegion (SubRegion R Offset) = getBaseRegion R"
| "getBaseRegion R = R"

fun getMemorySpace :: "MemRegion \<Rightarrow> MemSpace" where
  "getMemorySpace (SymbolicRegion Sym MS) = MS"
| "getMemorySpace AllocaRegion = StackLocalsSpaceRegion"
| "getMemorySpace (BlockDataRegion MS) = MS"
| "getMemorySpace (VarRegion MS) = MS"
| "getMemorySpace (SubRegion R Offset) = getMemorySpace R"

fun getAsOffset :: "MemRegion \<Rightarrow> RegionOffset" where
  "getAsOffset (SubRegion R Offset) = Offset"
| "getAsOffset R = ConcreteOffset 0"

fun getSymbol :: "MemRegion \<Rightarrow> SymbolRef option" where
  "getSymbol (SymbolicRegion Sym MS) = Some Sym"
| "getSymbol R = None"

definition isBlockDataRegion :: "MemRegion \<Rightarrow> bool" where
  "isBlockDataRegion R = (case R of BlockDataRegion MS \<Rightarrow> True | _ \<Rightarrow> False)"

definition isAllocaRegion :: "MemRegion \<Rightarrow> bool" where
  "isAllocaRegion R = (case R of AllocaRegion \<Rightarrow> True | _ \<Rightarrow> False)"

datatype SVal =
  UndefinedVal
  | UnknownVal
  | loc_MemRegionVal MemRegion
  | loc_ConcreteInt int
  | loc_GotoLabel nat
  | nonloc_ConcreteInt int
  | nonloc_SymbolVal SymbolRef
  | nonloc_LocAsInteger MemRegion
  | nonloc_CompoundVal nat

definition isUndef :: "SVal \<Rightarrow> bool" where
  "isUndef V = (V = UndefinedVal)"

definition isUnknownOrUndef :: "SVal \<Rightarrow> bool" where
  "isUnknownOrUndef V = (V = UnknownVal \<or> V = UndefinedVal)"

fun isLoc :: "SVal \<Rightarrow> bool" where
  "isLoc (loc_MemRegionVal R) = True"
| "isLoc (loc_ConcreteInt n) = True"
| "isLoc (loc_GotoLabel l) = True"
| "isLoc V = False"

fun isNonLoc :: "SVal \<Rightarrow> bool" where
  "isNonLoc (nonloc_ConcreteInt n) = True"
| "isNonLoc (nonloc_SymbolVal Sym) = True"
| "isNonLoc (nonloc_LocAsInteger R) = True"
| "isNonLoc (nonloc_CompoundVal n) = True"
| "isNonLoc V = False"

fun getAsRegion :: "SVal \<Rightarrow> MemRegion option" where
  "getAsRegion (loc_MemRegionVal R) = Some R"
| "getAsRegion (nonloc_LocAsInteger R) = Some R"
| "getAsRegion V = None"

fun getAsLocSymbol :: "SVal \<Rightarrow> SymbolRef option" where
  "getAsLocSymbol (loc_MemRegionVal R) = getSymbol R"
| "getAsLocSymbol (nonloc_LocAsInteger R) = getSymbol R"
| "getAsLocSymbol V = None"

fun getAsSymbol :: "SVal \<Rightarrow> SymbolRef option" where
  "getAsSymbol (nonloc_SymbolVal Sym) = Some Sym"
| "getAsSymbol V = getAsLocSymbol V"

datatype OSType = UnknownOS | FreeBSD | NetBSD | OpenBSD | Linux | Darwin | Win32 | Solaris

datatype BinaryOperatorKind = BO_And | BO_Mul

text \<open>
  The syntax tree. A statement is known by its identity; its class, its type and its
  arguments are looked up in the \<open>ASTContext\<close>. Of a callee declaration the checker
  reads the kind, the identifier, the overloaded operator, where it is declared and its
  ownership attributes. Statement pointers are never null here.
\<close>

datatype OverloadedOperatorKind =
  OO_None | OO_New | OO_Array_New | OO_Delete | OO_Array_Delete | OO_Other

datatype OwnershipAttrKind = Returns | Takes | Holds

record FunctionDecl =
  isDeclFunction :: bool
  getIdentifier :: "string option"
  getOverloadedOperator :: OverloadedOperatorKind
  LocationIsValid :: bool
  LocationInSystemHeader :: bool
  OwnershipAttrs :: "OwnershipAttrKind list"

datatype StmtClass =
  CallExprClass "FunctionDecl option"
  | CXXNewExprClass "StmtRef option"
  | CXXDeleteExprClass bool
  | ObjCMessageExprClass
  | OtherStmtClass

record ASTContext =
  getStmtClass :: "StmtRef \<Rightarrow> StmtClass"
  getType :: "StmtRef \<Rightarrow> QualType"
  getArgs :: "StmtRef \<Rightarrow> StmtRef list"
  CharTy :: QualType
  getSizeType :: QualType

definition getNumArgs :: "ASTContext \<Rightarrow> StmtRef \<Rightarrow> nat" where
  "getNumArgs Ctx CE = length (getArgs Ctx CE)"

text \<open>\<open>CallExpr::getArg\<close> asserts that the index is in range.\<close>

definition getArg :: "ASTContext \<Rightarrow> StmtRef \<Rightarrow> nat \<Rightarrow> StmtRef option" where
  "getArg Ctx CE i = (if i < length (getArgs Ctx CE) then Some (getArgs Ctx CE ! i) else None)"

text \<open>
  What the checker asks of the engine through a \<open>CheckerContext\<close>: the node's state and
  the values of expressions in it, the making of error nodes, and the services of the
  state manager, the value builder and the constraint manager. \<open>State_assume\<close> is
  \<open>ProgramState::assume\<close> returning the pair of the state where the condition holds and
  the state where it does not, each null when infeasible; \<open>State_assumeTrue\<close> is the
  overload with \<open>Assumption = true\<close>. The engine runs every checker's \<open>evalAssume\<close> inside
  them, so the returned states are whole program states.
\<close>

record 'e CheckerContext =
  getState :: "'e ProgramState"
  getASTContext :: ASTContext
  getSVal :: "StmtRef \<Rightarrow> SVal"
  generateErrorNode :: bool
  generateNonFatalErrorNode :: bool
  getOS :: OSType
  isNull :: "'e ConstraintManager"
  State_assume :: "'e ProgramState \<Rightarrow> SVal \<Rightarrow> 'e ProgramState option \<times> 'e ProgramState option"
  State_assumeTrue :: "'e ProgramState \<Rightarrow> SVal \<Rightarrow> 'e ProgramState option"
  evalEQ :: "'e ProgramState \<Rightarrow> SVal \<Rightarrow> SVal \<Rightarrow> SVal"
  evalBinOp :: "'e ProgramState \<Rightarrow> BinaryOperatorKind \<Rightarrow> SVal \<Rightarrow> SVal \<Rightarrow> QualType \<Rightarrow> SVal"
  evalBinOpNN :: "'e ProgramState \<Rightarrow> BinaryOperatorKind \<Rightarrow> SVal \<Rightarrow> SVal \<Rightarrow> QualType \<Rightarrow> SVal"
  makeIntVal :: "64 word \<Rightarrow> QualType \<Rightarrow> SVal"
  makeZeroVal :: "QualType \<Rightarrow> SVal"
  makeNull :: SVal
  makeIntValWithPtrWidth :: "int \<Rightarrow> bool \<Rightarrow> SVal"
  getConjuredHeapSymbolVal :: "StmtRef \<Rightarrow> SVal"
  BindExpr :: "'e ProgramState \<Rightarrow> StmtRef \<Rightarrow> SVal \<Rightarrow> 'e ProgramState"
  bindDefaultInitial :: "'e ProgramState \<Rightarrow> SVal \<Rightarrow> SVal \<Rightarrow> 'e ProgramState"
  getExtent :: "MemRegion \<Rightarrow> SVal"
  isLocType :: "QualType \<Rightarrow> bool"
  isFunctionPointerType :: "SymbolRef \<Rightarrow> bool"

section \<open>The checker object and its reports\<close>

datatype CheckKind =
  CK_MallocChecker | CK_NewDeleteChecker | CK_NewDeleteLeaksChecker
  | CK_MismatchedDeallocatorChecker | CK_InnerPointerChecker

record MallocChecker =
  ChecksEnabled :: "CheckKind \<Rightarrow> bool"
  ShouldIncludeOwnershipAnnotatedFunctions :: bool

text \<open>
  A failed \<open>assert\<close> and a reached \<open>llvm_unreachable\<close> end the analysis; they are the
  errors of the model. A bug report is kept with its bug type, the check it is filed
  under and the symbols it marks interesting; of the message only the fixed texts are
  kept, the source ranges and the path visitors are not modelled.
\<close>

datatype error = AssertionFailure | Unreachable

datatype BugReport =
  DoubleFreeReport CheckKind string SymbolRef "SymbolRef option"
  | BadFreeReport CheckKind
  | FreeAllocaReport CheckKind
  | MismatchedDeallocReport SymbolRef
  | OffsetFreeReport CheckKind
  | FunctionPointerFreeReport CheckKind
  | LeakReport CheckKind SymbolRef

text \<open>\<open>getCheckIfTracked(AllocationFamily, bool)\<close>.\<close>

definition getCheckIfTracked_Family ::
  "MallocChecker \<Rightarrow> AllocationFamily \<Rightarrow> bool \<Rightarrow> error + CheckKind option" where
  "getCheckIfTracked_Family Chk Family IsALeakCheck =
     (case Family of
        AF_Malloc \<Rightarrow>
          Inr (if ChecksEnabled Chk CK_MallocChecker then Some CK_MallocChecker else None)
      | AF_Alloca \<Rightarrow>
          Inr (if ChecksEnabled Chk CK_MallocChecker then Some CK_MallocChecker else None)
      | AF_IfNameIndex \<Rightarrow>
          Inr (if ChecksEnabled Chk CK_MallocChecker then Some CK_MallocChecker else None)
      | AF_CXXNew \<Rightarrow>
          Inr (if IsALeakCheck then
                 (if ChecksEnabled Chk CK_NewDeleteLeaksChecker
                  then Some CK_NewDeleteLeaksChecker else None)
               else
                 (if ChecksEnabled Chk CK_NewDeleteChecker then Some CK_NewDeleteChecker else None))
      | AF_CXXNewArray \<Rightarrow>
          Inr (if IsALeakCheck then
                 (if ChecksEnabled Chk CK_NewDeleteLeaksChecker
                  then Some CK_NewDeleteLeaksChecker else None)
               else
                 (if ChecksEnabled Chk CK_NewDeleteChecker then Some CK_NewDeleteChecker else None))
      | AF_InnerBuffer \<Rightarrow>
          Inr (if ChecksEnabled Chk CK_InnerPointerChecker then Some CK_InnerPointerChecker else None)
      | AF_None \<Rightarrow> Inl Unreachable)"

text \<open>\<open>getCheckIfTracked(CheckerContext &, SymbolRef, bool)\<close>; it reads the node's state.\<close>

definition getCheckIfTracked_Sym ::
  "MallocChecker \<Rightarrow> 'e CheckerContext \<Rightarrow> SymbolRef \<Rightarrow> bool \<Rightarrow> error + CheckKind option" where
  "getCheckIfTracked_Sym Chk C Sym IsALeakCheck =
     (if contains_ReallocSizeZeroSymbols (getState C) Sym then Inr (Some CK_MallocChecker)
      else
        (case get_RegionState (getState C) Sym of
           None \<Rightarrow> Inl AssertionFailure
         | Some RS \<Rightarrow> getCheckIfTracked_Family Chk (getAllocationFamily RS) IsALeakCheck))"

section \<open>The leak finder\<close>

text \<open>
  \<open>MallocChecker::reportLeak\<close>. The error node is the caller's; the allocation site found
  by \<open>getAllocationSite\<close> only places and words the report and is not modelled.
\<close>

definition reportLeak :: "MallocChecker \<Rightarrow> 'e CheckerContext \<Rightarrow> SymbolRef \<Rightarrow> error + BugReport list" where
  "reportLeak Chk C Sym =
     (if \<not> ChecksEnabled Chk CK_MallocChecker \<and> \<not> ChecksEnabled Chk CK_NewDeleteLeaksChecker
      then Inr []
      else
        (case get_RegionState (getState C) Sym of
           None \<Rightarrow> Inl AssertionFailure
         | Some RS \<Rightarrow>
             let Family = getAllocationFamily RS in
             if Family = AF_Alloca then Inr []
             else
               (case getCheckIfTracked_Family Chk Family True of
                  Inl e \<Rightarrow> Inl e
                | Inr None \<Rightarrow> Inr []
                | Inr (Some CheckKind) \<Rightarrow> Inr [LeakReport CheckKind Sym])))"

fun reportLeak_loop ::
  "MallocChecker \<Rightarrow> 'e CheckerContext \<Rightarrow> SymbolRef list \<Rightarrow> error + BugReport list" where
  "reportLeak_loop Chk C [] = Inr []"
| "reportLeak_loop Chk C (I # Errors) =
     (case reportLeak Chk C I of
        Inl e \<Rightarrow> Inl e
      | Inr R \<Rightarrow>
          (case reportLeak_loop Chk C Errors of
             Inl e \<Rightarrow> Inl e
           | Inr Rs \<Rightarrow> Inr (R @ Rs)))"

text \<open>
  \<open>MallocChecker::checkDeadSymbols\<close>. The three loops run over snapshots of the maps;
  the first updates the local map \<open>RS\<close> and collects \<open>Errors\<close>, the other two update
  \<open>state\<close>. The result is the list \<open>Errors\<close>, the state passed to \<open>addTransition\<close> (none
  when the callback returns early) and the reports emitted.
\<close>

fun checkDeadSymbols_RegionState_loop ::
  "(SymbolRef \<Rightarrow> bool) \<Rightarrow> (SymbolRef \<times> RefState) list \<Rightarrow>
   (SymbolRef \<times> RefState) list \<times> SymbolRef list \<Rightarrow> (SymbolRef \<times> RefState) list \<times> SymbolRef list" where
  "checkDeadSymbols_RegionState_loop isDead [] (RS, Errors) = (RS, Errors)"
| "checkDeadSymbols_RegionState_loop isDead (I # rest) (RS, Errors) =
     (if isDead (fst I) then
        checkDeadSymbols_RegionState_loop isDead rest
          (AList.delete (fst I) RS,
           if isAllocated (snd I) \<or> isAllocatedOfSizeZero (snd I) then Errors @ [fst I] else Errors)
      else checkDeadSymbols_RegionState_loop isDead rest (RS, Errors))"

fun checkDeadSymbols_ReallocPairs_loop ::
  "(SymbolRef \<Rightarrow> bool) \<Rightarrow> (SymbolRef \<times> ReallocPair) list \<Rightarrow> 'e ProgramState \<Rightarrow> 'e ProgramState" where
  "checkDeadSymbols_ReallocPairs_loop isDead [] state = state"
| "checkDeadSymbols_ReallocPairs_loop isDead (I # RP) state =
     checkDeadSymbols_ReallocPairs_loop isDead RP
       (if isDead (fst I) \<or> isDead (ReallocatedSym (snd I))
        then remove_ReallocPairs (fst I) state else state)"

fun checkDeadSymbols_FreeReturnValue_loop ::
  "(SymbolRef \<Rightarrow> bool) \<Rightarrow> (SymbolRef \<times> SymbolRef) list \<Rightarrow> 'e ProgramState \<Rightarrow> 'e ProgramState" where
  "checkDeadSymbols_FreeReturnValue_loop isDead [] state = state"
| "checkDeadSymbols_FreeReturnValue_loop isDead (I # FR) state =
     checkDeadSymbols_FreeReturnValue_loop isDead FR
       (if isDead (fst I) \<or> isDead (snd I)
        then remove_FreeReturnValue (fst I) state else state)"

record 'e DeadSymbolsResult =
  LeakCandidates :: "SymbolRef list"
  Transition :: "'e ProgramState option"
  EmittedReports :: "BugReport list"

definition checkDeadSymbols ::
  "MallocChecker \<Rightarrow> (SymbolRef \<Rightarrow> bool) \<Rightarrow> 'e CheckerContext \<Rightarrow> error + 'e DeadSymbolsResult" where
  "checkDeadSymbols Chk isDead C =
     (let state = getState C;
          OldRS = RegionState state;
          (RS, Errors) = checkDeadSymbols_RegionState_loop isDead OldRS (OldRS, [])
      in
      if RS = OldRS then
        Inr \<lparr>LeakCandidates = Errors, Transition = None, EmittedReports = []\<rparr>
      else
        let state1 = checkDeadSymbols_ReallocPairs_loop isDead (ReallocPairs state) state;
            state2 = checkDeadSymbols_FreeReturnValue_loop isDead (FreeReturnValue state1) state1;
            state3 = state2\<lparr>RegionState := RS\<rparr>
        in
        if Errors \<noteq> [] \<and> generateNonFatalErrorNode C then
          (case reportLeak_loop Chk C Errors of
             Inl e \<Rightarrow> Inl e
           | Inr Rs \<Rightarrow>
               Inr \<lparr>LeakCandidates = Errors, Transition = Some state3, EmittedReports = Rs\<rparr>)
        else
          Inr \<lparr>LeakCandidates = Errors, Transition = Some state3, EmittedReports = []\<rparr>)"

section \<open>The escape handler\<close>

datatype PointerEscapeKind =
  PSK_EscapeOnBind | PSK_DirectEscapeOnCall | PSK_IndirectEscapeOnCall | PSK_EscapeOther

text \<open>
  \<open>MallocChecker::checkPointerEscapeAux\<close>. The verdict of
  \<open>mayFreeAnyEscapedMemoryOrIsModeledExplicitly\<close> on the call, a boolean and the
  \<open>EscapingSymbol\<close> it may set, is the parameter \<open>mayFree\<close>: the handler treats the
  symbols that escape in the same way whatever the policy answers. The list
  \<open>EscapedSyms\<close> is the set \<open>Escaped\<close> of invalidated symbols in iteration order.
\<close>

definition checkIfNewOrNewArrayFamily :: "RefState \<Rightarrow> bool" where
  "checkIfNewOrNewArrayFamily RS =
     (getAllocationFamily RS = AF_CXXNewArray \<or> getAllocationFamily RS = AF_CXXNew)"

fun checkPointerEscapeAux_loop ::
  "SymbolRef option \<Rightarrow> bool \<Rightarrow> SymbolRef list \<Rightarrow> 'e ProgramState \<Rightarrow> 'e ProgramState" where
  "checkPointerEscapeAux_loop EscapingSymbol IsConstPointerEscape [] State = State"
| "checkPointerEscapeAux_loop EscapingSymbol IsConstPointerEscape (Sym # EscapedSyms) State =
     checkPointerEscapeAux_loop EscapingSymbol IsConstPointerEscape EscapedSyms
       (if EscapingSymbol \<noteq> None \<and> EscapingSymbol \<noteq> Some Sym then State
        else
          (case get_RegionState State Sym of
             None \<Rightarrow> State
           | Some RS \<Rightarrow>
               if isAllocated RS \<or> isAllocatedOfSizeZero RS then
                 (if \<not> IsConstPointerEscape \<or> checkIfNewOrNewArrayFamily RS
                  then set_RegionState Sym (getEscaped RS) State else State)
               else State))"

definition checkPointerEscapeAux ::
  "('c \<Rightarrow> 'e ProgramState \<Rightarrow> bool \<times> SymbolRef option) \<Rightarrow> 'e ProgramState \<Rightarrow> SymbolRef list \<Rightarrow>
   'c \<Rightarrow> PointerEscapeKind \<Rightarrow> bool \<Rightarrow> 'e ProgramState" where
  "checkPointerEscapeAux mayFree State EscapedSyms Call Kind IsConstPointerEscape =
     (let (MayFree, EscapingSymbol) =
            (if Kind = PSK_DirectEscapeOnCall then mayFree Call State else (True, None))
      in
      if Kind = PSK_DirectEscapeOnCall \<and> \<not> MayFree \<and> EscapingSymbol = None then State
      else checkPointerEscapeAux_loop EscapingSymbol IsConstPointerEscape EscapedSyms State)"

definition checkPointerEscape ::
  "('c \<Rightarrow> 'e ProgramState \<Rightarrow> bool \<times> SymbolRef option) \<Rightarrow> 'e ProgramState \<Rightarrow> SymbolRef list \<Rightarrow>
   'c \<Rightarrow> PointerEscapeKind \<Rightarrow> 'e ProgramState" where
  "checkPointerEscape mayFree State EscapedSyms Call Kind =
     checkPointerEscapeAux mayFree State EscapedSyms Call Kind False"

definition checkConstPointerEscape ::
  "('c \<Rightarrow> 'e ProgramState \<Rightarrow> bool \<times> SymbolRef option) \<Rightarrow> 'e ProgramState \<Rightarrow> SymbolRef list \<Rightarrow>
   'c \<Rightarrow> PointerEscapeKind \<Rightarrow> 'e ProgramState" where
  "checkConstPointerEscape mayFree State EscapedSyms Call Kind =
     checkPointerEscapeAux mayFree State EscapedSyms Call Kind True"

section \<open>The allocation-family classifier\<close>

datatype MemoryOperationKind = MOK_Allocate | MOK_Free | MOK_Any

text \<open>
  \<open>MemFunctionInfoTy::isCMemFunction\<close>. The identifiers are interned, so comparing
  \<open>FunI\<close> with \<open>II_free\<close> compares the names.
\<close>

definition isCMemFunction ::
  "MallocChecker \<Rightarrow> FunctionDecl option \<Rightarrow> AllocationFamily \<Rightarrow> MemoryOperationKind \<Rightarrow> bool" where
  "isCMemFunction Chk FDopt Family MemKind =
     (case FDopt of
        None \<Rightarrow> False
      | Some FD \<Rightarrow>
          let CheckFree = (MemKind = MOK_Any \<or> MemKind = MOK_Free);
              CheckAlloc = (MemKind = MOK_Any \<or> MemKind = MOK_Allocate);
              FunI = getIdentifier FD
          in
          if isDeclFunction FD \<and> Family = AF_Malloc \<and> CheckFree \<and>
             FunI \<in> Some ` {''free'', ''realloc'', ''reallocf'', ''g_free'', ''kfree''} then True
          else if isDeclFunction FD \<and> Family = AF_Malloc \<and> CheckAlloc \<and>
             FunI \<in> Some ` {''malloc'', ''realloc'', ''reallocf'', ''calloc'', ''valloc'', ''strdup'',
               ''_strdup'', ''strndup'', ''wcsdup'', ''_wcsdup'', ''kmalloc'', ''g_malloc'',
               ''g_malloc0'', ''g_realloc'', ''g_try_malloc'', ''g_try_malloc0'', ''g_try_realloc'',
               ''g_memdup'', ''g_malloc_n'', ''g_malloc0_n'', ''g_realloc_n'', ''g_try_malloc_n'',
               ''g_try_malloc0_n'', ''g_try_realloc_n''} then True
          else if isDeclFunction FD \<and> Family = AF_IfNameIndex \<and> CheckFree \<and>
             FunI = Some ''if_freenameindex'' then True
          else if isDeclFunction FD \<and> Family = AF_IfNameIndex \<and> CheckAlloc \<and>
             FunI = Some ''if_nameindex'' then True
          else if isDeclFunction FD \<and> Family = AF_Alloca \<and> CheckAlloc \<and>
             FunI \<in> Some ` {''alloca'', ''_alloca''} then True
          else if Family \<noteq> AF_Malloc then False
          else
            ShouldIncludeOwnershipAnnotatedFunctions Chk \<and>
            (\<exists>OwnKind \<in> set (OwnershipAttrs FD).
               if OwnKind = Takes \<or> OwnKind = Holds then CheckFree else CheckAlloc))"

definition isStandardNewDelete :: "FunctionDecl option \<Rightarrow> bool" where
  "isStandardNewDelete FDopt =
     (case FDopt of
        None \<Rightarrow> False
      | Some FD \<Rightarrow>
          let Kind = getOverloadedOperator FD in
          if Kind \<noteq> OO_New \<and> Kind \<noteq> OO_Array_New \<and> Kind \<noteq> OO_Delete \<and> Kind \<noteq> OO_Array_Delete
          then False
          else \<not> LocationIsValid FD \<or> LocationInSystemHeader FD)"

text \<open>The static function \<open>getAllocationFamily\<close> of a (de)allocating statement.\<close>

definition getAllocationFamily_Stmt ::
  "MallocChecker \<Rightarrow> 'e CheckerContext \<Rightarrow> StmtRef \<Rightarrow> AllocationFamily" where
  "getAllocationFamily_Stmt Chk C S =
     (case getStmtClass (getASTContext C) S of
        CallExprClass FD \<Rightarrow>
          if isCMemFunction Chk FD AF_Malloc MOK_Any then AF_Malloc
          else if isStandardNewDelete FD \<and>
                  (case FD of
                     Some D \<Rightarrow> getOverloadedOperator D = OO_New \<or> getOverloadedOperator D = OO_Delete
                   | None \<Rightarrow> False)
          then AF_CXXNew
          else if isStandardNewDelete FD \<and>
                  (case FD of
                     Some D \<Rightarrow> getOverloadedOperator D = OO_Array_New \<or>
                               getOverloadedOperator D = OO_Array_Delete
                   | None \<Rightarrow> False)
          then AF_CXXNewArray
          else if isCMemFunction Chk FD AF_IfNameIndex MOK_Any then AF_IfNameIndex
          else if isCMemFunction Chk FD AF_Alloca MOK_Any then AF_Alloca
          else AF_None
      | CXXNewExprClass ArraySize \<Rightarrow> (if ArraySize \<noteq> None then AF_CXXNewArray else AF_CXXNew)
      | CXXDeleteExprClass isArrayForm \<Rightarrow> (if isArrayForm then AF_CXXNewArray else AF_CXXNew)
      | ObjCMessageExprClass \<Rightarrow> AF_Malloc
      | OtherStmtClass \<Rightarrow> AF_None)"

text \<open>\<open>getCheckIfTracked(CheckerContext &, const Stmt *, bool)\<close>.\<close>

definition getCheckIfTracked_Stmt ::
  "MallocChecker \<Rightarrow> 'e CheckerContext \<Rightarrow> StmtRef \<Rightarrow> bool \<Rightarrow> error + CheckKind option" where
  "getCheckIfTracked_Stmt Chk C AllocDeallocStmt IsALeakCheck =
     getCheckIfTracked_Family Chk (getAllocationFamily_Stmt Chk C AllocDeallocStmt) IsALeakCheck"

section \<open>The reports of the deallocation modeler\<close>

text \<open>
  Each \<open>Report...\<close> function returns the reports it emits: none when its checks are
  disabled, when no check tracks the family, or when no error node is generated.
  \<open>printExpectedAllocName\<close> and \<open>printExpectedDeallocName\<close> are unreachable for the
  families \<open>AF_Alloca\<close> and \<open>AF_None\<close>.
\<close>

definition ReportBadFree ::
  "MallocChecker \<Rightarrow> 'e CheckerContext \<Rightarrow> SVal \<Rightarrow> StmtRef \<Rightarrow> error + BugReport list" where
  "ReportBadFree Chk C ArgVal DeallocExpr =
     (if \<not> ChecksEnabled Chk CK_MallocChecker \<and> \<not> ChecksEnabled Chk CK_NewDeleteChecker
      then Inr []
      else
        (case getCheckIfTracked_Stmt Chk C DeallocExpr False of
           Inl e \<Rightarrow> Inl e
         | Inr None \<Rightarrow> Inr []
         | Inr (Some CheckKind) \<Rightarrow>
             if generateErrorNode C then
               (let Family = getAllocationFamily_Stmt Chk C DeallocExpr in
                if Family = AF_Alloca \<or> Family = AF_None then Inl Unreachable
                else Inr [BadFreeReport CheckKind])
             else Inr []))"

definition ReportFreeAlloca ::
  "MallocChecker \<Rightarrow> 'e CheckerContext \<Rightarrow> SVal \<Rightarrow> error + BugReport list" where
  "ReportFreeAlloca Chk C ArgVal =
     (if ChecksEnabled Chk CK_MallocChecker then
        (if generateErrorNode C then Inr [FreeAllocaReport CK_MallocChecker] else Inr [])
      else if ChecksEnabled Chk CK_MismatchedDeallocatorChecker then
        (if generateErrorNode C then Inr [FreeAllocaReport CK_MismatchedDeallocatorChecker]
         else Inr [])
      else Inr [])"

definition ReportMismatchedDealloc ::
  "MallocChecker \<Rightarrow> 'e CheckerContext \<Rightarrow> StmtRef \<Rightarrow> RefState \<Rightarrow> SymbolRef \<Rightarrow> bool \<Rightarrow>
   error + BugReport list" where
  "ReportMismatchedDealloc Chk C DeallocExpr RS Sym OwnershipTransferred =
     (if \<not> ChecksEnabled Chk CK_MismatchedDeallocatorChecker then Inr []
      else if generateErrorNode C then
        (if \<not> OwnershipTransferred \<and>
            (getAllocationFamily RS = AF_Alloca \<or> getAllocationFamily RS = AF_None)
         then Inl Unreachable
         else Inr [MismatchedDeallocReport Sym])
      else Inr [])"

definition ReportOffsetFree ::
  "MallocChecker \<Rightarrow> 'e CheckerContext \<Rightarrow> SVal \<Rightarrow> StmtRef \<Rightarrow> StmtRef \<Rightarrow> error + BugReport list" where
  "ReportOffsetFree Chk C ArgVal DeallocExpr AllocExpr =
     (if \<not> ChecksEnabled Chk CK_MallocChecker \<and> \<not> ChecksEnabled Chk CK_NewDeleteChecker
      then Inr []
      else
        (case getCheckIfTracked_Stmt Chk C AllocExpr False of
           Inl e \<Rightarrow> Inl e
         | Inr None \<Rightarrow> Inr []
         | Inr (Some CheckKind) \<Rightarrow>
             if generateErrorNode C then Inr [OffsetFreeReport CheckKind] else Inr []))"

definition ReportDoubleFree ::
  "MallocChecker \<Rightarrow> 'e CheckerContext \<Rightarrow> bool \<Rightarrow> SymbolRef \<Rightarrow> SymbolRef option \<Rightarrow>
   error + BugReport list" where
  "ReportDoubleFree Chk C WasReleased Sym PrevSym =
     (if \<not> ChecksEnabled Chk CK_MallocChecker \<and> \<not> ChecksEnabled Chk CK_NewDeleteChecker
      then Inr []
      else
        (case getCheckIfTracked_Sym Chk C Sym False of
           Inl e \<Rightarrow> Inl e
         | Inr None \<Rightarrow> Inr []
         | Inr (Some CheckKind) \<Rightarrow>
             if generateErrorNode C then
               Inr [DoubleFreeReport CheckKind
                      (if WasReleased then ''Attempt to free released memory''
                       else ''Attempt to free non-owned memory'')
                      Sym PrevSym]
             else Inr []))"

definition ReportFunctionPointerFree ::
  "MallocChecker \<Rightarrow> 'e CheckerContext \<Rightarrow> SVal \<Rightarrow> StmtRef \<Rightarrow> error + BugReport list" where
  "ReportFunctionPointerFree Chk C ArgVal FreeExpr =
     (if \<not> ChecksEnabled Chk CK_MallocChecker then Inr []
      else
        (case getCheckIfTracked_Stmt Chk C FreeExpr False of
           Inl e \<Rightarrow> Inl e
         | Inr None \<Rightarrow> Inr []
         | Inr (Some CheckKind) \<Rightarrow>
             if generateErrorNode C then Inr [FunctionPointerFreeReport CheckKind] else Inr []))"

section \<open>The deallocation modeler\<close>

text \<open>
  What a modeler hands back: the state it returns (none for a null \<open>ProgramStateRef\<close>),
  the reports it emitted and the symbol dependencies it registered with the symbol
  manager (\<open>addSymbolDependency(Primary, Dependent)\<close> as the pair).
\<close>

record 'e Modeled =
  NewState :: "'e ProgramState option"
  Reports :: "BugReport list"
  SymbolDependencies :: "(SymbolRef \<times> SymbolRef) list"

definition returns :: "'e ProgramState option \<Rightarrow> 'e Modeled" where
  "returns State = \<lparr>NewState = State, Reports = [], SymbolDependencies = []\<rparr>"

definition reports_and_returns_null :: "error + BugReport list \<Rightarrow> bool \<Rightarrow> error + 'e Modeled \<times> bool" where
  "reports_and_returns_null R IsKnownToBeAllocated =
     (case R of
        Inl e \<Rightarrow> Inl e
      | Inr Rs \<Rightarrow> Inr (\<lparr>NewState = None, Reports = Rs, SymbolDependencies = []\<rparr>, IsKnownToBeAllocated))"

text \<open>
  \<open>didPreviousFreeFail\<close>: the result and the return-status symbol it stores in its
  reference parameter (left null when there is no entry).
\<close>

definition didPreviousFreeFail ::
  "'e CheckerContext \<Rightarrow> 'e ProgramState \<Rightarrow> SymbolRef \<Rightarrow> bool \<times> SymbolRef option" where
  "didPreviousFreeFail C State Sym =
     (case get_FreeReturnValue State Sym of
        Some Ret \<Rightarrow>
          (let FreeFailed = isNull C (EngineState State) Ret in
           (isConstrainedTrue FreeFailed, Some Ret))
      | None \<Rightarrow> (False, None))"

text \<open>
  \<open>MallocChecker::FreeMemAux\<close> on the argument expression. The reference parameter
  \<open>IsKnownToBeAllocated\<close> comes in with the caller's value and goes out in the second
  component of the result.
\<close>

definition FreeMemAux_Expr ::
  "MallocChecker \<Rightarrow> 'e CheckerContext \<Rightarrow> StmtRef \<Rightarrow> StmtRef \<Rightarrow> 'e ProgramState option \<Rightarrow> bool \<Rightarrow>
   bool \<Rightarrow> bool \<Rightarrow> error + 'e Modeled \<times> bool" where
  "FreeMemAux_Expr Chk C ArgExpr ParentExpr StateRef Hold IsKnownToBeAllocated ReturnsNullOnFailure =
     (case StateRef of
        None \<Rightarrow> Inr (returns None, IsKnownToBeAllocated)
      | Some State \<Rightarrow>
          let ArgVal = getSVal C ArgExpr in
          if isUndef ArgVal then Inr (returns None, IsKnownToBeAllocated)
          else if \<not> isLoc ArgVal then Inr (returns None, IsKnownToBeAllocated)
          else
            let (notNullState, nullState) = State_assume C State ArgVal in
            if nullState \<noteq> None \<and> notNullState = None then Inr (returns None, IsKnownToBeAllocated)
            else if isUnknownOrUndef ArgVal then Inr (returns None, IsKnownToBeAllocated)
            else
              (case getAsRegion ArgVal of
                 None \<Rightarrow>
                   reports_and_returns_null (ReportBadFree Chk C ArgVal ParentExpr) IsKnownToBeAllocated
               | Some R \<Rightarrow>
                   if isBlockDataRegion R then
                     reports_and_returns_null (ReportBadFree Chk C ArgVal ParentExpr) IsKnownToBeAllocated
                   else
                     let MS = getMemorySpace R in
                     if \<not> (MS = UnknownSpaceRegion \<or> MS = HeapSpaceRegion) then
                       (if isAllocaRegion R then
                          reports_and_returns_null (ReportFreeAlloca Chk C ArgVal) IsKnownToBeAllocated
                        else
                          reports_and_returns_null (ReportBadFree Chk C ArgVal ParentExpr)
                            IsKnownToBeAllocated)
                     else
                       (case getSymbol (getBaseRegion R) of
                          None \<Rightarrow> Inr (returns None, IsKnownToBeAllocated)
                        | Some SymBase \<Rightarrow>
                            let RsBase = get_RegionState State SymBase;
                                IsKnown =
                                  (case RsBase of
                                     None \<Rightarrow> False
                                   | Some RS \<Rightarrow> isAllocated RS \<or> isAllocatedOfSizeZero RS);
                                Checked =
                                  (case RsBase of
                                     None \<Rightarrow> None
                                   | Some RS \<Rightarrow>
                                       if getAllocationFamily RS = AF_Alloca then
                                         Some (ReportFreeAlloca Chk C ArgVal)
                                       else if (isReleased RS \<or> isRelinquished RS) \<and>
                                               \<not> fst (didPreviousFreeFail C State SymBase) then
                                         Some (ReportDoubleFree Chk C (isReleased RS) SymBase
                                                 (snd (didPreviousFreeFail C State SymBase)))
                                       else if isAllocated RS \<or> isAllocatedOfSizeZero RS \<or> isEscaped RS then
                                         (let DeallocMatchesAlloc =
                                                (getAllocationFamily RS =
                                                   getAllocationFamily_Stmt Chk C ParentExpr);
                                              Offset = getAsOffset R
                                          in
                                          if \<not> DeallocMatchesAlloc then
                                            Some (ReportMismatchedDealloc Chk C ParentExpr RS SymBase Hold)
                                          else
                                            (case Offset of
                                               ConcreteOffset n \<Rightarrow>
                                                 if n \<noteq> 0 then
                                                   Some (ReportOffsetFree Chk C ArgVal ParentExpr (getStmt RS))
                                                 else None
                                             | _ \<Rightarrow> None))
                                       else None)
                            in
                            (case Checked of
                               Some Rep \<Rightarrow> reports_and_returns_null Rep IsKnown
                             | None \<Rightarrow>
                                 if isFunctionPointerType C SymBase then
                                   reports_and_returns_null
                                     (ReportFunctionPointerFree Chk C ArgVal ParentExpr) IsKnown
                                 else
                                   let State1 = remove_FreeReturnValue SymBase State;
                                       RetStatusSymbol =
                                         (if ReturnsNullOnFailure then getAsSymbol (getSVal C ParentExpr)
                                          else None);
                                       State2 =
                                         (case RetStatusSymbol of
                                            Some Ret \<Rightarrow> set_FreeReturnValue SymBase Ret State1
                                          | None \<Rightarrow> State1);
                                       Deps =
                                         (case RetStatusSymbol of
                                            Some Ret \<Rightarrow> [(SymBase, Ret)]
                                          | None \<Rightarrow> []);
                                       Family =
                                         (case RsBase of
                                            Some RS \<Rightarrow> getAllocationFamily RS
                                          | None \<Rightarrow> getAllocationFamily_Stmt Chk C ParentExpr)
                                   in
                                   if \<not> RefState_assert Family then Inl AssertionFailure
                                   else
                                     Inr (\<lparr>NewState =
                                             Some (set_RegionState SymBase
                                                     (if Hold then getRelinquished Family ParentExpr
                                                      else getReleased Family ParentExpr) State2),
                                           Reports = [], SymbolDependencies = Deps\<rparr>,
                                          IsKnown)))))"

text \<open>\<open>MallocChecker::FreeMemAux\<close> on the call and the index of the freed argument.\<close>

definition FreeMemAux ::
  "MallocChecker \<Rightarrow> 'e CheckerContext \<Rightarrow> StmtRef \<Rightarrow> 'e ProgramState option \<Rightarrow> nat \<Rightarrow> bool \<Rightarrow>
   bool \<Rightarrow> bool \<Rightarrow> error + 'e Modeled \<times> bool" where
  "FreeMemAux Chk C CE StateRef Num Hold IsKnownToBeAllocated ReturnsNullOnFailure =
     (case StateRef of
        None \<Rightarrow> Inr (returns None, IsKnownToBeAllocated)
      | Some State \<Rightarrow>
          (case getArg (getASTContext C) CE Num of
             None \<Rightarrow> Inr (returns None, IsKnownToBeAllocated)
           | Some ArgExpr \<Rightarrow>
               FreeMemAux_Expr Chk C ArgExpr CE (Some State) Hold IsKnownToBeAllocated
                 ReturnsNullOnFailure))"

section \<open>The allocation modeler\<close>

text \<open>
  \<open>MallocUpdateRefState\<close>. The value of the expression is read from the node
  (\<open>C.getSVal(E)\<close>) unless \<open>RetVal\<close> is given.
\<close>

definition MallocUpdateRefState ::
  "'e CheckerContext \<Rightarrow> StmtRef \<Rightarrow> 'e ProgramState option \<Rightarrow> AllocationFamily \<Rightarrow> SVal option \<Rightarrow>
   error + 'e ProgramState option" where
  "MallocUpdateRefState C E StateRef Family RetValOpt =
     (case StateRef of
        None \<Rightarrow> Inr None
      | Some State \<Rightarrow>
          let RetVal = (case RetValOpt of None \<Rightarrow> getSVal C E | Some V \<Rightarrow> V) in
          if \<not> isLoc RetVal then Inr None
          else
            (case getAsLocSymbol RetVal of
               None \<Rightarrow> Inl AssertionFailure
             | Some Sym \<Rightarrow>
                 if \<not> RefState_assert Family then Inl AssertionFailure
                 else Inr (Some (set_RegionState Sym (getAllocated Family E) State))))"

text \<open>\<open>MallocChecker::MallocMemAux\<close> with the size as a value.\<close>

definition MallocMemAux_SVal ::
  "'e CheckerContext \<Rightarrow> StmtRef \<Rightarrow> SVal \<Rightarrow> SVal \<Rightarrow> 'e ProgramState option \<Rightarrow> AllocationFamily \<Rightarrow>
   error + 'e ProgramState option" where
  "MallocMemAux_SVal C CE Size Init StateRef Family =
     (case StateRef of
        None \<Rightarrow> Inr None
      | Some State \<Rightarrow>
          if \<not> isLocType C (getType (getASTContext C) CE) then Inr None
          else
            let RetVal = getConjuredHeapSymbolVal C CE in
            if isUnknownOrUndef RetVal then Inl AssertionFailure
            else
              let State1 = BindExpr C State CE RetVal;
                  State2 = bindDefaultInitial C State1 RetVal Init
              in
              (case getAsRegion RetVal of
                 Some (SymbolicRegion Sym MS) \<Rightarrow>
                   if \<not> isUndef Size then
                     (let Extent = getExtent C (SymbolicRegion Sym MS);
                          extentMatchesSize = evalEQ C State2 Extent Size
                      in
                      case State_assumeTrue C State2 extentMatchesSize of
                        None \<Rightarrow> Inl AssertionFailure
                      | Some State3 \<Rightarrow> MallocUpdateRefState C CE (Some State3) Family None)
                   else MallocUpdateRefState C CE (Some State2) Family None
               | _ \<Rightarrow> Inr None))"

text \<open>\<open>MallocChecker::MallocMemAux\<close> with the size as an expression.\<close>

definition MallocMemAux ::
  "'e CheckerContext \<Rightarrow> StmtRef \<Rightarrow> StmtRef \<Rightarrow> SVal \<Rightarrow> 'e ProgramState option \<Rightarrow> AllocationFamily \<Rightarrow>
   error + 'e ProgramState option" where
  "MallocMemAux C CE SizeEx Init StateRef Family =
     (case StateRef of
        None \<Rightarrow> Inr None
      | Some State \<Rightarrow> MallocMemAux_SVal C CE (getSVal C SizeEx) Init (Some State) Family)"

text \<open>\<open>MallocChecker::ProcessZeroAllocCheck\<close>.\<close>

definition ProcessZeroAllocCheck ::
  "'e CheckerContext \<Rightarrow> StmtRef \<Rightarrow> nat \<Rightarrow> 'e ProgramState option \<Rightarrow> SVal option \<Rightarrow>
   error + 'e ProgramState option" where
  "ProcessZeroAllocCheck C E IndexOfSizeArg StateRef RetValOpt =
     (case StateRef of
        None \<Rightarrow> Inr None
      | Some State \<Rightarrow>
          let RetVal = (case RetValOpt of None \<Rightarrow> getSVal C E | Some V \<Rightarrow> V);
              check = (\<lambda>Arg.
                let ArgVal = getSVal C Arg in
                if isUnknownOrUndef ArgVal then Inr (Some State)
                else
                  let Zero = makeZeroVal C (getType (getASTContext C) Arg);
                      (TrueState, FalseState) = State_assume C State (evalEQ C State ArgVal Zero)
                  in
                  (case (TrueState, FalseState) of
                     (Some TState, None) \<Rightarrow>
                       (case getAsLocSymbol RetVal of
                          None \<Rightarrow> Inr (Some State)
                        | Some Sym \<Rightarrow>
                            (case get_RegionState State Sym of
                               Some RS \<Rightarrow>
                                 if isAllocated RS then
                                   Inr (Some (set_RegionState Sym (getAllocatedOfSizeZero RS) TState))
                                 else Inr (Some State)
                             | None \<Rightarrow> Inr (Some (add_ReallocSizeZeroSymbols Sym TState))))
                   | (_, Some FState) \<Rightarrow> Inr (Some FState)
                   | (None, None) \<Rightarrow> Inl AssertionFailure))
          in
          (case getStmtClass (getASTContext C) E of
             CallExprClass FD \<Rightarrow>
               (case getArg (getASTContext C) E IndexOfSizeArg of
                  None \<Rightarrow> Inl AssertionFailure
                | Some Arg \<Rightarrow> check Arg)
           | CXXNewExprClass ArraySize \<Rightarrow>
               (case ArraySize of
                  Some Arg \<Rightarrow> check Arg
                | None \<Rightarrow> Inr (Some State))
           | _ \<Rightarrow> Inl Unreachable))"

text \<open>
  \<open>MallocChecker::performKernelMalloc\<close>. The member \<open>KernelZeroFlagVal\<close> is a cache
  that the function fills on its first call on a known platform; it comes in as an
  argument and goes out as the first component of the result. The second component is
  the \<open>llvm::Optional\<close> of a \<open>ProgramStateRef\<close> returned.
\<close>

definition KernelZeroFlag_of_OS :: "OSType \<Rightarrow> 64 word option" where
  "KernelZeroFlag_of_OS OS =
     (if OS = FreeBSD then Some 0x0100
      else if OS = NetBSD then Some 0x0002
      else if OS = OpenBSD then Some 0x0008
      else if OS = Linux then Some 0x8000
      else None)"

definition performKernelMalloc ::
  "'e CheckerContext \<Rightarrow> 64 word option \<Rightarrow> StmtRef \<Rightarrow> 'e ProgramState \<Rightarrow>
   64 word option \<times> (error + 'e ProgramState option option)" where
  "performKernelMalloc C KernelZeroFlagVal CE State =
     (let Ctx = getASTContext C;
          Cache = (case KernelZeroFlagVal of
                     Some X \<Rightarrow> Some X
                   | None \<Rightarrow> KernelZeroFlag_of_OS (getOS C))
      in
      case Cache of
        None \<Rightarrow> (None, Inr None)
      | Some ZeroFlagVal \<Rightarrow>
          (Cache,
           if getNumArgs Ctx CE < 2 then Inr None
           else
             let FlagsEx = last (getArgs Ctx CE);
                 V = getSVal C FlagsEx
             in
             if \<not> isNonLoc V then Inr None
             else
               let Flags = V;
                   ZeroFlag = makeIntVal C ZeroFlagVal (getType Ctx FlagsEx);
                   MaskedFlagsUC = evalBinOpNN C State BO_And Flags ZeroFlag (getType Ctx FlagsEx)
               in
               if isUnknownOrUndef MaskedFlagsUC then Inr None
               else
                 let (TrueState, FalseState) = State_assume C State MaskedFlagsUC in
                 if TrueState \<noteq> None \<and> FalseState = None then
                   (let ZeroVal = makeZeroVal C (CharTy Ctx) in
                    case MallocMemAux C CE (hd (getArgs Ctx CE)) ZeroVal TrueState AF_Malloc of
                      Inl e \<Rightarrow> Inl e
                    | Inr S \<Rightarrow> Inr (Some S))
                 else Inr None))"

text \<open>
  The two branches of \<open>checkPostStmt(const CallExpr *)\<close> that call
  \<open>performKernelMalloc\<close>: the callee \<open>kmalloc\<close>, and the callees \<open>malloc\<close>,
  \<open>g_malloc\<close> and \<open>g_try_malloc\<close>, switching on the number of arguments. The result is
  the value of \<open>State\<close> at the end of the branch, or nothing where the callback
  returns at once; the ownership attributes handled after the branches are not modelled.
\<close>

definition checkPostStmt_kmalloc ::
  "'e CheckerContext \<Rightarrow> 64 word option \<Rightarrow> StmtRef \<Rightarrow> 'e ProgramState \<Rightarrow>
   64 word option \<times> (error + 'e ProgramState option option)" where
  "checkPostStmt_kmalloc C KernelZeroFlagVal CE State =
     (if getNumArgs (getASTContext C) CE < 1 then (KernelZeroFlagVal, Inr None)
      else
        let (Cache, MaybeState) = performKernelMalloc C KernelZeroFlagVal CE State in
        (Cache,
         case MaybeState of
           Inl e \<Rightarrow> Inl e
         | Inr (Some S) \<Rightarrow> Inr (Some S)
         | Inr None \<Rightarrow>
             (case MallocMemAux C CE (hd (getArgs (getASTContext C) CE)) UndefinedVal (Some State) AF_Malloc of
                Inl e \<Rightarrow> Inl e
              | Inr S \<Rightarrow> Inr (Some S))))"

definition checkPostStmt_malloc ::
  "'e CheckerContext \<Rightarrow> 64 word option \<Rightarrow> StmtRef \<Rightarrow> 'e ProgramState \<Rightarrow>
   64 word option \<times> (error + 'e ProgramState option option)" where
  "checkPostStmt_malloc C KernelZeroFlagVal CE State =
     (let Ctx = getASTContext C in
      if getNumArgs Ctx CE = 1 then
        (KernelZeroFlagVal,
         case MallocMemAux C CE (hd (getArgs Ctx CE)) UndefinedVal (Some State) AF_Malloc of
           Inl e \<Rightarrow> Inl e
         | Inr S \<Rightarrow>
             (case ProcessZeroAllocCheck C CE 0 S None of
                Inl e \<Rightarrow> Inl e
              | Inr S' \<Rightarrow> Inr (Some S')))
      else if getNumArgs Ctx CE = 2 then
        (KernelZeroFlagVal,
         case MallocMemAux C CE (hd (getArgs Ctx CE)) UndefinedVal (Some State) AF_Malloc of
           Inl e \<Rightarrow> Inl e
         | Inr S \<Rightarrow> Inr (Some S))
      else if getNumArgs Ctx CE = 3 then
        (let (Cache, MaybeState) = performKernelMalloc C KernelZeroFlagVal CE State in
         (Cache,
          case MaybeState of
            Inl e \<Rightarrow> Inl e
          | Inr (Some S) \<Rightarrow> Inr (Some S)
          | Inr None \<Rightarrow>
              (case MallocMemAux C CE (hd (getArgs Ctx CE)) UndefinedVal (Some State) AF_Malloc of
                 Inl e \<Rightarrow> Inl e
               | Inr S \<Rightarrow> Inr (Some S))))
      else (KernelZeroFlagVal, Inr None))"

section \<open>The realloc modeler\<close>

definition evalMulForBufferSize :: "'e CheckerContext \<Rightarrow> StmtRef \<Rightarrow> StmtRef \<Rightarrow> SVal" where
  "evalMulForBufferSize C Blocks BlockBytes =
     (let BlocksVal = getSVal C Blocks;
          BlockBytesVal = getSVal C BlockBytes;
          State = getState C
      in evalBinOp C State BO_Mul BlocksVal BlockBytesVal (getSizeType (getASTContext C)))"

text \<open>
  \<open>MallocChecker::ReallocMemAux\<close>. The reports are those of its calls of
  \<open>FreeMemAux\<close>, in order.
\<close>

definition ReallocMemAux ::
  "MallocChecker \<Rightarrow> 'e CheckerContext \<Rightarrow> StmtRef \<Rightarrow> bool \<Rightarrow> 'e ProgramState option \<Rightarrow> bool \<Rightarrow>
   error + 'e Modeled" where
  "ReallocMemAux Chk C CE ShouldFreeOnFail StateRef SuffixWithN =
     (case StateRef of
        None \<Rightarrow> Inr (returns None)
      | Some State \<Rightarrow>
          let Ctx = getASTContext C in
          if SuffixWithN \<and> getNumArgs Ctx CE < 3 then Inr (returns None)
          else if getNumArgs Ctx CE < 2 then Inr (returns None)
          else
            let arg0Expr = getArgs Ctx CE ! 0;
                Arg0Val = getSVal C arg0Expr
            in
            if isUndef Arg0Val then Inr (returns None)
            else
              let PtrEQ = evalEQ C State Arg0Val (makeNull C);
                  Arg1 = getArgs Ctx CE ! 1;
                  TotalSize =
                    (if SuffixWithN then evalMulForBufferSize C Arg1 (getArgs Ctx CE ! 2)
                     else getSVal C Arg1)
              in
              if isUndef TotalSize then Inr (returns None)
              else
                let SizeZero = evalEQ C State TotalSize (makeIntValWithPtrWidth C 0 False);
                    (StatePtrIsNull, StatePtrNotNull) = State_assume C State PtrEQ;
                    (StateSizeIsZero, StateSizeNotZero) = State_assume C State SizeZero;
                    PrtIsNull = (StatePtrIsNull \<noteq> None \<and> StatePtrNotNull = None);
                    SizeIsZero = (StateSizeIsZero \<noteq> None \<and> StateSizeNotZero = None)
                in
                if PrtIsNull \<and> \<not> SizeIsZero then
                  (case MallocMemAux_SVal C CE TotalSize UndefinedVal StatePtrIsNull AF_Malloc of
                     Inl e \<Rightarrow> Inl e
                   | Inr stateMalloc \<Rightarrow> Inr (returns stateMalloc))
                else if PrtIsNull \<and> SizeIsZero then Inr (returns (Some State))
                else
                  (case (getAsSymbol Arg0Val, getAsSymbol (getSVal C CE)) of
                     (Some FromPtr, Some ToPtr) \<Rightarrow>
                       (case (if SizeIsZero then FreeMemAux Chk C CE StateSizeIsZero 0 False False False
                              else Inr (returns None, False)) of
                          Inl e \<Rightarrow> Inl e
                        | Inr (Freed0, IsKnown0) \<Rightarrow>
                            if NewState Freed0 \<noteq> None then Inr Freed0
                            else
                              (case FreeMemAux Chk C CE (Some State) 0 False IsKnown0 False of
                                 Inl e \<Rightarrow> Inl e
                               | Inr (Freed, IsKnownToBeAllocated) \<Rightarrow>
                                   (case NewState Freed of
                                      None \<Rightarrow>
                                        Inr \<lparr>NewState = None,
                                             Reports = Reports Freed0 @ Reports Freed,
                                             SymbolDependencies =
                                               SymbolDependencies Freed0 @ SymbolDependencies Freed\<rparr>
                                    | Some stateFree \<Rightarrow>
                                        (case MallocMemAux_SVal C CE TotalSize UnknownVal (Some stateFree)
                                                AF_Malloc of
                                           Inl e \<Rightarrow> Inl e
                                         | Inr None \<Rightarrow>
                                             Inr \<lparr>NewState = None,
                                                  Reports = Reports Freed0 @ Reports Freed,
                                                  SymbolDependencies =
                                                    SymbolDependencies Freed0 @ SymbolDependencies Freed\<rparr>
                                         | Inr (Some stateRealloc) \<Rightarrow>
                                             let Kind =
                                                   (if ShouldFreeOnFail then OAR_FreeOnFailure
                                                    else if \<not> IsKnownToBeAllocated
                                                    then OAR_DoNotTrackAfterFailure
                                                    else OAR_ToBeFreedAfterFailure)
                                             in
                                             Inr \<lparr>NewState =
                                                    Some (set_ReallocPairs ToPtr (ReallocPair FromPtr Kind)
                                                            stateRealloc),
                                                  Reports = Reports Freed0 @ Reports Freed,
                                                  SymbolDependencies =
                                                    SymbolDependencies Freed0 @ SymbolDependencies Freed
                                                    @ [(ToPtr, FromPtr)]\<rparr>))))
                   | _ \<Rightarrow> Inr (returns None)))"

section \<open>Reading the reports of a modeler\<close>

text \<open>
  The reports that a call of the deallocation modeler emitted (none when it stopped on
  a failed assertion), and the test for a double-free report.
\<close>

definition emitted :: "error + 'e Modeled \<times> bool \<Rightarrow> BugReport list" where
  "emitted r = (case r of Inl e \<Rightarrow> [] | Inr Res \<Rightarrow> Reports (fst Res))"

fun isDoubleFreeReport :: "BugReport \<Rightarrow> bool" where
  "isDoubleFreeReport (DoubleFreeReport CK msg Sym Prev) = True"
| "isDoubleFreeReport R = False"

section \<open>Example inputs\<close>

text \<open>
  The engine of the examples keeps, as its share of a state, the log of what it was
  asked to assume and to bind.
\<close>

datatype EngineEvent = Assumed SVal bool | Bound StmtRef SVal | DefaultInitial SVal SVal

type_synonym EngineLog = "EngineEvent list"

text \<open>
  A constraint manager that knows exactly symbol 1 to be null, and three states of a
  path on which \<open>q = realloc(p, n)\<close> was modelled with \<open>q\<close> symbol 1 and \<open>p\<close>
  symbol 2.
\<close>

definition only_1_is_null :: "EngineLog ConstraintManager" where
  "only_1_is_null e Sym = (if Sym = 1 then ConstrainedTrue else Underconstrained)"

definition realloc_failed_state :: "EngineLog ProgramState" where
  "realloc_failed_state =
     \<lparr>RegionState = [(1, RefState Allocated 5 AF_Malloc), (2, RefState Released 5 AF_Malloc)],
      ReallocPairs = [(1, ReallocPair 2 OAR_ToBeFreedAfterFailure)],
      FreeReturnValue = [], ReallocSizeZeroSymbols = [], EngineState = []\<rparr>"

definition realloc_failed_untracked_state :: "EngineLog ProgramState" where
  "realloc_failed_untracked_state =
     \<lparr>RegionState = [(1, RefState Allocated 5 AF_Malloc)],
      ReallocPairs = [(1, ReallocPair 2 OAR_ToBeFreedAfterFailure)],
      FreeReturnValue = [], ReallocSizeZeroSymbols = [], EngineState = []\<rparr>"

definition realloc_failed_escaped_state :: "EngineLog ProgramState" where
  "realloc_failed_escaped_state =
     \<lparr>RegionState = [(1, RefState Allocated 5 AF_Malloc), (2, RefState Escaped 4 AF_Malloc)],
      ReallocPairs = [(1, ReallocPair 2 OAR_DoNotTrackAfterFailure)],
      FreeReturnValue = [], ReallocSizeZeroSymbols = [], EngineState = []\<rparr>"

definition all_checks_enabled :: MallocChecker where
  "all_checks_enabled =
     \<lparr>ChecksEnabled = (\<lambda>CK. True), ShouldIncludeOwnershipAnnotatedFunctions = False\<rparr>"

text \<open>
  A syntax tree for the examples: statement 10 is a call \<open>free(p)\<close> with argument
  expression 11, statement 20 is a call \<open>malloc(n)\<close> with argument 21, statement 30 is
  a call \<open>kmalloc(n, flags)\<close> with arguments 31 and 32, statement 40 is a call
  \<open>realloc(p, n)\<close> with arguments 41 and 42, statement 50 is a call to \<open>malloc\<close>
  declared to return \<open>int\<close>, statement 60 is a call \<open>reallocf(p, n)\<close> with arguments
  61 and 62, and statement 70 is a call \<open>g_realloc_n(p, n, m)\<close> with arguments 71, 72
  and 73. Type 1 is the pointer type.
\<close>

definition decl_of :: "string \<Rightarrow> FunctionDecl" where
  "decl_of name =
     \<lparr>isDeclFunction = True, getIdentifier = Some name, getOverloadedOperator = OO_None,
      LocationIsValid = True, LocationInSystemHeader = True, OwnershipAttrs = []\<rparr>"

definition example_AST :: ASTContext where
  "example_AST =
     \<lparr>getStmtClass = (\<lambda>S.
        if S = 10 then CallExprClass (Some (decl_of ''free''))
        else if S = 20 \<or> S = 50 then CallExprClass (Some (decl_of ''malloc''))
        else if S = 30 then CallExprClass (Some (decl_of ''kmalloc''))
        else if S = 40 then CallExprClass (Some (decl_of ''realloc''))
        else if S = 60 then CallExprClass (Some (decl_of ''reallocf''))
        else if S = 70 then CallExprClass (Some (decl_of ''g_realloc_n''))
        else OtherStmtClass),
      getType = (\<lambda>S. if S \<in> {10, 11, 20, 30, 40, 41, 60, 61, 70, 71} then 1 else 3),
      getArgs = (\<lambda>S.
        if S = 10 then [11] else if S = 20 then [21] else if S = 30 then [31, 32]
        else if S = 40 then [41, 42] else if S = 50 then [51]
        else if S = 60 then [61, 62] else if S = 70 then [71, 72, 73] else []),
      CharTy = 0,
      getSizeType = 2\<rparr>"

text \<open>
  A context over a given node state. The pointer \<open>p\<close> (expressions 11, 41, 61 and 71)
  is the region of symbol 1, the sizes and counts (expressions 21, 31, 42, 51, 62, 72 and
  73) are the unknown symbol 7,
  the flags (expression 32) are the constant \<open>0x8020\<close>, and the value of a call is the
  region of the symbol with the call's own number, which is also the symbol the engine
  conjures for it. The engine decides an assumption on a constant by its value and
  finds every other assumption feasible both ways; nothing is known to be null; error
  nodes can be made; the platform is Linux.
\<close>

definition log_event :: "EngineEvent \<Rightarrow> EngineLog ProgramState \<Rightarrow> EngineLog ProgramState" where
  "log_event ev State = State\<lparr>EngineState := ev # EngineState State\<rparr>"

definition example_assume ::
  "EngineLog ProgramState \<Rightarrow> SVal \<Rightarrow> EngineLog ProgramState option \<times> EngineLog ProgramState option" where
  "example_assume State Cond =
     (case Cond of
        nonloc_ConcreteInt n \<Rightarrow> (if n \<noteq> 0 then (Some State, None) else (None, Some State))
      | loc_ConcreteInt n \<Rightarrow> (if n \<noteq> 0 then (Some State, None) else (None, Some State))
      | _ \<Rightarrow> (Some (log_event (Assumed Cond True) State), Some (log_event (Assumed Cond False) State)))"

definition example_evalBinOp :: "BinaryOperatorKind \<Rightarrow> SVal \<Rightarrow> SVal \<Rightarrow> SVal" where
  "example_evalBinOp Op L R =
     (case (L, R) of
        (nonloc_ConcreteInt a, nonloc_ConcreteInt b) \<Rightarrow>
          nonloc_ConcreteInt (if Op = BO_And then a AND b else a * b)
      | _ \<Rightarrow> UnknownVal)"

definition example_getSVal :: "StmtRef \<Rightarrow> SVal" where
  "example_getSVal E =
     (if E = 11 \<or> E = 41 \<or> E = 61 \<or> E = 71
      then loc_MemRegionVal (SymbolicRegion 1 UnknownSpaceRegion)
      else if E = 21 \<or> E = 31 \<or> E = 42 \<or> E = 51 \<or> E = 62 \<or> E = 72 \<or> E = 73
      then nonloc_SymbolVal 7
      else if E = 32 then nonloc_ConcreteInt 0x8020
      else if E = 20 \<or> E = 30 \<or> E = 40 \<or> E = 60 \<or> E = 70
      then loc_MemRegionVal (SymbolicRegion E HeapSpaceRegion)
      else UnknownVal)"

definition example_context :: "EngineLog ProgramState \<Rightarrow> EngineLog CheckerContext" where
  "example_context st =
     \<lparr>getState = st,
      getASTContext = example_AST,
      getSVal = example_getSVal,
      generateErrorNode = True,
      generateNonFatalErrorNode = True,
      getOS = Linux,
      isNull = (\<lambda>e Sym. Underconstrained),
      State_assume = example_assume,
      State_assumeTrue = (\<lambda>State Cond. Some (log_event (Assumed Cond True) State)),
      evalEQ = (\<lambda>State L R. nonloc_SymbolVal 100),
      evalBinOp = (\<lambda>State Op L R T. example_evalBinOp Op L R),
      evalBinOpNN = (\<lambda>State Op L R T. example_evalBinOp Op L R),
      makeIntVal = (\<lambda>X T. nonloc_ConcreteInt (uint X)),
      makeZeroVal = (\<lambda>T. nonloc_ConcreteInt 0),
      makeNull = loc_ConcreteInt 0,
      makeIntValWithPtrWidth = (\<lambda>X isUnsigned. nonloc_ConcreteInt X),
      getConjuredHeapSymbolVal = (\<lambda>E. loc_MemRegionVal (SymbolicRegion E HeapSpaceRegion)),
      BindExpr = (\<lambda>State E V. log_event (Bound E V) State),
      bindDefaultInitial = (\<lambda>State V Init. log_event (DefaultInitial V Init) State),
      getExtent = (\<lambda>R. nonloc_SymbolVal 101),
      isLocType = (\<lambda>T. T = 1),
      isFunctionPointerType = (\<lambda>Sym. False)\<rparr>"

text \<open>
  Symbol reapers that report symbols 1 and 3 dead, symbols 1, 2 and 3, and only symbol 1.
  In \<open>dying_state\<close> symbol 1 is a live \<open>malloc\<close> block that came from the \<open>realloc\<close> of
  the released symbol 2, symbol 3 comes from \<open>alloca\<close>, symbol 7 is released, and the
  frees of symbols 2 and 7 returned the status symbols 4 and 8.
  In \<open>dangling_pair_state\<close> the to-symbol 1 of a realloc pair is dead but has no
  record in the region table (a block that captured it stopped its tracking).
\<close>

definition dead_1_and_3 :: "SymbolRef \<Rightarrow> bool" where
  "dead_1_and_3 Sym = (Sym = 1 \<or> Sym = 3)"

definition dead_1_2_and_3 :: "SymbolRef \<Rightarrow> bool" where
  "dead_1_2_and_3 Sym = (Sym = 1 \<or> Sym = 2 \<or> Sym = 3)"

definition only_1_is_dead :: "SymbolRef \<Rightarrow> bool" where
  "only_1_is_dead Sym = (Sym = 1)"

definition dying_state :: "EngineLog ProgramState" where
  "dying_state =
     \<lparr>RegionState = [(1, RefState Allocated 5 AF_Malloc), (2, RefState Released 6 AF_Malloc),
                      (3, RefState Allocated 7 AF_Alloca), (7, RefState Released 9 AF_Malloc)],
      ReallocPairs = [(1, ReallocPair 2 OAR_ToBeFreedAfterFailure)],
      FreeReturnValue = [(2, 4), (7, 8)],
      ReallocSizeZeroSymbols = [], EngineState = []\<rparr>"

definition dangling_pair_state :: "EngineLog ProgramState" where
  "dangling_pair_state =
     \<lparr>RegionState = [(2, RefState Released 6 AF_Malloc)],
      ReallocPairs = [(1, ReallocPair 2 OAR_ToBeFreedAfterFailure)],
      FreeReturnValue = [], ReallocSizeZeroSymbols = [], EngineState = []\<rparr>"

text \<open>
  An escape policy under which every call may free, and a state with a \<open>malloc\<close> block,
  a \<open>new\<close> object and a released block.
\<close>

definition may_free_anything :: "unit \<Rightarrow> EngineLog ProgramState \<Rightarrow> bool \<times> SymbolRef option" where
  "may_free_anything Call State = (True, None)"

definition escaping_state :: "EngineLog ProgramState" where
  "escaping_state =
     \<lparr>RegionState = [(1, RefState Allocated 5 AF_Malloc), (2, RefState Allocated 6 AF_CXXNew),
                      (3, RefState Released 7 AF_Malloc)],
      ReallocPairs = [], FreeReturnValue = [], ReallocSizeZeroSymbols = [], EngineState = []\<rparr>"

text \<open>
  States for the modelers: one with the live \<open>malloc\<close> block of symbol 1, one in which
  that block was released by the \<open>free\<close> of statement 10, and one after the \<open>malloc\<close>
  of statement 20 was modelled; a state that tracks nothing, and one in which the
  released block of symbol 1 is also in the set of zero-size reallocations. A checker
  with only the mismatched-deallocator check enabled, one with only the
  \<open>NewDeleteChecker\<close> check enabled, and a context whose engine finds every assumption
  provably true.
\<close>

definition one_block_state :: "EngineLog ProgramState" where
  "one_block_state =
     \<lparr>RegionState = [(1, RefState Allocated 20 AF_Malloc)],
      ReallocPairs = [], FreeReturnValue = [], ReallocSizeZeroSymbols = [], EngineState = []\<rparr>"

definition freed_block_state :: "EngineLog ProgramState" where
  "freed_block_state =
     \<lparr>RegionState = [(1, RefState Released 10 AF_Malloc)],
      ReallocPairs = [], FreeReturnValue = [], ReallocSizeZeroSymbols = [], EngineState = []\<rparr>"

definition malloc_done_state :: "EngineLog ProgramState" where
  "malloc_done_state =
     \<lparr>RegionState = [(20, RefState Allocated 20 AF_Malloc)],
      ReallocPairs = [], FreeReturnValue = [], ReallocSizeZeroSymbols = [], EngineState = []\<rparr>"

definition empty_state :: "EngineLog ProgramState" where
  "empty_state =
     \<lparr>RegionState = [], ReallocPairs = [], FreeReturnValue = [], ReallocSizeZeroSymbols = [],
      EngineState = []\<rparr>"

definition freed_zero_size_state :: "EngineLog ProgramState" where
  "freed_zero_size_state =
     \<lparr>RegionState = [(1, RefState Released 10 AF_Malloc)],
      ReallocPairs = [], FreeReturnValue = [], ReallocSizeZeroSymbols = [1], EngineState = []\<rparr>"

definition only_new_delete_enabled :: MallocChecker where
  "only_new_delete_enabled =
     \<lparr>ChecksEnabled = (\<lambda>CK. CK = CK_NewDeleteChecker),
      ShouldIncludeOwnershipAnnotatedFunctions = False\<rparr>"

definition only_mismatched_enabled :: MallocChecker where
  "only_mismatched_enabled =
     \<lparr>ChecksEnabled = (\<lambda>CK. CK = CK_MismatchedDeallocatorChecker),
      ShouldIncludeOwnershipAnnotatedFunctions = False\<rparr>"

definition always_true_context :: "EngineLog ProgramState \<Rightarrow> EngineLog CheckerContext" where
  "always_true_context st =
     (example_context st)
       \<lparr>State_assume := (\<lambda>State Cond. (Some (log_event (Assumed Cond True) State), None))\<rparr>"

text \<open>
  The states that the modelers produce in the examples: after \<open>kmalloc(n, flags)\<close> of
  statement 30 with zero-initialised memory, after statement 20 modelled with undefined
  contents, after a reallocating call \<open>CE\<close> on the block of symbol 1, with the given
  table of realloc pairs, and after only the free of that block by the call.
\<close>

definition kmalloc_zeroed_state :: "EngineLog ProgramState" where
  "kmalloc_zeroed_state =
     \<lparr>RegionState = [(1, RefState Allocated 20 AF_Malloc), (30, RefState Allocated 30 AF_Malloc)],
      ReallocPairs = [], FreeReturnValue = [], ReallocSizeZeroSymbols = [],
      EngineState =
        [Assumed (nonloc_SymbolVal 100) True,
         DefaultInitial (loc_MemRegionVal (SymbolicRegion 30 HeapSpaceRegion)) (nonloc_ConcreteInt 0),
         Bound 30 (loc_MemRegionVal (SymbolicRegion 30 HeapSpaceRegion))]\<rparr>"

definition malloc_undefined_state :: "EngineLog ProgramState" where
  "malloc_undefined_state =
     \<lparr>RegionState = [(1, RefState Allocated 20 AF_Malloc), (20, RefState Allocated 20 AF_Malloc)],
      ReallocPairs = [], FreeReturnValue = [], ReallocSizeZeroSymbols = [],
      EngineState =
        [Assumed (nonloc_SymbolVal 100) True,
         DefaultInitial (loc_MemRegionVal (SymbolicRegion 20 HeapSpaceRegion)) UndefinedVal,
         Bound 20 (loc_MemRegionVal (SymbolicRegion 20 HeapSpaceRegion))]\<rparr>"

definition realloc_result_state ::
  "StmtRef \<Rightarrow> (SymbolRef \<times> ReallocPair) list \<Rightarrow> EngineLog ProgramState" where
  "realloc_result_state CE Pairs =
     \<lparr>RegionState = [(1, RefState Released CE AF_Malloc), (CE, RefState Allocated CE AF_Malloc)],
      ReallocPairs = Pairs,
      FreeReturnValue = [], ReallocSizeZeroSymbols = [],
      EngineState =
        [Assumed (nonloc_SymbolVal 100) True,
         DefaultInitial (loc_MemRegionVal (SymbolicRegion CE HeapSpaceRegion)) UnknownVal,
         Bound CE (loc_MemRegionVal (SymbolicRegion CE HeapSpaceRegion))]\<rparr>"

definition freed_by :: "StmtRef \<Rightarrow> EngineLog ProgramState" where
  "freed_by CE =
     \<lparr>RegionState = [(1, RefState Released CE AF_Malloc)],
      ReallocPairs = [], FreeReturnValue = [], ReallocSizeZeroSymbols = [], EngineState = []\<rparr>"

section \<open>Properties of the state tables\<close>

lemma get_RegionState_simps:
  "get_RegionState (remove_RegionState k st) x = (if x = k then None else get_RegionState st x)"
  "get_RegionState (set_RegionState k v st) x = (if x = k then Some v else get_RegionState st x)"
  "get_RegionState (remove_ReallocPairs k' st) x = get_RegionState st x"
  "get_RegionState (set_ReallocPairs k' p st) x = get_RegionState st x"
  "get_RegionState (remove_FreeReturnValue k' st) x = get_RegionState st x"
  "get_RegionState (set_FreeReturnValue k' r st) x = get_RegionState st x"
  "get_RegionState (add_ReallocSizeZeroSymbols k' st) x = get_RegionState st x"
  by (simp_all add: get_RegionState_def remove_RegionState_def set_RegionState_def
      remove_ReallocPairs_def set_ReallocPairs_def remove_FreeReturnValue_def
      set_FreeReturnValue_def add_ReallocSizeZeroSymbols_def
      AList.delete_conv' AList.update_conv')

lemma get_ReallocPairs_simps:
  "get_ReallocPairs (remove_ReallocPairs k st) x = (if x = k then None else get_ReallocPairs st x)"
  "get_ReallocPairs (set_ReallocPairs k v st) x = (if x = k then Some v else get_ReallocPairs st x)"
  "get_ReallocPairs (remove_RegionState k' st) x = get_ReallocPairs st x"
  "get_ReallocPairs (set_RegionState k' p st) x = get_ReallocPairs st x"
  "get_ReallocPairs (remove_FreeReturnValue k' st) x = get_ReallocPairs st x"
  "get_ReallocPairs (set_FreeReturnValue k' r st) x = get_ReallocPairs st x"
  "get_ReallocPairs (add_ReallocSizeZeroSymbols k' st) x = get_ReallocPairs st x"
  by (simp_all add: get_ReallocPairs_def remove_RegionState_def set_RegionState_def
      remove_ReallocPairs_def set_ReallocPairs_def remove_FreeReturnValue_def
      set_FreeReturnValue_def add_ReallocSizeZeroSymbols_def
      AList.delete_conv' AList.update_conv')

lemma get_FreeReturnValue_simps:
  "get_FreeReturnValue (remove_FreeReturnValue k st) x = (if x = k then None else get_FreeReturnValue st x)"
  "get_FreeReturnValue (set_FreeReturnValue k v st) x = (if x = k then Some v else get_FreeReturnValue st x)"
  "get_FreeReturnValue (remove_RegionState k' st) x = get_FreeReturnValue st x"
  "get_FreeReturnValue (set_RegionState k' p st) x = get_FreeReturnValue st x"
  "get_FreeReturnValue (remove_ReallocPairs k' st) x = get_FreeReturnValue st x"
  "get_FreeReturnValue (set_ReallocPairs k' r' st) x = get_FreeReturnValue st x"
  "get_FreeReturnValue (add_ReallocSizeZeroSymbols k' st) x = get_FreeReturnValue st x"
  by (simp_all add: get_FreeReturnValue_def remove_RegionState_def set_RegionState_def
      remove_ReallocPairs_def set_ReallocPairs_def remove_FreeReturnValue_def
      set_FreeReturnValue_def add_ReallocSizeZeroSymbols_def
      AList.delete_conv' AList.update_conv')

lemma EngineState_simps:
  "EngineState (remove_RegionState k st) = EngineState st"
  "EngineState (set_RegionState k v st) = EngineState st"
  "EngineState (remove_ReallocPairs k st) = EngineState st"
  "EngineState (set_ReallocPairs k p st) = EngineState st"
  "EngineState (remove_FreeReturnValue k st) = EngineState st"
  "EngineState (set_FreeReturnValue k r st) = EngineState st"
  "EngineState (add_ReallocSizeZeroSymbols k st) = EngineState st"
  by (simp_all add: remove_RegionState_def set_RegionState_def
      remove_ReallocPairs_def set_ReallocPairs_def remove_FreeReturnValue_def
      set_FreeReturnValue_def add_ReallocSizeZeroSymbols_def)

lemma RegionState_loop_EngineState:
  "EngineState (evalAssume_RegionState_loop CMgr xs st) = EngineState st"
  by (induction xs arbitrary: st) (simp_all add: EngineState_simps Let_def)

lemma RegionState_loop_ReallocPairs:
  "ReallocPairs (evalAssume_RegionState_loop CMgr xs st) = ReallocPairs st"
  by (induction xs arbitrary: st) (simp_all add: remove_RegionState_def Let_def)

lemma RegionState_loop_get:
  "get_RegionState (evalAssume_RegionState_loop CMgr xs st) x =
     (if x \<in> fst ` set xs \<and> CMgr (EngineState st) x = ConstrainedTrue then None
      else get_RegionState st x)"
proof (induction xs arbitrary: st)
  case Nil
  then show ?case by simp
next
  case (Cons I xs)
  show ?case
    by (auto simp add: Cons.IH Let_def isConstrainedTrue_def EngineState_simps
        get_RegionState_simps)
qed

lemma ReallocPairs_body_EngineState:
  "EngineState (evalAssume_ReallocPairs_body CMgr I st) = EngineState st"
  by (simp add: evalAssume_ReallocPairs_body_def Let_def EngineState_simps
      split: option.splits OwnershipAfterReallocKind.splits)

lemma ReallocPairs_body_get_pairs:
  "get_ReallocPairs (evalAssume_ReallocPairs_body CMgr I st) t =
     (if t = fst I \<and> CMgr (EngineState st) t = ConstrainedTrue then None
      else get_ReallocPairs st t)"
  by (auto simp add: evalAssume_ReallocPairs_body_def Let_def get_ReallocPairs_simps
      isConstrainedTrue_def
      split: option.splits OwnershipAfterReallocKind.splits)

lemma ReallocPairs_loop_EngineState:
  "EngineState (evalAssume_ReallocPairs_loop CMgr xs st) = EngineState st"
  by (induction xs arbitrary: st) (simp_all add: ReallocPairs_body_EngineState)

lemma ReallocPairs_loop_get_pairs:
  "get_ReallocPairs (evalAssume_ReallocPairs_loop CMgr xs st) t =
     (if t \<in> fst ` set xs \<and> CMgr (EngineState st) t = ConstrainedTrue then None
      else get_ReallocPairs st t)"
proof (induction xs arbitrary: st)
  case Nil
  then show ?case by simp
next
  case (Cons I xs)
  show ?case
    by (auto simp add: Cons.IH ReallocPairs_body_EngineState ReallocPairs_body_get_pairs)
qed

lemma ReallocPairs_body_get_region:
  "get_RegionState (evalAssume_ReallocPairs_body CMgr I st) x =
     (if CMgr (EngineState st) (fst I) = ConstrainedTrue \<and> x = ReallocatedSym (snd I) then
        (case get_RegionState st x of
           None \<Rightarrow> None
         | Some RS \<Rightarrow>
             if isReleased RS then
               (case OwnershipKind (snd I) of
                  OAR_ToBeFreedAfterFailure \<Rightarrow> Some (getAllocated (getAllocationFamily RS) (getStmt RS))
                | OAR_DoNotTrackAfterFailure \<Rightarrow> None
                | OAR_FreeOnFailure \<Rightarrow> Some RS)
             else Some RS)
      else get_RegionState st x)"
  by (auto simp add: evalAssume_ReallocPairs_body_def Let_def get_RegionState_simps
      isConstrainedTrue_def
      split: option.splits OwnershipAfterReallocKind.splits)

lemma ReallocPairs_loop_untouched:
  assumes "\<forall>I \<in> set xs. CMgr (EngineState st) (fst I) = ConstrainedTrue \<longrightarrow> ReallocatedSym (snd I) \<noteq> x"
  shows "get_RegionState (evalAssume_ReallocPairs_loop CMgr xs st) x = get_RegionState st x"
  using assms
proof (induction xs arbitrary: st)
  case Nil
  then show ?case by simp
next
  case (Cons I xs)
  then show ?case
    by (auto simp add: ReallocPairs_body_EngineState ReallocPairs_body_get_region)
qed

lemma ReallocPairs_loop_not_Released:
  assumes "\<forall>RS. get_RegionState st x = Some RS \<longrightarrow> \<not> isReleased RS"
  shows "get_RegionState (evalAssume_ReallocPairs_loop CMgr xs st) x = get_RegionState st x"
  using assms
proof (induction xs arbitrary: st)
  case Nil
  then show ?case by simp
next
  case (Cons I xs)
  have step: "get_RegionState (evalAssume_ReallocPairs_body CMgr I st) x = get_RegionState st x"
    using Cons.prems by (auto simp add: ReallocPairs_body_get_region split: option.splits)
  with Cons.prems have "\<forall>RS. get_RegionState (evalAssume_ReallocPairs_body CMgr I st) x = Some RS
      \<longrightarrow> \<not> isReleased RS"
    by simp
  from Cons.IH [OF this] step show ?case by simp
qed

lemma ReallocPairs_loop_unique:
  assumes uniq: "\<forall>J \<in> set xs. CMgr (EngineState st) (fst J) = ConstrainedTrue \<and>
             ReallocatedSym (snd J) = ReallocatedSym (snd I) \<longrightarrow> J = I"
    and null: "CMgr (EngineState st) (fst I) = ConstrainedTrue"
  shows "get_RegionState (evalAssume_ReallocPairs_loop CMgr xs st) (ReallocatedSym (snd I)) =
     (if I \<in> set xs then get_RegionState (evalAssume_ReallocPairs_body CMgr I st) (ReallocatedSym (snd I))
      else get_RegionState st (ReallocatedSym (snd I)))"
  using assms
proof (induction xs arbitrary: st)
  case Nil
  then show ?case by simp
next
  case (Cons J xs)
  let ?x = "ReallocatedSym (snd I)"
  let ?st' = "evalAssume_ReallocPairs_body CMgr J st"
  have eng: "EngineState ?st' = EngineState st"
    by (rule ReallocPairs_body_EngineState)
  have IH: "get_RegionState (evalAssume_ReallocPairs_loop CMgr xs ?st') ?x =
     (if I \<in> set xs then get_RegionState (evalAssume_ReallocPairs_body CMgr I ?st') ?x
      else get_RegionState ?st' ?x)"
    using Cons.prems by (intro Cons.IH) (simp_all add: eng)
  show ?case
  proof (cases "CMgr (EngineState st) (fst J) = ConstrainedTrue \<and> ReallocatedSym (snd J) = ?x")
    case True
    with Cons.prems have "J = I" by simp
    then show ?thesis
      using IH Cons.prems(2)
      by (auto simp add: ReallocPairs_body_get_region eng getAllocated_def isReleased_def
          split: option.splits OwnershipAfterReallocKind.splits)
  next
    case False
    then have same: "get_RegionState ?st' ?x = get_RegionState st ?x"
      by (auto simp add: ReallocPairs_body_get_region)
    from False Cons.prems(2) have "J \<noteq> I" by auto
    then show ?thesis
      using IH same Cons.prems(2)
      by (simp add: ReallocPairs_body_get_region eng)
  qed
qed

lemma evalAssume_EngineState: "EngineState (evalAssume CMgr st) = EngineState st"
  by (simp add: evalAssume_def Let_def ReallocPairs_loop_EngineState RegionState_loop_EngineState)

lemma evalAssume_get_ReallocPairs:
  "get_ReallocPairs (evalAssume CMgr st) t =
     (if CMgr (EngineState st) t = ConstrainedTrue then None else get_ReallocPairs st t)"
proof -
  have "t \<notin> fst ` set (ReallocPairs st) \<Longrightarrow> get_ReallocPairs st t = None"
    by (simp add: get_ReallocPairs_def map_of_eq_None_iff)
  moreover have "get_ReallocPairs (evalAssume_RegionState_loop CMgr (RegionState st) st) t =
      get_ReallocPairs st t"
    by (simp add: get_ReallocPairs_def RegionState_loop_ReallocPairs)
  ultimately show ?thesis
    by (auto simp add: evalAssume_def Let_def ReallocPairs_loop_get_pairs
        RegionState_loop_EngineState RegionState_loop_ReallocPairs)
qed

lemma RegionState_loop_self:
  "get_RegionState (evalAssume_RegionState_loop CMgr (RegionState st) st) x =
     (if CMgr (EngineState st) x = ConstrainedTrue then None else get_RegionState st x)"
proof -
  have "x \<notin> fst ` set (RegionState st) \<Longrightarrow> get_RegionState st x = None"
    by (simp add: get_RegionState_def map_of_eq_None_iff)
  then show ?thesis
    by (auto simp add: RegionState_loop_get)
qed


section \<open>Properties of the assumption hook\<close>

text \<open>
  Claim C3, as amended. \<open>evalAssume\<close> removes the record of every symbol the constraint
  manager knows to be null, and removes exactly the realloc pairs whose to-symbol is
  known to be null. For such a pair, when the from-symbol is not itself known to be null
  and is the from-symbol of no other failed pair, the record of the from-symbol is
  changed only if it is \<open>Released\<close>, and then by the policy of the pair:
  \<open>OAR_ToBeFreedAfterFailure\<close> makes the record \<open>Allocated\<close> again (same family and
  statement), \<open>OAR_DoNotTrackAfterFailure\<close> removes it, \<open>OAR_FreeOnFailure\<close> leaves it;
  an untracked from-symbol stays untracked and a record in another state stays as it is.
\<close>

theorem evalAssume_restores_from_symbol:
  "(\<forall>Sym. CMgr (EngineState state) Sym = ConstrainedTrue \<longrightarrow>
       get_RegionState (evalAssume CMgr state) Sym = None)
   \<and> (\<forall>ToPtr. get_ReallocPairs (evalAssume CMgr state) ToPtr =
         (if CMgr (EngineState state) ToPtr = ConstrainedTrue then None
          else get_ReallocPairs state ToPtr))
   \<and> (\<forall>ToPtr FromPtr kind.
         (ToPtr, ReallocPair FromPtr kind) \<in> set (ReallocPairs state)
         \<and> CMgr (EngineState state) ToPtr = ConstrainedTrue
         \<and> CMgr (EngineState state) FromPtr \<noteq> ConstrainedTrue
         \<and> (\<forall>J \<in> set (ReallocPairs state).
               CMgr (EngineState state) (fst J) = ConstrainedTrue \<and>
               ReallocatedSym (snd J) = FromPtr \<longrightarrow> J = (ToPtr, ReallocPair FromPtr kind))
         \<longrightarrow> get_RegionState (evalAssume CMgr state) FromPtr =
               (case get_RegionState state FromPtr of
                  None \<Rightarrow> None
                | Some RS \<Rightarrow>
                    if isReleased RS then
                      (case kind of
                         OAR_ToBeFreedAfterFailure \<Rightarrow>
                           Some (getAllocated (getAllocationFamily RS) (getStmt RS))
                       | OAR_DoNotTrackAfterFailure \<Rightarrow> None
                       | OAR_FreeOnFailure \<Rightarrow> Some RS)
                    else Some RS))"
proof (intro conjI allI impI)
  let ?st1 = "evalAssume_RegionState_loop CMgr (RegionState state) state"
  have eng: "EngineState ?st1 = EngineState state"
    by (rule RegionState_loop_EngineState)
  have rp: "ReallocPairs ?st1 = ReallocPairs state"
    by (rule RegionState_loop_ReallocPairs)
  show "get_RegionState (evalAssume CMgr state) Sym = None"
    if "CMgr (EngineState state) Sym = ConstrainedTrue" for Sym
  proof -
    have "get_RegionState ?st1 Sym = None"
      using that by (simp add: RegionState_loop_self)
    then show ?thesis
      by (simp add: evalAssume_def Let_def ReallocPairs_loop_not_Released)
  qed
  show "get_ReallocPairs (evalAssume CMgr state) ToPtr =
         (if CMgr (EngineState state) ToPtr = ConstrainedTrue then None
          else get_ReallocPairs state ToPtr)" for ToPtr
    by (rule evalAssume_get_ReallocPairs)
  fix ToPtr FromPtr kind
  assume hyp: "(ToPtr, ReallocPair FromPtr kind) \<in> set (ReallocPairs state)
         \<and> CMgr (EngineState state) ToPtr = ConstrainedTrue
         \<and> CMgr (EngineState state) FromPtr \<noteq> ConstrainedTrue
         \<and> (\<forall>J \<in> set (ReallocPairs state).
               CMgr (EngineState state) (fst J) = ConstrainedTrue \<and>
               ReallocatedSym (snd J) = FromPtr \<longrightarrow> J = (ToPtr, ReallocPair FromPtr kind))"
  let ?I = "(ToPtr, ReallocPair FromPtr kind)"
  have from1: "get_RegionState ?st1 FromPtr = get_RegionState state FromPtr"
    using hyp by (simp add: RegionState_loop_self)
  have "get_RegionState (evalAssume_ReallocPairs_loop CMgr (ReallocPairs ?st1) ?st1)
          (ReallocatedSym (snd ?I)) =
        (if ?I \<in> set (ReallocPairs ?st1)
         then get_RegionState (evalAssume_ReallocPairs_body CMgr ?I ?st1) (ReallocatedSym (snd ?I))
         else get_RegionState ?st1 (ReallocatedSym (snd ?I)))"
    using hyp by (intro ReallocPairs_loop_unique) (simp_all add: eng rp)
  then show "get_RegionState (evalAssume CMgr state) FromPtr =
               (case get_RegionState state FromPtr of
                  None \<Rightarrow> None
                | Some RS \<Rightarrow>
                    if isReleased RS then
                      (case kind of
                         OAR_ToBeFreedAfterFailure \<Rightarrow>
                           Some (getAllocated (getAllocationFamily RS) (getStmt RS))
                       | OAR_DoNotTrackAfterFailure \<Rightarrow> None
                       | OAR_FreeOnFailure \<Rightarrow> Some RS)
                    else Some RS)"
    using hyp from1
    by (simp add: evalAssume_def Let_def rp eng ReallocPairs_body_get_region
        split: option.splits)
qed

theorem evalAssume_restores_from_symbol_witness:
  "get_RegionState (evalAssume only_1_is_null realloc_failed_state) 1 = None
   \<and> get_ReallocPairs (evalAssume only_1_is_null realloc_failed_state) 1 = None
   \<and> get_RegionState (evalAssume only_1_is_null realloc_failed_state) 2 =
       Some (RefState Allocated 5 AF_Malloc)
   \<and> get_RegionState (evalAssume only_1_is_null one_block_state) 1 = None"
  using evalAssume_restores_from_symbol [of only_1_is_null realloc_failed_state,
      THEN conjunct1, rule_format, of 1]
    evalAssume_restores_from_symbol [of only_1_is_null realloc_failed_state,
      THEN conjunct2, THEN conjunct1, rule_format, of 1]
    evalAssume_restores_from_symbol [of only_1_is_null realloc_failed_state,
      THEN conjunct2, THEN conjunct2, rule_format, of 1 2 OAR_ToBeFreedAfterFailure]
    evalAssume_restores_from_symbol [of only_1_is_null one_block_state,
      THEN conjunct1, rule_format, of 1]
  by (simp add: realloc_failed_state_def only_1_is_null_def get_RegionState_def
      isReleased_def getAllocated_def)

text \<open>
  Claim C3 as stated fails where the from-symbol has no record: the pair's policy is
  \<open>OAR_ToBeFreedAfterFailure\<close>, the to-symbol 1 is known to be null, and the from-symbol 2
  is not set to \<open>Allocated\<close>; it stays untracked.
\<close>

theorem evalAssume_untracked_from_symbol_counterexample:
  "get_RegionState (evalAssume only_1_is_null realloc_failed_untracked_state) 2 = None"
  by (simp add: evalAssume_def evalAssume_ReallocPairs_body_def realloc_failed_untracked_state_def
      only_1_is_null_def get_RegionState_def isConstrainedTrue_def remove_RegionState_def
      remove_ReallocPairs_def Let_def)

text \<open>
  Claim C10. When the to-symbol of a realloc pair is known to be null and the from-symbol
  is untracked or its record is in a state other than \<open>Released\<close>, the realloc-failure
  handling leaves the from-symbol's record as it is (the hook's first loop still drops it
  when the from-symbol itself is known to be null), and the pair entry is removed.
\<close>

theorem evalAssume_leaves_other_states:
  assumes pair: "(ToPtr, ReallocPair FromPtr kind) \<in> set (ReallocPairs state)"
    and to_null: "CMgr (EngineState state) ToPtr = ConstrainedTrue"
    and not_released: "\<forall>RS. get_RegionState state FromPtr = Some RS \<longrightarrow> \<not> isReleased RS"
  shows "get_RegionState (evalAssume CMgr state) FromPtr =
           (if CMgr (EngineState state) FromPtr = ConstrainedTrue then None
            else get_RegionState state FromPtr)
         \<and> get_ReallocPairs (evalAssume CMgr state) ToPtr = None"
proof -
  let ?st1 = "evalAssume_RegionState_loop CMgr (RegionState state) state"
  have "\<forall>RS. get_RegionState ?st1 FromPtr = Some RS \<longrightarrow> \<not> isReleased RS"
    using not_released by (simp add: RegionState_loop_self)
  then have "get_RegionState (evalAssume_ReallocPairs_loop CMgr (ReallocPairs ?st1) ?st1) FromPtr
      = get_RegionState ?st1 FromPtr"
    by (rule ReallocPairs_loop_not_Released)
  then show ?thesis
    using to_null
    by (simp add: evalAssume_def Let_def RegionState_loop_self evalAssume_get_ReallocPairs [unfolded evalAssume_def Let_def])
qed

theorem evalAssume_leaves_other_states_witness:
  "get_RegionState (evalAssume only_1_is_null realloc_failed_escaped_state) 2 =
     Some (RefState Escaped 4 AF_Malloc)
   \<and> get_ReallocPairs (evalAssume only_1_is_null realloc_failed_escaped_state) 1 = None"
  using evalAssume_leaves_other_states [of 1 2 OAR_DoNotTrackAfterFailure
      realloc_failed_escaped_state only_1_is_null]
  by (simp add: realloc_failed_escaped_state_def only_1_is_null_def get_RegionState_def
      isReleased_def)

section \<open>Properties of the escape handler\<close>

lemma checkPointerEscapeAux_loop_get:
  "get_RegionState (checkPointerEscapeAux_loop ES IsC xs st) Sym =
     (case get_RegionState st Sym of
        None \<Rightarrow> None
      | Some RS \<Rightarrow>
          if Sym \<in> set xs \<and> (ES = None \<or> ES = Some Sym)
             \<and> (isAllocated RS \<or> isAllocatedOfSizeZero RS)
             \<and> (IsC \<longrightarrow> checkIfNewOrNewArrayFamily RS)
          then Some (getEscaped RS) else Some RS)"
proof (induction xs arbitrary: st)
  case Nil
  then show ?case by (simp split: option.splits)
next
  case (Cons y xs)
  have esc: "\<not> isAllocated (getEscaped RS)" "\<not> isAllocatedOfSizeZero (getEscaped RS)" for RS
    by (simp_all add: isAllocated_def isAllocatedOfSizeZero_def getEscaped_def)
  show ?case
    by (auto simp add: Cons.IH get_RegionState_simps esc split: option.splits)
qed

text \<open>
  Claim C8. The record of a symbol after \<open>checkPointerEscapeAux\<close>: it becomes \<open>Escaped\<close>
  (same statement and family) exactly when the symbol is among the escaped symbols, the
  handler does not return early and the policy names no other escaping symbol, the
  record is \<open>Allocated\<close> or \<open>AllocatedOfSizeZero\<close>, and, for a const-pointer escape, its
  family is \<open>AF_CXXNew\<close> or \<open>AF_CXXNewArray\<close>; every other record is unchanged and no
  record is added.
\<close>

theorem checkPointerEscapeAux_record:
  "get_RegionState
     (checkPointerEscapeAux mayFree State EscapedSyms Call Kind IsConstPointerEscape) Sym =
     (case get_RegionState State Sym of
        None \<Rightarrow> None
      | Some RS \<Rightarrow>
          if Sym \<in> set EscapedSyms
             \<and> (Kind = PSK_DirectEscapeOnCall \<longrightarrow>
                   (fst (mayFree Call State) \<and> snd (mayFree Call State) = None)
                   \<or> snd (mayFree Call State) = Some Sym)
             \<and> (isAllocated RS \<or> isAllocatedOfSizeZero RS)
             \<and> (IsConstPointerEscape \<longrightarrow> checkIfNewOrNewArrayFamily RS)
          then Some (getEscaped RS) else Some RS)"
  by (cases "mayFree Call State")
    (auto simp add: checkPointerEscapeAux_def checkPointerEscapeAux_loop_get
      split: option.splits)

theorem checkPointerEscapeAux_record_witness:
  "get_RegionState
     (checkPointerEscapeAux may_free_anything escaping_state [1, 2, 3] () PSK_DirectEscapeOnCall True) 2
     = Some (RefState Escaped 6 AF_CXXNew)
   \<and> get_RegionState
     (checkPointerEscapeAux may_free_anything escaping_state [1, 2, 3] () PSK_DirectEscapeOnCall True) 1
     = Some (RefState Allocated 5 AF_Malloc)
   \<and> get_RegionState
     (checkPointerEscapeAux may_free_anything escaping_state [1, 2, 3] () PSK_DirectEscapeOnCall False) 1
     = Some (RefState Escaped 5 AF_Malloc)
   \<and> get_RegionState
     (checkPointerEscapeAux may_free_anything escaping_state [1, 2, 3] () PSK_DirectEscapeOnCall False) 3
     = Some (RefState Released 7 AF_Malloc)"
  using checkPointerEscapeAux_record [of may_free_anything escaping_state "[1, 2, 3]" "()"
      PSK_DirectEscapeOnCall True 2]
    checkPointerEscapeAux_record [of may_free_anything escaping_state "[1, 2, 3]" "()"
      PSK_DirectEscapeOnCall True 1]
    checkPointerEscapeAux_record [of may_free_anything escaping_state "[1, 2, 3]" "()"
      PSK_DirectEscapeOnCall False 1]
    checkPointerEscapeAux_record [of may_free_anything escaping_state "[1, 2, 3]" "()"
      PSK_DirectEscapeOnCall False 3]
  by (simp add: may_free_anything_def escaping_state_def get_RegionState_def isAllocated_def
      isAllocatedOfSizeZero_def checkIfNewOrNewArrayFamily_def getEscaped_def)

section \<open>Properties of the leak finder\<close>

lemma delete_as_filter: "AList.delete k xs = filter (\<lambda>p. fst p \<noteq> k) xs"
  by (induction xs) (auto simp add: AList.delete_eq)

lemma checkDeadSymbols_RegionState_loop_eq:
  "checkDeadSymbols_RegionState_loop isDead xs (RS, Errors) =
     (filter (\<lambda>p. \<not> (isDead (fst p) \<and> fst p \<in> fst ` set xs)) RS,
      Errors @ map fst (filter (\<lambda>p. isDead (fst p) \<and> (isAllocated (snd p) \<or> isAllocatedOfSizeZero (snd p))) xs))"
proof (induction xs arbitrary: RS Errors)
  case Nil
  then show ?case by simp
next
  case (Cons I xs)
  show ?case
    by (auto simp add: Cons.IH delete_as_filter intro!: filter_cong)
qed

lemma checkDeadSymbols_RegionState_loop_self:
  "checkDeadSymbols_RegionState_loop isDead OldRS (OldRS, []) =
     (filter (\<lambda>p. \<not> isDead (fst p)) OldRS,
      map fst (filter (\<lambda>p. isDead (fst p) \<and> (isAllocated (snd p) \<or> isAllocatedOfSizeZero (snd p))) OldRS))"
  by (auto simp add: checkDeadSymbols_RegionState_loop_eq intro!: filter_cong)

lemma map_of_filter_not_dead:
  "map_of (filter (\<lambda>p. \<not> isDead (fst p)) xs) k = (if isDead k then None else map_of xs k)"
  by (induction xs) auto

lemma checkDeadSymbols_ReallocPairs_loop_fields:
  "RegionState (checkDeadSymbols_ReallocPairs_loop isDead xs st) = RegionState st"
  "FreeReturnValue (checkDeadSymbols_ReallocPairs_loop isDead xs st) = FreeReturnValue st"
  "EngineState (checkDeadSymbols_ReallocPairs_loop isDead xs st) = EngineState st"
  "ReallocSizeZeroSymbols (checkDeadSymbols_ReallocPairs_loop isDead xs st) = ReallocSizeZeroSymbols st"
  by (induction xs arbitrary: st) (simp_all add: remove_ReallocPairs_def)

lemma checkDeadSymbols_ReallocPairs_loop_eq:
  "ReallocPairs (checkDeadSymbols_ReallocPairs_loop isDead xs st) =
     filter (\<lambda>p. \<not> (\<exists>I \<in> set xs. fst I = fst p \<and> (isDead (fst I) \<or> isDead (ReallocatedSym (snd I)))))
       (ReallocPairs st)"
proof (induction xs arbitrary: st)
  case Nil
  then show ?case by simp
next
  case (Cons I xs)
  show ?case
    by (auto simp add: Cons.IH remove_ReallocPairs_def delete_as_filter intro!: filter_cong)
qed

lemma checkDeadSymbols_FreeReturnValue_loop_fields:
  "RegionState (checkDeadSymbols_FreeReturnValue_loop isDead xs st) = RegionState st"
  "ReallocPairs (checkDeadSymbols_FreeReturnValue_loop isDead xs st) = ReallocPairs st"
  "EngineState (checkDeadSymbols_FreeReturnValue_loop isDead xs st) = EngineState st"
  "ReallocSizeZeroSymbols (checkDeadSymbols_FreeReturnValue_loop isDead xs st) = ReallocSizeZeroSymbols st"
  by (induction xs arbitrary: st) (simp_all add: remove_FreeReturnValue_def)

lemma checkDeadSymbols_FreeReturnValue_loop_eq:
  "FreeReturnValue (checkDeadSymbols_FreeReturnValue_loop isDead xs st) =
     filter (\<lambda>p. \<not> (\<exists>I \<in> set xs. fst I = fst p \<and> (isDead (fst I) \<or> isDead (snd I))))
       (FreeReturnValue st)"
proof (induction xs arbitrary: st)
  case Nil
  then show ?case by simp
next
  case (Cons I xs)
  show ?case
    by (auto simp add: Cons.IH remove_FreeReturnValue_def delete_as_filter intro!: filter_cong)
qed

lemma reportLeak_total:
  assumes "get_RegionState (getState C) Sym = Some RS" "getAllocationFamily RS \<noteq> AF_None"
  shows "\<exists>Rs. reportLeak Chk C Sym = Inr Rs \<and> set Rs \<subseteq> {LeakReport CK Sym | CK. getAllocationFamily RS \<noteq> AF_Alloca}"
  using assms
  by (cases "getAllocationFamily RS")
     (auto simp add: reportLeak_def getCheckIfTracked_Family_def Let_def)

lemma reportLeak_loop_total:
  assumes "\<forall>Sym \<in> set Errors. \<exists>RS. get_RegionState (getState C) Sym = Some RS \<and> getAllocationFamily RS \<noteq> AF_None"
  shows "\<exists>Rs. reportLeak_loop Chk C Errors = Inr Rs \<and>
           (\<forall>CK Sym. LeakReport CK Sym \<in> set Rs \<longrightarrow>
              (\<exists>RS. get_RegionState (getState C) Sym = Some RS \<and> getAllocationFamily RS \<noteq> AF_Alloca))"
  using assms
proof (induction Errors)
  case Nil
  then show ?case by simp
next
  case (Cons I Errors)
  from Cons.prems obtain RS where RS: "get_RegionState (getState C) I = Some RS"
      "getAllocationFamily RS \<noteq> AF_None"
    by auto
  from reportLeak_total [OF this, of Chk] obtain R where R: "reportLeak Chk C I = Inr R"
    "set R \<subseteq> {LeakReport CK I | CK. getAllocationFamily RS \<noteq> AF_Alloca}"
    by blast
  from Cons obtain Rs where Rs: "reportLeak_loop Chk C Errors = Inr Rs"
    "\<forall>CK Sym. LeakReport CK Sym \<in> set Rs \<longrightarrow>
       (\<exists>RS. get_RegionState (getState C) Sym = Some RS \<and> getAllocationFamily RS \<noteq> AF_Alloca)"
    by auto
  from R Rs RS show ?case by auto
qed



lemma checkDeadSymbols_changed:
  assumes fam: "\<forall>I \<in> set (RegionState (getState C)). getAllocationFamily (snd I) \<noteq> AF_None"
    and some_dead: "\<exists>I \<in> set (RegionState (getState C)). isDead (fst I)"
  shows "\<exists>Rs. checkDeadSymbols Chk isDead C =
           Inr \<lparr>LeakCandidates =
                  map fst (filter (\<lambda>p. isDead (fst p) \<and> (isAllocated (snd p) \<or> isAllocatedOfSizeZero (snd p)))
                    (RegionState (getState C))),
                Transition = Some
                  ((checkDeadSymbols_FreeReturnValue_loop isDead
                      (FreeReturnValue (getState C))
                      (checkDeadSymbols_ReallocPairs_loop isDead (ReallocPairs (getState C)) (getState C)))
                   \<lparr>RegionState := filter (\<lambda>p. \<not> isDead (fst p)) (RegionState (getState C))\<rparr>),
                EmittedReports = Rs\<rparr>
         \<and> (\<forall>CK Sym. LeakReport CK Sym \<in> set Rs \<longrightarrow>
              (\<exists>RS. get_RegionState (getState C) Sym = Some RS \<and> getAllocationFamily RS \<noteq> AF_Alloca))"
proof -
  let ?Old = "RegionState (getState C)"
  let ?Errors = "map fst (filter (\<lambda>p. isDead (fst p) \<and> (isAllocated (snd p) \<or> isAllocatedOfSizeZero (snd p))) ?Old)"
  have neq: "filter (\<lambda>p. \<not> isDead (fst p)) ?Old \<noteq> ?Old"
    using some_dead by (simp add: filter_id_conv)
  have "\<forall>Sym \<in> set ?Errors. \<exists>RS. get_RegionState (getState C) Sym = Some RS \<and> getAllocationFamily RS \<noteq> AF_None"
  proof
    fix Sym assume "Sym \<in> set ?Errors"
    then have "Sym \<in> fst ` set ?Old" by auto
    then obtain RS where RS: "map_of ?Old Sym = Some RS"
      by (metis domD dom_map_of_conv_image_fst)
    then have "(Sym, RS) \<in> set ?Old" by (rule map_of_SomeD)
    with fam have "getAllocationFamily RS \<noteq> AF_None" by auto
    with RS show "\<exists>RS. get_RegionState (getState C) Sym = Some RS \<and> getAllocationFamily RS \<noteq> AF_None"
      by (simp add: get_RegionState_def)
  qed
  from reportLeak_loop_total [OF this, of Chk] obtain Rs where
    Rs: "reportLeak_loop Chk C ?Errors = Inr Rs"
      "\<forall>CK Sym. LeakReport CK Sym \<in> set Rs \<longrightarrow>
         (\<exists>RS. get_RegionState (getState C) Sym = Some RS \<and> getAllocationFamily RS \<noteq> AF_Alloca)"
    by blast
  show ?thesis
  proof (cases "?Errors \<noteq> [] \<and> generateNonFatalErrorNode C")
    case True
    then show ?thesis
      using neq Rs
      by (simp add: checkDeadSymbols_def Let_def checkDeadSymbols_RegionState_loop_self
          checkDeadSymbols_FreeReturnValue_loop_fields checkDeadSymbols_ReallocPairs_loop_fields)
  next
    case False
    then show ?thesis
      using neq
      by (auto simp add: checkDeadSymbols_def Let_def checkDeadSymbols_RegionState_loop_self
          checkDeadSymbols_FreeReturnValue_loop_fields checkDeadSymbols_ReallocPairs_loop_fields)
  qed
qed


text \<open>
  Claim C2. In \<open>checkDeadSymbols\<close>, a dead symbol with a record in the region table is
  in the list of leak candidates exactly when its record is \<open>Allocated\<close> or
  \<open>AllocatedOfSizeZero\<close>; whatever its state, the state passed on has no record for
  it; and when its family is \<open>AF_Alloca\<close> no leak report for it is emitted. The region
  table is a map (its keys are distinct) and holds no record of family \<open>AF_None\<close>,
  which the constructor of \<open>RefState\<close> asserts; the callback then ends without a
  failed assertion.
\<close>


theorem checkDeadSymbols_collects_and_removes:
  assumes dist: "distinct (map fst (RegionState (getState C)))"
    and fam: "\<forall>I \<in> set (RegionState (getState C)). getAllocationFamily (snd I) \<noteq> AF_None"
    and dead: "isDead Sym"
    and tracked: "get_RegionState (getState C) Sym = Some RS"
  shows "\<exists>Res state'. checkDeadSymbols Chk isDead C = Inr Res
           \<and> (Sym \<in> set (LeakCandidates Res) \<longleftrightarrow> isAllocated RS \<or> isAllocatedOfSizeZero RS)
           \<and> Transition Res = Some state' \<and> get_RegionState state' Sym = None
           \<and> (getAllocationFamily RS = AF_Alloca \<longrightarrow>
                (\<forall>CK. LeakReport CK Sym \<notin> set (EmittedReports Res)))"
proof -
  let ?Old = "RegionState (getState C)"
  from tracked have mem: "(Sym, RS) \<in> set ?Old"
    by (simp add: get_RegionState_def map_of_SomeD)
  with dead have "\<exists>I \<in> set ?Old. isDead (fst I)" by (intro bexI [of _ "(Sym, RS)"]) simp_all
  from checkDeadSymbols_changed [OF fam this, of Chk] obtain Rs where
    res: "checkDeadSymbols Chk isDead C =
           Inr \<lparr>LeakCandidates =
                  map fst (filter (\<lambda>p. isDead (fst p) \<and> (isAllocated (snd p) \<or> isAllocatedOfSizeZero (snd p))) ?Old),
                Transition = Some
                  ((checkDeadSymbols_FreeReturnValue_loop isDead
                      (FreeReturnValue (getState C))
                      (checkDeadSymbols_ReallocPairs_loop isDead (ReallocPairs (getState C)) (getState C)))
                   \<lparr>RegionState := filter (\<lambda>p. \<not> isDead (fst p)) ?Old\<rparr>),
                EmittedReports = Rs\<rparr>"
    and reps: "\<forall>CK Sym. LeakReport CK Sym \<in> set Rs \<longrightarrow>
              (\<exists>RS. get_RegionState (getState C) Sym = Some RS \<and> getAllocationFamily RS \<noteq> AF_Alloca)"
    by blast
  have only: "RS' = RS" if "(Sym, RS') \<in> set ?Old" for RS'
  proof -
    from dist that have "map_of ?Old Sym = Some RS'" by (rule map_of_is_SomeI)
    with tracked show ?thesis by (simp add: get_RegionState_def)
  qed
  have cand: "Sym \<in> set (map fst (filter (\<lambda>p. isDead (fst p) \<and> (isAllocated (snd p) \<or> isAllocatedOfSizeZero (snd p))) ?Old))
      \<longleftrightarrow> isAllocated RS \<or> isAllocatedOfSizeZero RS"
  proof
    assume "Sym \<in> set (map fst (filter (\<lambda>p. isDead (fst p) \<and> (isAllocated (snd p) \<or> isAllocatedOfSizeZero (snd p))) ?Old))"
    then obtain p where p: "p \<in> set ?Old" "fst p = Sym" "isAllocated (snd p) \<or> isAllocatedOfSizeZero (snd p)"
      by auto
    have "p = (fst p, snd p)" by simp
    with p have "(Sym, snd p) \<in> set ?Old" by metis
    then have "snd p = RS" by (rule only)
    with p show "isAllocated RS \<or> isAllocatedOfSizeZero RS" by simp
  next
    assume "isAllocated RS \<or> isAllocatedOfSizeZero RS"
    with mem dead have "(Sym, RS) \<in> set (filter (\<lambda>p. isDead (fst p) \<and> (isAllocated (snd p) \<or> isAllocatedOfSizeZero (snd p))) ?Old)"
      by simp
    then show "Sym \<in> set (map fst (filter (\<lambda>p. isDead (fst p) \<and> (isAllocated (snd p) \<or> isAllocatedOfSizeZero (snd p))) ?Old))"
      by (simp only: set_map) (rule image_eqI [of _ _ "(Sym, RS)"], simp_all)
  qed
  have gone: "get_RegionState
      ((checkDeadSymbols_FreeReturnValue_loop isDead (FreeReturnValue (getState C))
          (checkDeadSymbols_ReallocPairs_loop isDead (ReallocPairs (getState C)) (getState C)))
         \<lparr>RegionState := filter (\<lambda>p. \<not> isDead (fst p)) ?Old\<rparr>) Sym = None"
    using dead by (simp add: get_RegionState_def map_of_filter_not_dead)
  have alloca: "getAllocationFamily RS = AF_Alloca \<longrightarrow> (\<forall>CK. LeakReport CK Sym \<notin> set Rs)"
  proof (intro impI allI notI)
    fix CK
    assume al: "getAllocationFamily RS = AF_Alloca" and "LeakReport CK Sym \<in> set Rs"
    with reps obtain RS' where "get_RegionState (getState C) Sym = Some RS'" "getAllocationFamily RS' \<noteq> AF_Alloca"
      by blast
    with tracked al show False by simp
  qed
  show ?thesis
    apply (rule exI, rule exI, rule conjI, rule res)
    apply (simp only: DeadSymbolsResult.simps)
    apply (intro conjI)
       apply (rule cand)
      apply (rule refl)
     apply (rule gone)
    apply (rule alloca)
    done
qed


theorem checkDeadSymbols_collects_and_removes_witness:
  "\<exists>Res state'. checkDeadSymbols all_checks_enabled dead_1_and_3 (example_context dying_state) = Inr Res
     \<and> 3 \<in> set (LeakCandidates Res)
     \<and> Transition Res = Some state' \<and> get_RegionState state' 3 = None
     \<and> (\<forall>CK. LeakReport CK 3 \<notin> set (EmittedReports Res))"
  using checkDeadSymbols_collects_and_removes [of "example_context dying_state" dead_1_and_3 3
      "RefState Allocated 7 AF_Alloca" all_checks_enabled]
  by (simp add: example_context_def dying_state_def dead_1_and_3_def get_RegionState_def
      isAllocated_def)

lemma checkDeadSymbols_unchanged:
  assumes none_dead: "\<not> (\<exists>I \<in> set (RegionState (getState C)). isDead (fst I))"
  shows "checkDeadSymbols Chk isDead C =
           Inr \<lparr>LeakCandidates = [], Transition = None, EmittedReports = []\<rparr>"
proof -
  have keep: "filter (\<lambda>p. \<not> isDead (fst p)) (RegionState (getState C)) = RegionState (getState C)"
    using none_dead by (simp add: filter_id_conv)
  have none: "filter (\<lambda>p. isDead (fst p) \<and> (isAllocated (snd p) \<or> isAllocatedOfSizeZero (snd p)))
      (RegionState (getState C)) = []"
    using none_dead by (simp add: filter_empty_conv)
  show ?thesis
    by (simp add: checkDeadSymbols_def Let_def checkDeadSymbols_RegionState_loop_self keep none)
qed

text \<open>
  Claim C6, as amended. When at least one dead symbol has a record in the region table,
  the state \<open>checkDeadSymbols\<close> passes on has no realloc pair and no free-return-value
  entry whose key or stored symbol is dead. When no dead symbol has a record, the
  callback returns early: it collects no leak candidate, emits no report and adds no
  transition, so the node keeps its state and both tables stay as they were.
\<close>

theorem checkDeadSymbols_cleans_tables_or_returns_early:
  assumes fam: "\<forall>I \<in> set (RegionState (getState C)). getAllocationFamily (snd I) \<noteq> AF_None"
  shows "((\<exists>I \<in> set (RegionState (getState C)). isDead (fst I)) \<longrightarrow>
           (\<exists>Res state'. checkDeadSymbols Chk isDead C = Inr Res \<and> Transition Res = Some state'
              \<and> (\<forall>I \<in> set (ReallocPairs state'). \<not> isDead (fst I) \<and> \<not> isDead (ReallocatedSym (snd I)))
              \<and> (\<forall>I \<in> set (FreeReturnValue state'). \<not> isDead (fst I) \<and> \<not> isDead (snd I))))
       \<and> (\<not> (\<exists>I \<in> set (RegionState (getState C)). isDead (fst I)) \<longrightarrow>
            checkDeadSymbols Chk isDead C =
              Inr \<lparr>LeakCandidates = [], Transition = None, EmittedReports = []\<rparr>)"
proof (intro conjI impI)
  assume some_dead: "\<exists>I \<in> set (RegionState (getState C)). isDead (fst I)"
  from checkDeadSymbols_changed [OF fam some_dead, of Chk] obtain Rs where
    res: "checkDeadSymbols Chk isDead C =
           Inr \<lparr>LeakCandidates =
                  map fst (filter (\<lambda>p. isDead (fst p) \<and> (isAllocated (snd p) \<or> isAllocatedOfSizeZero (snd p)))
                    (RegionState (getState C))),
                Transition = Some
                  ((checkDeadSymbols_FreeReturnValue_loop isDead
                      (FreeReturnValue (getState C))
                      (checkDeadSymbols_ReallocPairs_loop isDead (ReallocPairs (getState C)) (getState C)))
                   \<lparr>RegionState := filter (\<lambda>p. \<not> isDead (fst p)) (RegionState (getState C))\<rparr>),
                EmittedReports = Rs\<rparr>"
    by blast
  let ?st1 = "checkDeadSymbols_ReallocPairs_loop isDead (ReallocPairs (getState C)) (getState C)"
  let ?st2 = "checkDeadSymbols_FreeReturnValue_loop isDead (FreeReturnValue (getState C)) ?st1"
  let ?st3 = "?st2\<lparr>RegionState := filter (\<lambda>p. \<not> isDead (fst p)) (RegionState (getState C))\<rparr>"
  have rp: "ReallocPairs ?st3 =
      filter (\<lambda>p. \<not> (\<exists>I \<in> set (ReallocPairs (getState C)).
                 fst I = fst p \<and> (isDead (fst I) \<or> isDead (ReallocatedSym (snd I)))))
        (ReallocPairs (getState C))"
    by (simp add: checkDeadSymbols_FreeReturnValue_loop_fields checkDeadSymbols_ReallocPairs_loop_eq)
  have fr: "FreeReturnValue ?st3 =
      filter (\<lambda>p. \<not> (\<exists>I \<in> set (FreeReturnValue (getState C)).
                 fst I = fst p \<and> (isDead (fst I) \<or> isDead (snd I))))
        (FreeReturnValue (getState C))"
    by (simp add: checkDeadSymbols_FreeReturnValue_loop_eq checkDeadSymbols_ReallocPairs_loop_fields)
  have A: "\<forall>I \<in> set (ReallocPairs ?st3). \<not> isDead (fst I) \<and> \<not> isDead (ReallocatedSym (snd I))"
    unfolding rp by auto
  have B: "\<forall>I \<in> set (FreeReturnValue ?st3). \<not> isDead (fst I) \<and> \<not> isDead (snd I)"
    unfolding fr by auto
  show "\<exists>Res state'. checkDeadSymbols Chk isDead C = Inr Res \<and> Transition Res = Some state'
              \<and> (\<forall>I \<in> set (ReallocPairs state'). \<not> isDead (fst I) \<and> \<not> isDead (ReallocatedSym (snd I)))
              \<and> (\<forall>I \<in> set (FreeReturnValue state'). \<not> isDead (fst I) \<and> \<not> isDead (snd I))"
    apply (rule exI, rule exI, rule conjI, rule res)
    apply (simp only: DeadSymbolsResult.simps)
    apply (intro conjI)
      apply (rule refl)
     apply (rule A)
    apply (rule B)
    done
next
  assume "\<not> (\<exists>I \<in> set (RegionState (getState C)). isDead (fst I))"
  then show "checkDeadSymbols Chk isDead C =
              Inr \<lparr>LeakCandidates = [], Transition = None, EmittedReports = []\<rparr>"
    by (rule checkDeadSymbols_unchanged)
qed

theorem checkDeadSymbols_cleans_tables_or_returns_early_witness:
  "(\<exists>Res state'. checkDeadSymbols all_checks_enabled dead_1_2_and_3 (example_context dying_state) = Inr Res
     \<and> Transition Res = Some state'
     \<and> get_ReallocPairs state' 1 = None \<and> get_FreeReturnValue state' 2 = None)
   \<and> checkDeadSymbols all_checks_enabled only_1_is_dead (example_context malloc_done_state) =
       Inr \<lparr>LeakCandidates = [], Transition = None, EmittedReports = []\<rparr>"
proof -
  have fam: "\<forall>I \<in> set (RegionState (getState (example_context dying_state))).
      getAllocationFamily (snd I) \<noteq> AF_None"
    by (simp add: example_context_def dying_state_def)
  have dead: "\<exists>I \<in> set (RegionState (getState (example_context dying_state))). dead_1_2_and_3 (fst I)"
    by (simp add: example_context_def dying_state_def dead_1_2_and_3_def)
  from checkDeadSymbols_cleans_tables_or_returns_early [OF fam, of dead_1_2_and_3 all_checks_enabled,
      THEN conjunct1, rule_format, OF dead]
  obtain Res state' where
    res: "checkDeadSymbols all_checks_enabled dead_1_2_and_3 (example_context dying_state) = Inr Res"
      "Transition Res = Some state'"
    and rp: "\<forall>I \<in> set (ReallocPairs state'). \<not> dead_1_2_and_3 (fst I) \<and> \<not> dead_1_2_and_3 (ReallocatedSym (snd I))"
    and fr: "\<forall>I \<in> set (FreeReturnValue state'). \<not> dead_1_2_and_3 (fst I) \<and> \<not> dead_1_2_and_3 (snd I)"
    by blast
  from rp have "1 \<notin> fst ` set (ReallocPairs state')"
    by (auto simp add: dead_1_2_and_3_def)
  then have A: "get_ReallocPairs state' 1 = None"
    by (simp add: get_ReallocPairs_def map_of_eq_None_iff)
  from fr have "2 \<notin> fst ` set (FreeReturnValue state')"
    by (auto simp add: dead_1_2_and_3_def)
  then have B: "get_FreeReturnValue state' 2 = None"
    by (simp add: get_FreeReturnValue_def map_of_eq_None_iff)
  have fam2: "\<forall>I \<in> set (RegionState (getState (example_context malloc_done_state))).
      getAllocationFamily (snd I) \<noteq> AF_None"
    by (simp add: example_context_def malloc_done_state_def)
  have none: "\<not> (\<exists>I \<in> set (RegionState (getState (example_context malloc_done_state))). only_1_is_dead (fst I))"
    by (simp add: example_context_def malloc_done_state_def only_1_is_dead_def)
  from checkDeadSymbols_cleans_tables_or_returns_early [OF fam2, of only_1_is_dead all_checks_enabled,
      THEN conjunct2, rule_format, OF none]
  have C: "checkDeadSymbols all_checks_enabled only_1_is_dead (example_context malloc_done_state) =
       Inr \<lparr>LeakCandidates = [], Transition = None, EmittedReports = []\<rparr>" .
  from res A B C show ?thesis by blast
qed

text \<open>
  Claim C6 as stated fails on the early return: symbol 1 is dead and is the key of a
  realloc pair, no dead symbol has a record in the region table, and the callback adds
  no transition, so the node's state, with the pair, stays as it is.
\<close>

theorem checkDeadSymbols_early_return_counterexample:
  "checkDeadSymbols all_checks_enabled only_1_is_dead (example_context dangling_pair_state) =
     Inr \<lparr>LeakCandidates = [], Transition = None, EmittedReports = []\<rparr>
   \<and> only_1_is_dead 1
   \<and> get_ReallocPairs (getState (example_context dangling_pair_state)) 1 =
       Some (ReallocPair 2 OAR_ToBeFreedAfterFailure)"
  by (simp add: checkDeadSymbols_def Let_def example_context_def dangling_pair_state_def
      only_1_is_dead_def get_ReallocPairs_def)

section \<open>Properties of the allocation modeler\<close>

lemmas example_defs = example_context_def example_AST_def example_getSVal_def example_assume_def
  log_event_def getArg_def getNumArgs_def

text \<open>
  Claim C5, as amended. When the declared return type of the call expression is not
  pointer-like, \<open>MallocMemAux\<close> (in both of its overloads) models nothing and returns the
  null state reference, whatever state it was given.
\<close>

theorem MallocMemAux_not_pointer_returns_null:
  assumes "\<not> isLocType C (getType (getASTContext C) CE)"
  shows "MallocMemAux C CE SizeEx Init StateRef Family = Inr None
         \<and> MallocMemAux_SVal C CE Size Init StateRef Family = Inr None"
  using assms
  by (simp add: MallocMemAux_def MallocMemAux_SVal_def split: option.splits)

theorem MallocMemAux_not_pointer_returns_null_witness:
  "MallocMemAux (example_context one_block_state) 50 51 UndefinedVal (Some one_block_state) AF_Malloc
     = Inr None
   \<and> MallocMemAux_SVal (example_context one_block_state) 50 (nonloc_SymbolVal 7) UndefinedVal
       (Some one_block_state) AF_Malloc = Inr None"
  using MallocMemAux_not_pointer_returns_null [of "example_context one_block_state" 50 51
      UndefinedVal "Some one_block_state" AF_Malloc "nonloc_SymbolVal 7"]
  by (simp add: example_context_def example_AST_def)

text \<open>
  The claim as written fails: for the call of statement 50, whose declared type is not
  a pointer type, the modeler does not hand back the state it was given.
\<close>

theorem MallocMemAux_not_pointer_counterexample:
  "\<not> isLocType (example_context one_block_state)
        (getType (getASTContext (example_context one_block_state)) 50)
   \<and> MallocMemAux (example_context one_block_state) 50 51 UndefinedVal (Some one_block_state) AF_Malloc
     \<noteq> Inr (Some one_block_state)"
  by (simp add: MallocMemAux_def MallocMemAux_SVal_def example_context_def example_AST_def)

text \<open>
  Claim C9. When \<open>ProcessZeroAllocCheck\<close> runs on a size argument with a defined value:
  if the size is not provably zero, the false branch of the split on \<open>size == 0\<close> is
  feasible and is the state returned; if the size is provably zero and the returned
  symbol has a record, the record becomes \<open>AllocatedOfSizeZero\<close> (in the true branch)
  when it is \<open>Allocated\<close>, and the state comes back as it was given when the record is
  in any other state.
\<close>

theorem ProcessZeroAllocCheck_branches:
  assumes arg: "(\<exists>FD. getStmtClass (getASTContext C) E = CallExprClass FD
                    \<and> getArg (getASTContext C) E IndexOfSizeArg = Some Arg)
                \<or> getStmtClass (getASTContext C) E = CXXNewExprClass (Some Arg)"
    and defined: "\<not> isUnknownOrUndef (getSVal C Arg)"
    and split: "State_assume C State
                  (evalEQ C State (getSVal C Arg) (makeZeroVal C (getType (getASTContext C) Arg)))
                = (TrueState, FalseState)"
    and feasible: "TrueState \<noteq> None \<or> FalseState \<noteq> None"
  shows "(\<not> (TrueState \<noteq> None \<and> FalseState = None) \<longrightarrow>
            FalseState \<noteq> None \<and>
            ProcessZeroAllocCheck C E IndexOfSizeArg (Some State) RetValOpt = Inr FalseState)
       \<and> (\<forall>TState Sym RS.
            TrueState = Some TState \<and> FalseState = None \<and>
            getAsLocSymbol (case RetValOpt of None \<Rightarrow> getSVal C E | Some V \<Rightarrow> V) = Some Sym \<and>
            get_RegionState State Sym = Some RS \<longrightarrow>
            ProcessZeroAllocCheck C E IndexOfSizeArg (Some State) RetValOpt =
              (if isAllocated RS
               then Inr (Some (set_RegionState Sym (getAllocatedOfSizeZero RS) TState))
               else Inr (Some State)))"
  using arg defined split feasible
  by (auto simp add: ProcessZeroAllocCheck_def Let_def split: option.splits)

theorem ProcessZeroAllocCheck_branches_witness:
  "ProcessZeroAllocCheck (example_context malloc_done_state) 20 0 (Some malloc_done_state) None =
     Inr (Some (log_event (Assumed (nonloc_SymbolVal 100) False) malloc_done_state))
   \<and> ProcessZeroAllocCheck (always_true_context malloc_done_state) 20 0 (Some malloc_done_state) None =
     Inr (Some (set_RegionState 20 (RefState AllocatedOfSizeZero 20 AF_Malloc)
                  (log_event (Assumed (nonloc_SymbolVal 100) True) malloc_done_state)))
   \<and> ProcessZeroAllocCheck (always_true_context freed_block_state) 20 0 (Some freed_block_state)
        (Some (loc_MemRegionVal (SymbolicRegion 1 UnknownSpaceRegion))) =
     Inr (Some freed_block_state)"
  using ProcessZeroAllocCheck_branches [where C = "example_context malloc_done_state" and E = 20
      and IndexOfSizeArg = 0 and Arg = 21 and State = malloc_done_state and RetValOpt = None
      and TrueState = "Some (log_event (Assumed (nonloc_SymbolVal 100) True) malloc_done_state)"
      and FalseState = "Some (log_event (Assumed (nonloc_SymbolVal 100) False) malloc_done_state)"]
    ProcessZeroAllocCheck_branches [where C = "always_true_context malloc_done_state" and E = 20
      and IndexOfSizeArg = 0 and Arg = 21 and State = malloc_done_state and RetValOpt = None
      and TrueState = "Some (log_event (Assumed (nonloc_SymbolVal 100) True) malloc_done_state)"
      and FalseState = None,
      THEN conjunct2, rule_format,
      of "log_event (Assumed (nonloc_SymbolVal 100) True) malloc_done_state" 20
         "RefState Allocated 20 AF_Malloc"]
    ProcessZeroAllocCheck_branches [where C = "always_true_context freed_block_state" and E = 20
      and IndexOfSizeArg = 0 and Arg = 21 and State = freed_block_state
      and RetValOpt = "Some (loc_MemRegionVal (SymbolicRegion 1 UnknownSpaceRegion))"
      and TrueState = "Some (log_event (Assumed (nonloc_SymbolVal 100) True) freed_block_state)"
      and FalseState = None,
      THEN conjunct2, rule_format,
      of "log_event (Assumed (nonloc_SymbolVal 100) True) freed_block_state" 1
         "RefState Released 10 AF_Malloc"]
  by (simp add: example_defs always_true_context_def malloc_done_state_def freed_block_state_def
      isUnknownOrUndef_def get_RegionState_def isAllocated_def getAllocatedOfSizeZero_def)

lemma performKernelMalloc_result:
  assumes cache: "KernelZeroFlagVal = None \<or> KernelZeroFlagVal = KernelZeroFlag_of_OS (getOS C)"
  shows "snd (performKernelMalloc C KernelZeroFlagVal CE State) =
     (case KernelZeroFlag_of_OS (getOS C) of
        None \<Rightarrow> Inr None
      | Some ZeroFlagVal \<Rightarrow>
          let Ctx = getASTContext C;
              FlagsEx = last (getArgs Ctx CE);
              MaskedFlagsUC =
                evalBinOpNN C State BO_And (getSVal C FlagsEx)
                  (makeIntVal C ZeroFlagVal (getType Ctx FlagsEx)) (getType Ctx FlagsEx)
          in
          if 2 \<le> getNumArgs Ctx CE \<and> isNonLoc (getSVal C FlagsEx) \<and> \<not> isUnknownOrUndef MaskedFlagsUC
             \<and> fst (State_assume C State MaskedFlagsUC) \<noteq> None
             \<and> snd (State_assume C State MaskedFlagsUC) = None
          then map_sum id Some
                 (MallocMemAux C CE (hd (getArgs Ctx CE)) (makeZeroVal C (CharTy Ctx))
                    (fst (State_assume C State MaskedFlagsUC)) AF_Malloc)
          else Inr None)"
proof (cases "KernelZeroFlag_of_OS (getOS C)")
  case None
  with cache show ?thesis by (auto simp add: performKernelMalloc_def Let_def)
next
  case (Some Z)
  with cache have c: "(case KernelZeroFlagVal of None \<Rightarrow> KernelZeroFlag_of_OS (getOS C) | Some X \<Rightarrow> Some X) = Some Z"
    by (cases KernelZeroFlagVal) auto
  let ?M = "evalBinOpNN C State BO_And (getSVal C (last (getArgs (getASTContext C) CE)))
                  (makeIntVal C Z (getType (getASTContext C) (last (getArgs (getASTContext C) CE))))
                  (getType (getASTContext C) (last (getArgs (getASTContext C) CE)))"
  obtain T F where sa: "State_assume C State ?M = (T, F)"
    by (cases "State_assume C State ?M")
  have wrap: "(case r of Inl e \<Rightarrow> Inl e | Inr S \<Rightarrow> Inr (Some S)) = map_sum id Some r"
    for r :: "error + 'a ProgramState option"
    by (cases r) simp_all
  show ?thesis
    by (simp add: performKernelMalloc_def Let_def Some c sa wrap not_le)
qed

text \<open>
  Claim C7. For a \<open>kmalloc\<close> call with at least one argument (and for a \<open>malloc\<close> call
  with three arguments, which takes the same path), with the cache of the zero flag
  either empty or filled by an earlier call: the state after the branch is that of
  \<open>MallocMemAux\<close> with a zero initial value, on the state of the true assumption,
  exactly when the platform is in the table, the call has a flags argument with a
  non-location value, the bitwise AND of the flags with the zero flag of the platform
  is known, and assuming it is feasible while assuming its negation is not; in every
  other case it is that of \<open>MallocMemAux\<close> with an undefined initial value on the
  incoming state. The zero flag is \<open>0x0100\<close> on FreeBSD, \<open>0x0002\<close> on NetBSD,
  \<open>0x0008\<close> on OpenBSD and \<open>0x8000\<close> on Linux, and no other platform has one.
\<close>

theorem kernel_malloc_zero_flag:
  assumes cache: "KernelZeroFlagVal = None \<or> KernelZeroFlagVal = KernelZeroFlag_of_OS (getOS C)"
    and args: "1 \<le> getNumArgs (getASTContext C) CE"
  shows "snd (checkPostStmt_kmalloc C KernelZeroFlagVal CE State) =
     map_sum id Some
       (case KernelZeroFlag_of_OS (getOS C) of
          None \<Rightarrow> MallocMemAux C CE (hd (getArgs (getASTContext C) CE)) UndefinedVal (Some State) AF_Malloc
        | Some ZeroFlagVal \<Rightarrow>
            let Ctx = getASTContext C;
                FlagsEx = last (getArgs Ctx CE);
                MaskedFlagsUC =
                  evalBinOpNN C State BO_And (getSVal C FlagsEx)
                    (makeIntVal C ZeroFlagVal (getType Ctx FlagsEx)) (getType Ctx FlagsEx)
            in
            if 2 \<le> getNumArgs Ctx CE \<and> isNonLoc (getSVal C FlagsEx) \<and> \<not> isUnknownOrUndef MaskedFlagsUC
               \<and> fst (State_assume C State MaskedFlagsUC) \<noteq> None
               \<and> snd (State_assume C State MaskedFlagsUC) = None
            then MallocMemAux C CE (hd (getArgs Ctx CE)) (makeZeroVal C (CharTy Ctx))
                   (fst (State_assume C State MaskedFlagsUC)) AF_Malloc
            else MallocMemAux C CE (hd (getArgs Ctx CE)) UndefinedVal (Some State) AF_Malloc)
   \<and> KernelZeroFlag_of_OS FreeBSD = Some 0x0100
   \<and> KernelZeroFlag_of_OS NetBSD = Some 0x0002
   \<and> KernelZeroFlag_of_OS OpenBSD = Some 0x0008
   \<and> KernelZeroFlag_of_OS Linux = Some 0x8000
   \<and> (\<forall>OS. OS \<notin> {FreeBSD, NetBSD, OpenBSD, Linux} \<longrightarrow> KernelZeroFlag_of_OS OS = None)
   \<and> (getNumArgs (getASTContext C) CE = 3 \<longrightarrow>
        checkPostStmt_malloc C KernelZeroFlagVal CE State =
        checkPostStmt_kmalloc C KernelZeroFlagVal CE State)"
proof -
  let ?fallback = "MallocMemAux C CE (hd (getArgs (getASTContext C) CE)) UndefinedVal (Some State) AF_Malloc"
  have wrap: "(case r of Inl e \<Rightarrow> Inl e | Inr S \<Rightarrow> Inr (Some S)) = map_sum id Some r"
    for r :: "error + 'a ProgramState option"
    by (cases r) simp_all
  obtain K R where pk: "performKernelMalloc C KernelZeroFlagVal CE State = (K, R)"
    by (cases "performKernelMalloc C KernelZeroFlagVal CE State")
  have A: "snd (checkPostStmt_kmalloc C KernelZeroFlagVal CE State) =
      (case R of
           Inl e \<Rightarrow> Inl e
         | Inr (Some S) \<Rightarrow> Inr (Some S)
         | Inr None \<Rightarrow> map_sum id Some ?fallback)"
    using args
    by (cases R) (auto simp add: checkPostStmt_kmalloc_def Let_def pk wrap not_less split: option.splits)
  have R: "R = snd (performKernelMalloc C KernelZeroFlagVal CE State)"
    by (simp add: pk)
  have main: "snd (checkPostStmt_kmalloc C KernelZeroFlagVal CE State) =
     map_sum id Some
       (case KernelZeroFlag_of_OS (getOS C) of
          None \<Rightarrow> ?fallback
        | Some ZeroFlagVal \<Rightarrow>
            let Ctx = getASTContext C;
                FlagsEx = last (getArgs Ctx CE);
                MaskedFlagsUC =
                  evalBinOpNN C State BO_And (getSVal C FlagsEx)
                    (makeIntVal C ZeroFlagVal (getType Ctx FlagsEx)) (getType Ctx FlagsEx)
            in
            if 2 \<le> getNumArgs Ctx CE \<and> isNonLoc (getSVal C FlagsEx) \<and> \<not> isUnknownOrUndef MaskedFlagsUC
               \<and> fst (State_assume C State MaskedFlagsUC) \<noteq> None
               \<and> snd (State_assume C State MaskedFlagsUC) = None
            then MallocMemAux C CE (hd (getArgs Ctx CE)) (makeZeroVal C (CharTy Ctx))
                   (fst (State_assume C State MaskedFlagsUC)) AF_Malloc
            else ?fallback)"
  proof (cases "KernelZeroFlag_of_OS (getOS C)")
    case None
    then show ?thesis
      unfolding A R performKernelMalloc_result [OF cache] by simp
  next
    case (Some Z)
    let ?M = "evalBinOpNN C State BO_And (getSVal C (last (getArgs (getASTContext C) CE)))
                  (makeIntVal C Z (getType (getASTContext C) (last (getArgs (getASTContext C) CE))))
                  (getType (getASTContext C) (last (getArgs (getASTContext C) CE)))"
    let ?zero = "MallocMemAux C CE (hd (getArgs (getASTContext C) CE))
                   (makeZeroVal C (CharTy (getASTContext C))) (fst (State_assume C State ?M)) AF_Malloc"
    define cond where "cond \<longleftrightarrow>
               2 \<le> getNumArgs (getASTContext C) CE \<and> isNonLoc (getSVal C (last (getArgs (getASTContext C) CE)))
               \<and> \<not> isUnknownOrUndef ?M \<and> fst (State_assume C State ?M) \<noteq> None
               \<and> snd (State_assume C State ?M) = None"
    define zero where "zero = ?zero"
    have pk': "snd (performKernelMalloc C KernelZeroFlagVal CE State) =
        (if cond then map_sum id Some zero else Inr None)"
      unfolding performKernelMalloc_result [OF cache] Some
      by (auto simp add: Let_def cond_def zero_def)
    have rhs: "(case KernelZeroFlag_of_OS (getOS C) of
          None \<Rightarrow> ?fallback
        | Some ZeroFlagVal \<Rightarrow>
            let Ctx = getASTContext C;
                FlagsEx = last (getArgs Ctx CE);
                MaskedFlagsUC =
                  evalBinOpNN C State BO_And (getSVal C FlagsEx)
                    (makeIntVal C ZeroFlagVal (getType Ctx FlagsEx)) (getType Ctx FlagsEx)
            in
            if 2 \<le> getNumArgs Ctx CE \<and> isNonLoc (getSVal C FlagsEx) \<and> \<not> isUnknownOrUndef MaskedFlagsUC
               \<and> fst (State_assume C State MaskedFlagsUC) \<noteq> None
               \<and> snd (State_assume C State MaskedFlagsUC) = None
            then MallocMemAux C CE (hd (getArgs Ctx CE)) (makeZeroVal C (CharTy Ctx))
                   (fst (State_assume C State MaskedFlagsUC)) AF_Malloc
            else ?fallback) = (if cond then zero else ?fallback)"
      unfolding Some by (auto simp add: Let_def cond_def zero_def)
    show ?thesis
      unfolding rhs A R pk'
      by (cases cond; cases zero) simp_all
  qed
  have table: "KernelZeroFlag_of_OS FreeBSD = Some 0x0100
   \<and> KernelZeroFlag_of_OS NetBSD = Some 0x0002
   \<and> KernelZeroFlag_of_OS OpenBSD = Some 0x0008
   \<and> KernelZeroFlag_of_OS Linux = Some 0x8000
   \<and> (\<forall>OS. OS \<notin> {FreeBSD, NetBSD, OpenBSD, Linux} \<longrightarrow> KernelZeroFlag_of_OS OS = None)
   \<and> (getNumArgs (getASTContext C) CE = 3 \<longrightarrow>
        checkPostStmt_malloc C KernelZeroFlagVal CE State =
        checkPostStmt_kmalloc C KernelZeroFlagVal CE State)"
    by (simp add: KernelZeroFlag_of_OS_def checkPostStmt_malloc_def checkPostStmt_kmalloc_def Let_def)
  from main [unfolded Let_def] table show ?thesis unfolding Let_def by (rule conjI)
qed

theorem kernel_malloc_zero_flag_witness:
  "snd (checkPostStmt_kmalloc (example_context one_block_state) None 30 one_block_state) =
     Inr (Some (Some kmalloc_zeroed_state))
   \<and> snd (checkPostStmt_kmalloc (example_context one_block_state) (Some 0x8000) 20 one_block_state) =
     Inr (Some (Some malloc_undefined_state))"
  using kernel_malloc_zero_flag [of None "example_context one_block_state" 30 one_block_state]
    kernel_malloc_zero_flag [of "Some 0x8000" "example_context one_block_state" 20 one_block_state]
  by (simp add: example_defs example_evalBinOp_def KernelZeroFlag_of_OS_def
      MallocMemAux_def MallocMemAux_SVal_def MallocUpdateRefState_def
      Let_def isUnknownOrUndef_def isUndef_def RefState_assert_def getAllocated_def
      set_RegionState_def one_block_state_def kmalloc_zeroed_state_def malloc_undefined_state_def)

section \<open>Properties of the deallocation and realloc modelers\<close>

lemmas modeler_defs = FreeMemAux_def FreeMemAux_Expr_def MallocMemAux_SVal_def
  MallocUpdateRefState_def returns_def reports_and_returns_null_def ReportDoubleFree_def
  didPreviousFreeFail_def getCheckIfTracked_Sym_def getCheckIfTracked_Family_def
  getAllocationFamily_Stmt_def isCMemFunction_def isStandardNewDelete_def decl_of_def
  isUndef_def isUnknownOrUndef_def RefState_assert_def getAllocated_def getReleased_def
  getRelinquished_def isAllocated_def isAllocatedOfSizeZero_def isReleased_def
  isRelinquished_def isEscaped_def isBlockDataRegion_def isAllocaRegion_def
  get_RegionState_def set_RegionState_def get_FreeReturnValue_def remove_FreeReturnValue_def
  set_FreeReturnValue_def get_ReallocPairs_def set_ReallocPairs_def

lemma FreeMemAux_Expr_tracked:
  assumes val: "getSVal C ArgExpr = loc_MemRegionVal R"
    and notnull: "\<not> (snd (State_assume C State (loc_MemRegionVal R)) \<noteq> None
                     \<and> fst (State_assume C State (loc_MemRegionVal R)) = None)"
    and blk: "\<not> isBlockDataRegion R"
    and space: "getMemorySpace R = UnknownSpaceRegion \<or> getMemorySpace R = HeapSpaceRegion"
    and base: "getSymbol (getBaseRegion R) = Some SymBase"
    and tracked: "get_RegionState State SymBase = Some RS"
  shows "FreeMemAux_Expr Chk C ArgExpr ParentExpr (Some State) Hold b ReturnsNullOnFailure =
    (let IsKnown = (isAllocated RS \<or> isAllocatedOfSizeZero RS) in
     if getAllocationFamily RS = AF_Alloca then
       reports_and_returns_null (ReportFreeAlloca Chk C (loc_MemRegionVal R)) IsKnown
     else if (isReleased RS \<or> isRelinquished RS) \<and> \<not> fst (didPreviousFreeFail C State SymBase) then
       reports_and_returns_null
         (ReportDoubleFree Chk C (isReleased RS) SymBase (snd (didPreviousFreeFail C State SymBase)))
         IsKnown
     else if (isAllocated RS \<or> isAllocatedOfSizeZero RS \<or> isEscaped RS) \<and>
             getAllocationFamily RS \<noteq> getAllocationFamily_Stmt Chk C ParentExpr then
       reports_and_returns_null
         (ReportMismatchedDealloc Chk C ParentExpr RS SymBase Hold) IsKnown
     else if (isAllocated RS \<or> isAllocatedOfSizeZero RS \<or> isEscaped RS) \<and>
             (\<exists>n. getAsOffset R = ConcreteOffset n \<and> n \<noteq> 0) then
       reports_and_returns_null
         (ReportOffsetFree Chk C (loc_MemRegionVal R) ParentExpr (getStmt RS)) IsKnown
     else if isFunctionPointerType C SymBase then
       reports_and_returns_null
         (ReportFunctionPointerFree Chk C (loc_MemRegionVal R) ParentExpr) IsKnown
     else if \<not> RefState_assert (getAllocationFamily RS) then Inl AssertionFailure
     else
       Inr (\<lparr>NewState =
               Some (set_RegionState SymBase
                       (if Hold then getRelinquished (getAllocationFamily RS) ParentExpr
                        else getReleased (getAllocationFamily RS) ParentExpr)
                       (case (if ReturnsNullOnFailure then getAsSymbol (getSVal C ParentExpr) else None) of
                          Some Ret \<Rightarrow> set_FreeReturnValue SymBase Ret (remove_FreeReturnValue SymBase State)
                        | None \<Rightarrow> remove_FreeReturnValue SymBase State)),
             Reports = [],
             SymbolDependencies =
               (case (if ReturnsNullOnFailure then getAsSymbol (getSVal C ParentExpr) else None) of
                  Some Ret \<Rightarrow> [(SymBase, Ret)]
                | None \<Rightarrow> [])\<rparr>,
            IsKnown))"
proof -
  obtain nn n where sa: "State_assume C State (loc_MemRegionVal R) = (nn, n)"
    by (cases "State_assume C State (loc_MemRegionVal R)")
  with notnull have nn: "\<not> (n \<noteq> None \<and> nn = None)" by simp
  have sp: "\<not> \<not> (getMemorySpace R = UnknownSpaceRegion \<or> getMemorySpace R = HeapSpaceRegion)"
    using space by simp
  show ?thesis
    unfolding FreeMemAux_Expr_def
    apply (simp only: option.case Let_def val isUndef_def isUnknownOrUndef_def isLoc.simps
        SVal.distinct sa prod.case nn blk sp base tracked getAsRegion.simps if_False if_True
        simp_thms)
    apply (cases "getAsOffset R")
      apply (auto simp add: Let_def)
    done
qed

lemma reports_and_returns_null_NewState:
  "reports_and_returns_null Rep b = Inr (Res, b') \<Longrightarrow> NewState Res = None \<and> b' = b"
  by (cases Rep) (auto simp add: reports_and_returns_null_def)

lemma FreeMemAux_Expr_success_reaches:
  assumes res: "FreeMemAux_Expr Chk C ArgExpr ParentExpr (Some State) Hold b ReturnsNullOnFailure = Inr (Res, IsKnown)"
    and st: "NewState Res = Some S1"
  shows "\<exists>R SymBase. getSVal C ArgExpr = loc_MemRegionVal R
           \<and> \<not> (snd (State_assume C State (loc_MemRegionVal R)) \<noteq> None
                 \<and> fst (State_assume C State (loc_MemRegionVal R)) = None)
           \<and> \<not> isBlockDataRegion R
           \<and> (getMemorySpace R = UnknownSpaceRegion \<or> getMemorySpace R = HeapSpaceRegion)
           \<and> getSymbol (getBaseRegion R) = Some SymBase"
proof -
  have null: "\<And>Rep b0. reports_and_returns_null Rep b0 \<noteq> Inr (Res, IsKnown)"
    using st by (auto dest: reports_and_returns_null_NewState)
  have ret: "returns None \<noteq> Res"
    using st by (auto simp add: returns_def)
  obtain nn n where sa: "State_assume C State (getSVal C ArgExpr) = (nn, n)"
    by (cases "State_assume C State (getSVal C ArgExpr)")
  show ?thesis
  proof (cases "getSVal C ArgExpr")
    case (loc_MemRegionVal R)
    from res null ret sa show ?thesis
      unfolding FreeMemAux_Expr_def loc_MemRegionVal
      by (simp add: Let_def isUndef_def isUnknownOrUndef_def loc_MemRegionVal
          split: if_splits option.splits)
  qed (use res null ret sa in \<open>simp_all add: FreeMemAux_Expr_def Let_def isUndef_def isUnknownOrUndef_def
          split: if_splits option.splits\<close>)
qed

lemma FreeMemAux_Expr_untracked:
  assumes val: "getSVal C ArgExpr = loc_MemRegionVal R"
    and notnull: "\<not> (snd (State_assume C State (loc_MemRegionVal R)) \<noteq> None
                     \<and> fst (State_assume C State (loc_MemRegionVal R)) = None)"
    and blk: "\<not> isBlockDataRegion R"
    and space: "getMemorySpace R = UnknownSpaceRegion \<or> getMemorySpace R = HeapSpaceRegion"
    and base: "getSymbol (getBaseRegion R) = Some SymBase"
    and untracked: "get_RegionState State SymBase = None"
  shows "FreeMemAux_Expr Chk C ArgExpr ParentExpr (Some State) Hold b ReturnsNullOnFailure =
    (if isFunctionPointerType C SymBase then
       reports_and_returns_null
         (ReportFunctionPointerFree Chk C (loc_MemRegionVal R) ParentExpr) False
     else if \<not> RefState_assert (getAllocationFamily_Stmt Chk C ParentExpr) then Inl AssertionFailure
     else
       Inr (\<lparr>NewState =
               Some (set_RegionState SymBase
                       (if Hold then getRelinquished (getAllocationFamily_Stmt Chk C ParentExpr) ParentExpr
                        else getReleased (getAllocationFamily_Stmt Chk C ParentExpr) ParentExpr)
                       (case (if ReturnsNullOnFailure then getAsSymbol (getSVal C ParentExpr) else None) of
                          Some Ret \<Rightarrow> set_FreeReturnValue SymBase Ret (remove_FreeReturnValue SymBase State)
                        | None \<Rightarrow> remove_FreeReturnValue SymBase State)),
             Reports = [],
             SymbolDependencies =
               (case (if ReturnsNullOnFailure then getAsSymbol (getSVal C ParentExpr) else None) of
                  Some Ret \<Rightarrow> [(SymBase, Ret)]
                | None \<Rightarrow> [])\<rparr>,
            False))"
proof -
  obtain nn n where sa: "State_assume C State (loc_MemRegionVal R) = (nn, n)"
    by (cases "State_assume C State (loc_MemRegionVal R)")
  with notnull have nn: "\<not> (n \<noteq> None \<and> nn = None)" by simp
  have sp: "\<not> \<not> (getMemorySpace R = UnknownSpaceRegion \<or> getMemorySpace R = HeapSpaceRegion)"
    using space by simp
  show ?thesis
    unfolding FreeMemAux_Expr_def
    by (simp only: option.case Let_def val isUndef_def isUnknownOrUndef_def isLoc.simps
        SVal.distinct sa prod.case nn blk sp base untracked getAsRegion.simps if_False if_True
        simp_thms)
qed

lemma FreeMemAux_Expr_success_known:
  assumes res: "FreeMemAux_Expr Chk C ArgExpr ParentExpr (Some State) Hold b ReturnsNullOnFailure = Inr (Res, IsKnown)"
    and st: "NewState Res = Some S1"
  shows "\<exists>R SymBase. getSVal C ArgExpr = loc_MemRegionVal R
           \<and> getSymbol (getBaseRegion R) = Some SymBase
           \<and> IsKnown = (\<exists>RS. get_RegionState State SymBase = Some RS
                            \<and> (isAllocated RS \<or> isAllocatedOfSizeZero RS))
           \<and> Reports Res = []"
proof -
  from FreeMemAux_Expr_success_reaches [OF res st] obtain R SymBase where
    val: "getSVal C ArgExpr = loc_MemRegionVal R"
    and notnull: "\<not> (snd (State_assume C State (loc_MemRegionVal R)) \<noteq> None
                     \<and> fst (State_assume C State (loc_MemRegionVal R)) = None)"
    and blk: "\<not> isBlockDataRegion R"
    and space: "getMemorySpace R = UnknownSpaceRegion \<or> getMemorySpace R = HeapSpaceRegion"
    and base: "getSymbol (getBaseRegion R) = Some SymBase"
    by blast
  have null: "\<And>Rep b0. reports_and_returns_null Rep b0 \<noteq> Inr (Res, IsKnown)"
    using st by (auto dest: reports_and_returns_null_NewState)
  have "IsKnown = (\<exists>RS. get_RegionState State SymBase = Some RS
                            \<and> (isAllocated RS \<or> isAllocatedOfSizeZero RS)) \<and> Reports Res = []"
  proof (cases "get_RegionState State SymBase")
    case None
    from res null show ?thesis
      unfolding FreeMemAux_Expr_untracked [OF val notnull blk space base None]
      by (auto simp add: None split: if_splits)
  next
    case (Some RS)
    from res null show ?thesis
      unfolding FreeMemAux_Expr_tracked [OF val notnull blk space base Some]
      by (auto simp add: Some Let_def split: if_splits)
  qed
  with val base show ?thesis by blast
qed

lemma FreeMemAux_success_known:
  assumes res: "FreeMemAux Chk C CE (Some State) Num Hold b ReturnsNullOnFailure = Inr (Res, IsKnown)"
    and st: "NewState Res = Some S1"
  shows "\<exists>R SymBase. Num < length (getArgs (getASTContext C) CE)
           \<and> getSVal C (getArgs (getASTContext C) CE ! Num) = loc_MemRegionVal R
           \<and> getSymbol (getBaseRegion R) = Some SymBase
           \<and> IsKnown = (\<exists>RS. get_RegionState State SymBase = Some RS
                            \<and> (isAllocated RS \<or> isAllocatedOfSizeZero RS))
           \<and> Reports Res = []"
proof (cases "Num < length (getArgs (getASTContext C) CE)")
  case True
  with res have "FreeMemAux_Expr Chk C (getArgs (getASTContext C) CE ! Num) CE (Some State) Hold b
      ReturnsNullOnFailure = Inr (Res, IsKnown)"
    by (simp add: FreeMemAux_def getArg_def)
  from FreeMemAux_Expr_success_known [OF this st] True show ?thesis by blast
next
  case False
  with res st show ?thesis
    by (auto simp add: FreeMemAux_def getArg_def returns_def)
qed

lemma ReallocMemAux_returned_pair:
  assumes res: "ReallocMemAux Chk C CE ShouldFreeOnFail (Some State) SuffixWithN = Inr Res"
    and st: "NewState Res = Some S'"
    and ptr: "\<not> (fst (State_assume C State
                        (evalEQ C State (getSVal C (getArgs (getASTContext C) CE ! 0)) (makeNull C))) \<noteq> None
                 \<and> snd (State_assume C State
                        (evalEQ C State (getSVal C (getArgs (getASTContext C) CE ! 0)) (makeNull C))) = None)"
    and size: "\<not> (fst (State_assume C State
                         (evalEQ C State
                            (if SuffixWithN
                             then evalMulForBufferSize C (getArgs (getASTContext C) CE ! 1)
                                    (getArgs (getASTContext C) CE ! 2)
                             else getSVal C (getArgs (getASTContext C) CE ! 1))
                            (makeIntValWithPtrWidth C 0 False))) \<noteq> None
                  \<and> snd (State_assume C State
                         (evalEQ C State
                            (if SuffixWithN
                             then evalMulForBufferSize C (getArgs (getASTContext C) CE ! 1)
                                    (getArgs (getASTContext C) CE ! 2)
                             else getSVal C (getArgs (getASTContext C) CE ! 1))
                            (makeIntValWithPtrWidth C 0 False))) = None)"
  shows "\<exists>FromPtr ToPtr.
           getAsSymbol (getSVal C (getArgs (getASTContext C) CE ! 0)) = Some FromPtr
         \<and> getAsSymbol (getSVal C CE) = Some ToPtr
         \<and> get_ReallocPairs S' ToPtr =
             Some (ReallocPair FromPtr
                     (if ShouldFreeOnFail then OAR_FreeOnFailure
                      else if (\<exists>RS. get_RegionState State FromPtr = Some RS
                                  \<and> (isAllocated RS \<or> isAllocatedOfSizeZero RS))
                      then OAR_ToBeFreedAfterFailure
                      else OAR_DoNotTrackAfterFailure))
         \<and> (ToPtr, FromPtr) \<in> set (SymbolDependencies Res)"
proof -
  let ?A0 = "getSVal C (getArgs (getASTContext C) CE ! 0)"
  let ?TS = "if SuffixWithN
             then evalMulForBufferSize C (getArgs (getASTContext C) CE ! 1)
                    (getArgs (getASTContext C) CE ! 2)
             else getSVal C (getArgs (getASTContext C) CE ! 1)"
  obtain p1 p2 where sp: "State_assume C State (evalEQ C State ?A0 (makeNull C)) = (p1, p2)"
    by (cases "State_assume C State (evalEQ C State ?A0 (makeNull C))")
  obtain z1 z2 where sz: "State_assume C State (evalEQ C State ?TS (makeIntValWithPtrWidth C 0 False)) = (z1, z2)"
    by (cases "State_assume C State (evalEQ C State ?TS (makeIntValWithPtrWidth C 0 False))")
  from ptr sp have np: "\<not> (p1 \<noteq> None \<and> p2 = None)" by simp
  from size sz have nz: "\<not> (z1 \<noteq> None \<and> z2 = None)" by simp
  have nonnull: "Res \<noteq> returns None"
    using st by (auto simp add: returns_def)
  from res nonnull have args: "2 \<le> getNumArgs (getASTContext C) CE"
    by (auto simp add: ReallocMemAux_def Let_def split: if_splits)
  from res nonnull args sp sz np nz obtain FromPtr ToPtr where
    fromto: "getAsSymbol ?A0 = Some FromPtr" "getAsSymbol (getSVal C CE) = Some ToPtr"
    by (cases "getAsSymbol ?A0"; cases "getAsSymbol (getSVal C CE)")
       (auto simp add: ReallocMemAux_def Let_def split: if_splits)
  note unfold = ReallocMemAux_def Let_def returns_def not_less
  obtain Freed IsKnown where fr: "FreeMemAux Chk C CE (Some State) 0 False False False = Inr (Freed, IsKnown)"
  proof (cases "FreeMemAux Chk C CE (Some State) 0 False False False")
    case (Inl e)
    with res nonnull args sp sz np nz fromto have False
      by (auto simp add: unfold split: if_splits)
    then show ?thesis ..
  next
    case (Inr r)
    then show ?thesis using that by (cases r) auto
  qed
  obtain stateFree where sf: "NewState Freed = Some stateFree"
  proof (cases "NewState Freed")
    case None
    with res st nonnull args sp sz np nz fromto fr have False
      by (auto simp add: unfold split: if_splits)
    then show ?thesis ..
  next
    case (Some x)
    then show ?thesis using that by simp
  qed
  obtain stateRealloc where
    sr: "MallocMemAux_SVal C CE ?TS UnknownVal (Some stateFree) AF_Malloc = Inr (Some stateRealloc)"
  proof (cases "MallocMemAux_SVal C CE ?TS UnknownVal (Some stateFree) AF_Malloc")
    case (Inl e)
    with res st nonnull args sp sz np nz fromto fr sf have False
      by (auto simp add: unfold split: if_splits)
    then show ?thesis ..
  next
    case (Inr r)
    show ?thesis
    proof (cases r)
      case None
      with Inr res st nonnull args sp sz np nz fromto fr sf have False
        by (auto simp add: unfold split: if_splits)
      then show ?thesis ..
    next
      case (Some x)
      with Inr show ?thesis using that by simp
    qed
  qed
  from res st nonnull args sp sz np nz fromto fr sf sr have Res: "Res =
      \<lparr>NewState = Some (set_ReallocPairs ToPtr
                          (ReallocPair FromPtr
                             (if ShouldFreeOnFail then OAR_FreeOnFailure
                              else if \<not> IsKnown then OAR_DoNotTrackAfterFailure
                              else OAR_ToBeFreedAfterFailure))
                          stateRealloc),
       Reports = [] @ Reports Freed,
       SymbolDependencies = [] @ SymbolDependencies Freed @ [(ToPtr, FromPtr)]\<rparr>"
    by (auto simp add: unfold split: if_splits)
  from FreeMemAux_success_known [OF fr sf] obtain R SymBase where
    val: "?A0 = loc_MemRegionVal R"
    and base: "getSymbol (getBaseRegion R) = Some SymBase"
    and known: "IsKnown = (\<exists>RS. get_RegionState State SymBase = Some RS
                            \<and> (isAllocated RS \<or> isAllocatedOfSizeZero RS))"
    by blast
  from fromto(1) val have "getSymbol R = Some FromPtr" by simp
  then have "getBaseRegion R = R" by (cases R) simp_all
  with base \<open>getSymbol R = Some FromPtr\<close> have same: "SymBase = FromPtr" by simp
  from Res st have S': "S' = set_ReallocPairs ToPtr
                          (ReallocPair FromPtr
                             (if ShouldFreeOnFail then OAR_FreeOnFailure
                              else if \<not> IsKnown then OAR_DoNotTrackAfterFailure
                              else OAR_ToBeFreedAfterFailure))
                          stateRealloc"
    by simp
  have pair: "get_ReallocPairs S' ToPtr =
             Some (ReallocPair FromPtr
                     (if ShouldFreeOnFail then OAR_FreeOnFailure
                      else if (\<exists>RS. get_RegionState State FromPtr = Some RS
                                  \<and> (isAllocated RS \<or> isAllocatedOfSizeZero RS))
                      then OAR_ToBeFreedAfterFailure
                      else OAR_DoNotTrackAfterFailure))"
    unfolding S' using known same by (auto simp add: get_ReallocPairs_simps)
  have dep: "(ToPtr, FromPtr) \<in> set (SymbolDependencies Res)"
    unfolding Res by simp
  from fromto pair dep show ?thesis by blast
qed

lemma ReallocMemAux_records_pair:
  assumes ptr: "\<not> (fst (State_assume C State
                        (evalEQ C State (getSVal C (getArgs (getASTContext C) CE ! 0)) (makeNull C))) \<noteq> None
                 \<and> snd (State_assume C State
                        (evalEQ C State (getSVal C (getArgs (getASTContext C) CE ! 0)) (makeNull C))) = None)"
    and size: "\<not> (fst (State_assume C State
                         (evalEQ C State
                            (if SuffixWithN
                             then evalMulForBufferSize C (getArgs (getASTContext C) CE ! 1)
                                    (getArgs (getASTContext C) CE ! 2)
                             else getSVal C (getArgs (getASTContext C) CE ! 1))
                            (makeIntValWithPtrWidth C 0 False))) \<noteq> None
                  \<and> snd (State_assume C State
                         (evalEQ C State
                            (if SuffixWithN
                             then evalMulForBufferSize C (getArgs (getASTContext C) CE ! 1)
                                    (getArgs (getASTContext C) CE ! 2)
                             else getSVal C (getArgs (getASTContext C) CE ! 1))
                            (makeIntValWithPtrWidth C 0 False))) = None)"
    and args: "(if SuffixWithN then 3 else 2) \<le> getNumArgs (getASTContext C) CE"
    and defined: "\<not> isUndef (if SuffixWithN
                             then evalMulForBufferSize C (getArgs (getASTContext C) CE ! 1)
                                    (getArgs (getASTContext C) CE ! 2)
                             else getSVal C (getArgs (getASTContext C) CE ! 1))"
    and frm: "getAsSymbol (getSVal C (getArgs (getASTContext C) CE ! 0)) = Some FromPtr"
    and to: "getAsSymbol (getSVal C CE) = Some ToPtr"
    and fr: "FreeMemAux Chk C CE (Some State) 0 False False False = Inr (Freed, IsKnown)"
    and sf: "NewState Freed = Some stateFree"
    and sr: "MallocMemAux_SVal C CE
               (if SuffixWithN
                then evalMulForBufferSize C (getArgs (getASTContext C) CE ! 1)
                       (getArgs (getASTContext C) CE ! 2)
                else getSVal C (getArgs (getASTContext C) CE ! 1))
               UnknownVal (Some stateFree) AF_Malloc = Inr (Some stateRealloc)"
  shows "ReallocMemAux Chk C CE ShouldFreeOnFail (Some State) SuffixWithN =
           Inr \<lparr>NewState =
                  Some (set_ReallocPairs ToPtr
                          (ReallocPair FromPtr
                             (if ShouldFreeOnFail then OAR_FreeOnFailure
                              else if (\<exists>RS. get_RegionState State FromPtr = Some RS
                                          \<and> (isAllocated RS \<or> isAllocatedOfSizeZero RS))
                              then OAR_ToBeFreedAfterFailure
                              else OAR_DoNotTrackAfterFailure))
                          stateRealloc),
                Reports = [],
                SymbolDependencies = SymbolDependencies Freed @ [(ToPtr, FromPtr)]\<rparr>"
proof -
  let ?A0 = "getSVal C (getArgs (getASTContext C) CE ! 0)"
  obtain p1 p2 where sp: "State_assume C State (evalEQ C State ?A0 (makeNull C)) = (p1, p2)"
    by (cases "State_assume C State (evalEQ C State ?A0 (makeNull C))")
  from ptr sp have np: "\<not> (p1 \<noteq> None \<and> p2 = None)" by simp
  from frm have a0: "\<not> isUndef ?A0" by (auto simp add: isUndef_def)
  from args have a3: "\<not> (SuffixWithN \<and> getNumArgs (getASTContext C) CE < 3)"
    and a2: "\<not> getNumArgs (getASTContext C) CE < 2"
    by (auto split: if_splits)
  from FreeMemAux_success_known [OF fr sf] obtain R SymBase where
    val: "?A0 = loc_MemRegionVal R"
    and base: "getSymbol (getBaseRegion R) = Some SymBase"
    and known: "IsKnown = (\<exists>RS. get_RegionState State SymBase = Some RS
                            \<and> (isAllocated RS \<or> isAllocatedOfSizeZero RS))"
    and reps: "Reports Freed = []"
    by blast
  from frm val have "getSymbol R = Some FromPtr" by simp
  then have "getBaseRegion R = R" by (cases R) simp_all
  with base \<open>getSymbol R = Some FromPtr\<close> have same: "SymBase = FromPtr" by simp
  have main: "ReallocMemAux Chk C CE ShouldFreeOnFail (Some State) SuffixWithN =
           Inr \<lparr>NewState =
                  Some (set_ReallocPairs ToPtr
                          (ReallocPair FromPtr
                             (if ShouldFreeOnFail then OAR_FreeOnFailure
                              else if \<not> IsKnown then OAR_DoNotTrackAfterFailure
                              else OAR_ToBeFreedAfterFailure))
                          stateRealloc),
                Reports = [],
                SymbolDependencies = SymbolDependencies Freed @ [(ToPtr, FromPtr)]\<rparr>"
  proof (cases SuffixWithN)
    case True
    let ?TS = "evalMulForBufferSize C (getArgs (getASTContext C) CE ! 1)
                 (getArgs (getASTContext C) CE ! 2)"
    obtain z1 z2 where sz: "State_assume C State (evalEQ C State ?TS (makeIntValWithPtrWidth C 0 False)) = (z1, z2)"
      by (cases "State_assume C State (evalEQ C State ?TS (makeIntValWithPtrWidth C 0 False))")
    from size sz True have nz: "\<not> (z1 \<noteq> None \<and> z2 = None)" by simp
    from defined True have ts: "\<not> isUndef ?TS" by simp
    from sr True have sr': "MallocMemAux_SVal C CE ?TS UnknownVal (Some stateFree) AF_Malloc = Inr (Some stateRealloc)"
      by simp
    show ?thesis
      unfolding ReallocMemAux_def
      using True a3 a2 a0 ts sp sz np nz frm to fr sf sr' reps
      by (auto simp add: Let_def returns_def)
  next
    case False
    let ?TS = "getSVal C (getArgs (getASTContext C) CE ! 1)"
    obtain z1 z2 where sz: "State_assume C State (evalEQ C State ?TS (makeIntValWithPtrWidth C 0 False)) = (z1, z2)"
      by (cases "State_assume C State (evalEQ C State ?TS (makeIntValWithPtrWidth C 0 False))")
    from size sz False have nz: "\<not> (z1 \<noteq> None \<and> z2 = None)" by simp
    from defined False have ts: "\<not> isUndef ?TS" by simp
    from sr False have sr': "MallocMemAux_SVal C CE ?TS UnknownVal (Some stateFree) AF_Malloc = Inr (Some stateRealloc)"
      by simp
    show ?thesis
      unfolding ReallocMemAux_def
      using False a3 a2 a0 ts sp sz np nz frm to fr sf sr' reps
      by (auto simp add: Let_def returns_def)
  qed
  show ?thesis
    unfolding main known same by (auto cong: if_cong)
qed

text \<open>
  Claim C4. In the general case of \<open>ReallocMemAux\<close> (the pointer is not provably null and
  the size is not provably zero): when the call has its arguments, the size is defined,
  the old pointer and the value of the call are symbols, the free of the old pointer is
  modelled with a state and the allocation on that state is modelled with a state, the
  modeler returns the allocation's state with the pair from the to-symbol to the
  from-symbol added, and registers the dependency of the from-symbol on the to-symbol.
  The policy of the pair is \<open>OAR_FreeOnFailure\<close> exactly when \<open>ShouldFreeOnFail\<close> is set
  (the \<open>reallocf\<close> variant); otherwise \<open>OAR_ToBeFreedAfterFailure\<close> exactly when the
  record of the from-symbol was \<open>Allocated\<close> or \<open>AllocatedOfSizeZero\<close> at the time of
  the free; otherwise \<open>OAR_DoNotTrackAfterFailure\<close>. Conversely, every state the modeler
  returns in the general case holds that pair, with that dependency registered.
\<close>

theorem ReallocMemAux_general_case:
  assumes ptr: "\<not> (fst (State_assume C State
                        (evalEQ C State (getSVal C (getArgs (getASTContext C) CE ! 0)) (makeNull C))) \<noteq> None
                 \<and> snd (State_assume C State
                        (evalEQ C State (getSVal C (getArgs (getASTContext C) CE ! 0)) (makeNull C))) = None)"
    and size: "\<not> (fst (State_assume C State
                         (evalEQ C State
                            (if SuffixWithN
                             then evalMulForBufferSize C (getArgs (getASTContext C) CE ! 1)
                                    (getArgs (getASTContext C) CE ! 2)
                             else getSVal C (getArgs (getASTContext C) CE ! 1))
                            (makeIntValWithPtrWidth C 0 False))) \<noteq> None
                  \<and> snd (State_assume C State
                         (evalEQ C State
                            (if SuffixWithN
                             then evalMulForBufferSize C (getArgs (getASTContext C) CE ! 1)
                                    (getArgs (getASTContext C) CE ! 2)
                             else getSVal C (getArgs (getASTContext C) CE ! 1))
                            (makeIntValWithPtrWidth C 0 False))) = None)"
  shows "(\<forall>FromPtr ToPtr Freed IsKnown stateFree stateRealloc.
            (if SuffixWithN then 3 else 2) \<le> getNumArgs (getASTContext C) CE
          \<and> \<not> isUndef (if SuffixWithN
                         then evalMulForBufferSize C (getArgs (getASTContext C) CE ! 1)
                                (getArgs (getASTContext C) CE ! 2)
                         else getSVal C (getArgs (getASTContext C) CE ! 1))
          \<and> getAsSymbol (getSVal C (getArgs (getASTContext C) CE ! 0)) = Some FromPtr
          \<and> getAsSymbol (getSVal C CE) = Some ToPtr
          \<and> FreeMemAux Chk C CE (Some State) 0 False False False = Inr (Freed, IsKnown)
          \<and> NewState Freed = Some stateFree
          \<and> MallocMemAux_SVal C CE
               (if SuffixWithN
                then evalMulForBufferSize C (getArgs (getASTContext C) CE ! 1)
                       (getArgs (getASTContext C) CE ! 2)
                else getSVal C (getArgs (getASTContext C) CE ! 1))
               UnknownVal (Some stateFree) AF_Malloc = Inr (Some stateRealloc)
          \<longrightarrow>
            ReallocMemAux Chk C CE ShouldFreeOnFail (Some State) SuffixWithN =
              Inr \<lparr>NewState =
                     Some (set_ReallocPairs ToPtr
                             (ReallocPair FromPtr
                                (if ShouldFreeOnFail then OAR_FreeOnFailure
                                 else if (\<exists>RS. get_RegionState State FromPtr = Some RS
                                             \<and> (isAllocated RS \<or> isAllocatedOfSizeZero RS))
                                 then OAR_ToBeFreedAfterFailure
                                 else OAR_DoNotTrackAfterFailure))
                             stateRealloc),
                   Reports = [],
                   SymbolDependencies = SymbolDependencies Freed @ [(ToPtr, FromPtr)]\<rparr>)
       \<and> (\<forall>Res S'.
            ReallocMemAux Chk C CE ShouldFreeOnFail (Some State) SuffixWithN = Inr Res
          \<and> NewState Res = Some S'
          \<longrightarrow>
            (\<exists>FromPtr ToPtr.
               getAsSymbol (getSVal C (getArgs (getASTContext C) CE ! 0)) = Some FromPtr
             \<and> getAsSymbol (getSVal C CE) = Some ToPtr
             \<and> get_ReallocPairs S' ToPtr =
                 Some (ReallocPair FromPtr
                         (if ShouldFreeOnFail then OAR_FreeOnFailure
                          else if (\<exists>RS. get_RegionState State FromPtr = Some RS
                                      \<and> (isAllocated RS \<or> isAllocatedOfSizeZero RS))
                          then OAR_ToBeFreedAfterFailure
                          else OAR_DoNotTrackAfterFailure))
             \<and> (ToPtr, FromPtr) \<in> set (SymbolDependencies Res)))"
proof (intro conjI allI impI)
  fix FromPtr ToPtr Freed IsKnown stateFree stateRealloc
  assume hyp: "(if SuffixWithN then 3 else 2) \<le> getNumArgs (getASTContext C) CE
          \<and> \<not> isUndef (if SuffixWithN
                         then evalMulForBufferSize C (getArgs (getASTContext C) CE ! 1)
                                (getArgs (getASTContext C) CE ! 2)
                         else getSVal C (getArgs (getASTContext C) CE ! 1))
          \<and> getAsSymbol (getSVal C (getArgs (getASTContext C) CE ! 0)) = Some FromPtr
          \<and> getAsSymbol (getSVal C CE) = Some ToPtr
          \<and> FreeMemAux Chk C CE (Some State) 0 False False False = Inr (Freed, IsKnown)
          \<and> NewState Freed = Some stateFree
          \<and> MallocMemAux_SVal C CE
               (if SuffixWithN
                then evalMulForBufferSize C (getArgs (getASTContext C) CE ! 1)
                       (getArgs (getASTContext C) CE ! 2)
                else getSVal C (getArgs (getASTContext C) CE ! 1))
               UnknownVal (Some stateFree) AF_Malloc = Inr (Some stateRealloc)"
  then have args: "(if SuffixWithN then 3 else 2) \<le> getNumArgs (getASTContext C) CE"
    and defined: "\<not> isUndef (if SuffixWithN
                         then evalMulForBufferSize C (getArgs (getASTContext C) CE ! 1)
                                (getArgs (getASTContext C) CE ! 2)
                         else getSVal C (getArgs (getASTContext C) CE ! 1))"
    and frm: "getAsSymbol (getSVal C (getArgs (getASTContext C) CE ! 0)) = Some FromPtr"
    and to: "getAsSymbol (getSVal C CE) = Some ToPtr"
    and fr: "FreeMemAux Chk C CE (Some State) 0 False False False = Inr (Freed, IsKnown)"
    and sf: "NewState Freed = Some stateFree"
    and sr: "MallocMemAux_SVal C CE
               (if SuffixWithN
                then evalMulForBufferSize C (getArgs (getASTContext C) CE ! 1)
                       (getArgs (getASTContext C) CE ! 2)
                else getSVal C (getArgs (getASTContext C) CE ! 1))
               UnknownVal (Some stateFree) AF_Malloc = Inr (Some stateRealloc)"
    by blast+
  show "ReallocMemAux Chk C CE ShouldFreeOnFail (Some State) SuffixWithN =
              Inr \<lparr>NewState =
                     Some (set_ReallocPairs ToPtr
                             (ReallocPair FromPtr
                                (if ShouldFreeOnFail then OAR_FreeOnFailure
                                 else if (\<exists>RS. get_RegionState State FromPtr = Some RS
                                             \<and> (isAllocated RS \<or> isAllocatedOfSizeZero RS))
                                 then OAR_ToBeFreedAfterFailure
                                 else OAR_DoNotTrackAfterFailure))
                             stateRealloc),
                   Reports = [],
                   SymbolDependencies = SymbolDependencies Freed @ [(ToPtr, FromPtr)]\<rparr>"
    by (rule ReallocMemAux_records_pair [OF ptr size args defined frm to fr sf sr])
next
  fix Res S'
  assume "ReallocMemAux Chk C CE ShouldFreeOnFail (Some State) SuffixWithN = Inr Res
          \<and> NewState Res = Some S'"
  then have res: "ReallocMemAux Chk C CE ShouldFreeOnFail (Some State) SuffixWithN = Inr Res"
    and st: "NewState Res = Some S'"
    by simp_all
  show "\<exists>FromPtr ToPtr.
               getAsSymbol (getSVal C (getArgs (getASTContext C) CE ! 0)) = Some FromPtr
             \<and> getAsSymbol (getSVal C CE) = Some ToPtr
             \<and> get_ReallocPairs S' ToPtr =
                 Some (ReallocPair FromPtr
                         (if ShouldFreeOnFail then OAR_FreeOnFailure
                          else if (\<exists>RS. get_RegionState State FromPtr = Some RS
                                      \<and> (isAllocated RS \<or> isAllocatedOfSizeZero RS))
                          then OAR_ToBeFreedAfterFailure
                          else OAR_DoNotTrackAfterFailure))
             \<and> (ToPtr, FromPtr) \<in> set (SymbolDependencies Res)"
    by (rule ReallocMemAux_returned_pair [OF res st ptr size])
qed

theorem ReallocMemAux_general_case_witness:
  "ReallocMemAux all_checks_enabled (example_context one_block_state) 40 False
     (Some one_block_state) False =
     Inr \<lparr>NewState = Some (realloc_result_state 40 [(40, ReallocPair 1 OAR_ToBeFreedAfterFailure)]),
          Reports = [], SymbolDependencies = [(40, 1)]\<rparr>
   \<and> ReallocMemAux all_checks_enabled (example_context empty_state) 40 False
     (Some empty_state) False =
     Inr \<lparr>NewState = Some (realloc_result_state 40 [(40, ReallocPair 1 OAR_DoNotTrackAfterFailure)]),
          Reports = [], SymbolDependencies = [(40, 1)]\<rparr>
   \<and> ReallocMemAux all_checks_enabled (example_context one_block_state) 60 True
     (Some one_block_state) False =
     Inr \<lparr>NewState = Some (realloc_result_state 60 [(60, ReallocPair 1 OAR_FreeOnFailure)]),
          Reports = [], SymbolDependencies = [(60, 1)]\<rparr>
   \<and> ReallocMemAux all_checks_enabled (example_context one_block_state) 70 False
     (Some one_block_state) True =
     Inr \<lparr>NewState = Some (realloc_result_state 70 [(70, ReallocPair 1 OAR_ToBeFreedAfterFailure)]),
          Reports = [], SymbolDependencies = [(70, 1)]\<rparr>"
proof -
  note defs = modeler_defs example_defs Let_def all_checks_enabled_def one_block_state_def
    empty_state_def realloc_result_state_def freed_by_def evalMulForBufferSize_def
    example_evalBinOp_def
  have tracked: "ReallocMemAux all_checks_enabled (example_context one_block_state) 40 False
     (Some one_block_state) False =
     Inr \<lparr>NewState = Some (realloc_result_state 40 [(40, ReallocPair 1 OAR_ToBeFreedAfterFailure)]),
          Reports = [], SymbolDependencies = [(40, 1)]\<rparr>"
    using ReallocMemAux_general_case [where C = "example_context one_block_state" and CE = 40
        and State = one_block_state and SuffixWithN = False and ShouldFreeOnFail = False
        and Chk = all_checks_enabled, THEN conjunct1, rule_format,
        of 1 40 "\<lparr>NewState = Some (freed_by 40), Reports = [], SymbolDependencies = []\<rparr>" True
          "freed_by 40" "realloc_result_state 40 []"]
    by (simp add: defs)
  have untracked: "ReallocMemAux all_checks_enabled (example_context empty_state) 40 False
     (Some empty_state) False =
     Inr \<lparr>NewState = Some (realloc_result_state 40 [(40, ReallocPair 1 OAR_DoNotTrackAfterFailure)]),
          Reports = [], SymbolDependencies = [(40, 1)]\<rparr>"
    using ReallocMemAux_general_case [where C = "example_context empty_state" and CE = 40
        and State = empty_state and SuffixWithN = False and ShouldFreeOnFail = False
        and Chk = all_checks_enabled, THEN conjunct1, rule_format,
        of 1 40 "\<lparr>NewState = Some (freed_by 40), Reports = [], SymbolDependencies = []\<rparr>" False
          "freed_by 40" "realloc_result_state 40 []"]
    by (simp add: defs)
  have reallocf: "ReallocMemAux all_checks_enabled (example_context one_block_state) 60 True
     (Some one_block_state) False =
     Inr \<lparr>NewState = Some (realloc_result_state 60 [(60, ReallocPair 1 OAR_FreeOnFailure)]),
          Reports = [], SymbolDependencies = [(60, 1)]\<rparr>"
    using ReallocMemAux_general_case [where C = "example_context one_block_state" and CE = 60
        and State = one_block_state and SuffixWithN = False and ShouldFreeOnFail = True
        and Chk = all_checks_enabled, THEN conjunct1, rule_format,
        of 1 60 "\<lparr>NewState = Some (freed_by 60), Reports = [], SymbolDependencies = []\<rparr>" True
          "freed_by 60" "realloc_result_state 60 []"]
    by (simp add: defs)
  have realloc_n: "ReallocMemAux all_checks_enabled (example_context one_block_state) 70 False
     (Some one_block_state) True =
     Inr \<lparr>NewState = Some (realloc_result_state 70 [(70, ReallocPair 1 OAR_ToBeFreedAfterFailure)]),
          Reports = [], SymbolDependencies = [(70, 1)]\<rparr>"
    using ReallocMemAux_general_case [where C = "example_context one_block_state" and CE = 70
        and State = one_block_state and SuffixWithN = True and ShouldFreeOnFail = False
        and Chk = all_checks_enabled, THEN conjunct1, rule_format,
        of 1 70 "\<lparr>NewState = Some (freed_by 70), Reports = [], SymbolDependencies = []\<rparr>" True
          "freed_by 70" "realloc_result_state 70 []"]
    by (simp add: defs)
  from tracked untracked reallocf realloc_n show ?thesis by (intro conjI)
qed

lemma didPreviousFreeFail_conv:
  "fst (didPreviousFreeFail C State Sym) \<longleftrightarrow>
     (\<exists>Ret. get_FreeReturnValue State Sym = Some Ret \<and> isNull C (EngineState State) Ret = ConstrainedTrue)"
  "snd (didPreviousFreeFail C State Sym) = get_FreeReturnValue State Sym"
  by (simp_all add: didPreviousFreeFail_def Let_def isConstrainedTrue_def split: option.splits)

lemma emitted_other_reports:
  "\<not> list_ex isDoubleFreeReport (emitted (reports_and_returns_null (ReportFreeAlloca Chk C V) b))"
  "\<not> list_ex isDoubleFreeReport (emitted (reports_and_returns_null (ReportBadFree Chk C V DE) b))"
  "\<not> list_ex isDoubleFreeReport (emitted (reports_and_returns_null (ReportMismatchedDealloc Chk C DE RS Sym H) b))"
  "\<not> list_ex isDoubleFreeReport (emitted (reports_and_returns_null (ReportOffsetFree Chk C V DE AE) b))"
  "\<not> list_ex isDoubleFreeReport (emitted (reports_and_returns_null (ReportFunctionPointerFree Chk C V DE) b))"
  by (auto simp add: emitted_def reports_and_returns_null_def ReportFreeAlloca_def ReportBadFree_def
      ReportMismatchedDealloc_def ReportOffsetFree_def ReportFunctionPointerFree_def Let_def
      split: sum.splits option.splits if_splits)

lemma emitted_ReportDoubleFree:
  "list_ex isDoubleFreeReport (emitted (reports_and_returns_null (ReportDoubleFree Chk C Rel Sym Prev) b)) \<longleftrightarrow>
     (ChecksEnabled Chk CK_MallocChecker \<or> ChecksEnabled Chk CK_NewDeleteChecker)
     \<and> (\<exists>CK. getCheckIfTracked_Sym Chk C Sym False = Inr (Some CK))
     \<and> generateErrorNode C"
  by (auto simp add: emitted_def reports_and_returns_null_def ReportDoubleFree_def
      split: sum.splits option.splits if_splits)

lemma emitted_simps:
  "emitted (Inl e) = []"
  "emitted (Inr (Res, b)) = Reports Res"
  by (simp_all add: emitted_def)

lemma getCheckIfTracked_Sym_conv:
  "(\<exists>CK. getCheckIfTracked_Sym Chk C Sym False = Inr (Some CK)) \<longleftrightarrow>
     contains_ReallocSizeZeroSymbols (getState C) Sym
     \<or> (\<exists>RS' CK. get_RegionState (getState C) Sym = Some RS'
            \<and> getCheckIfTracked_Family Chk (getAllocationFamily RS') False = Inr (Some CK))"
  by (auto simp add: getCheckIfTracked_Sym_def split: option.splits)

lemma getCheckIfTracked_Family_total:
  "Family \<noteq> AF_None \<Longrightarrow> \<exists>r. getCheckIfTracked_Family Chk Family b = Inr r"
  by (cases Family) (simp_all add: getCheckIfTracked_Family_def)

lemma getCheckIfTracked_Family_None:
  "getCheckIfTracked_Family Chk AF_None b = Inl Unreachable"
  by (simp add: getCheckIfTracked_Family_def)

lemma ReportDoubleFree_returns:
  assumes "\<not> (ChecksEnabled Chk CK_MallocChecker \<or> ChecksEnabled Chk CK_NewDeleteChecker)
           \<or> contains_ReallocSizeZeroSymbols (getState C) Sym
           \<or> (\<exists>RS'. get_RegionState (getState C) Sym = Some RS' \<and> getAllocationFamily RS' \<noteq> AF_None)"
  shows "\<exists>Rs. ReportDoubleFree Chk C Rel Sym Prev = Inr Rs
           \<and> (Rs = [] \<or> (\<exists>CK. Rs = [DoubleFreeReport CK
                                    (if Rel then ''Attempt to free released memory''
                                     else ''Attempt to free non-owned memory'') Sym Prev]))"
proof (cases "\<not> (ChecksEnabled Chk CK_MallocChecker \<or> ChecksEnabled Chk CK_NewDeleteChecker)")
  case True
  then show ?thesis by (simp add: ReportDoubleFree_def)
next
  case en: False
  show ?thesis
  proof (cases "contains_ReallocSizeZeroSymbols (getState C) Sym")
    case True
    with en show ?thesis
      by (simp add: ReportDoubleFree_def getCheckIfTracked_Sym_def)
  next
    case False
    with en assms obtain RS' where RS': "get_RegionState (getState C) Sym = Some RS'"
      "getAllocationFamily RS' \<noteq> AF_None"
      by blast
    from getCheckIfTracked_Family_total [OF RS'(2), of Chk False] obtain r where
      r: "getCheckIfTracked_Family Chk (getAllocationFamily RS') False = Inr r" ..
    with en False RS' show ?thesis
      by (cases r) (simp_all add: ReportDoubleFree_def getCheckIfTracked_Sym_def)
  qed
qed

lemma ReportDoubleFree_stops:
  assumes "ChecksEnabled Chk CK_MallocChecker \<or> ChecksEnabled Chk CK_NewDeleteChecker"
    and "\<not> contains_ReallocSizeZeroSymbols (getState C) Sym"
    and "\<forall>RS'. get_RegionState (getState C) Sym = Some RS' \<longrightarrow> getAllocationFamily RS' = AF_None"
  shows "\<exists>e. ReportDoubleFree Chk C Rel Sym Prev = Inl e"
  using assms
  by (cases "get_RegionState (getState C) Sym")
     (auto simp add: ReportDoubleFree_def getCheckIfTracked_Sym_def getCheckIfTracked_Family_None)

text \<open>
  Claim C1, as amended. For a call of \<open>FreeMemAux\<close> that reaches the lookup of a tracked
  base symbol: a double-free report is emitted if and only if the family of the record
  is not \<open>AF_Alloca\<close>, the record is \<open>Released\<close> or \<open>Relinquished\<close>, the previous free
  did not definitely fail, the \<open>MallocChecker\<close> or the \<open>NewDeleteChecker\<close> check is
  enabled, the node's state either has the symbol in its set of zero-size reallocations
  or has a record for it whose family an enabled check tracks
  (\<open>getCheckIfTracked\<close>), and an error node is generated. Under the first three
  conditions the modeler makes no state update: it returns the null state, with at most
  the one report, provided the two checks are disabled or the node's state has the
  symbol in its zero-size set or has a record for it (of a family other than
  \<open>AF_None\<close>); when the checks are enabled and the node's state has neither, the call
  ends in the failed assertion of \<open>getCheckIfTracked\<close>. A second
  call on the state that a first, successful call returned (now the node's state), with
  the report not suppressed, emits nothing in the first call and exactly one
  double-free report in the second, which returns the null state.
\<close>

theorem FreeMemAux_double_free:
  assumes val: "getSVal C ArgExpr = loc_MemRegionVal R"
    and notnull: "\<not> (snd (State_assume C State (loc_MemRegionVal R)) \<noteq> None
                     \<and> fst (State_assume C State (loc_MemRegionVal R)) = None)"
    and blk: "\<not> isBlockDataRegion R"
    and space: "getMemorySpace R = UnknownSpaceRegion \<or> getMemorySpace R = HeapSpaceRegion"
    and base: "getSymbol (getBaseRegion R) = Some SymBase"
    and tracked: "get_RegionState State SymBase = Some RS"
  shows "(list_ex isDoubleFreeReport
            (emitted (FreeMemAux_Expr Chk C ArgExpr ParentExpr (Some State) Hold b ReturnsNullOnFailure))
          \<longleftrightarrow>
            getAllocationFamily RS \<noteq> AF_Alloca
            \<and> (isReleased RS \<or> isRelinquished RS)
            \<and> \<not> (\<exists>Ret. get_FreeReturnValue State SymBase = Some Ret
                       \<and> isNull C (EngineState State) Ret = ConstrainedTrue)
            \<and> (ChecksEnabled Chk CK_MallocChecker \<or> ChecksEnabled Chk CK_NewDeleteChecker)
            \<and> (contains_ReallocSizeZeroSymbols (getState C) SymBase
                \<or> (\<exists>RS' CK. get_RegionState (getState C) SymBase = Some RS'
                      \<and> getCheckIfTracked_Family Chk (getAllocationFamily RS') False = Inr (Some CK)))
            \<and> generateErrorNode C)
       \<and> (getAllocationFamily RS \<noteq> AF_Alloca
            \<and> (isReleased RS \<or> isRelinquished RS)
            \<and> \<not> (\<exists>Ret. get_FreeReturnValue State SymBase = Some Ret
                       \<and> isNull C (EngineState State) Ret = ConstrainedTrue)
            \<and> (\<not> (ChecksEnabled Chk CK_MallocChecker \<or> ChecksEnabled Chk CK_NewDeleteChecker)
                \<or> contains_ReallocSizeZeroSymbols (getState C) SymBase
                \<or> (\<exists>RS'. get_RegionState (getState C) SymBase = Some RS'
                      \<and> getAllocationFamily RS' \<noteq> AF_None))
          \<longrightarrow>
            (\<exists>Rs. FreeMemAux_Expr Chk C ArgExpr ParentExpr (Some State) Hold b ReturnsNullOnFailure =
                    Inr (\<lparr>NewState = None, Reports = Rs, SymbolDependencies = []\<rparr>, False)
                  \<and> (Rs = [] \<or>
                      (\<exists>CK. Rs = [DoubleFreeReport CK
                                    (if isReleased RS then ''Attempt to free released memory''
                                     else ''Attempt to free non-owned memory'')
                                    SymBase (get_FreeReturnValue State SymBase)]))))
       \<and> (getAllocationFamily RS \<noteq> AF_Alloca
            \<and> (isReleased RS \<or> isRelinquished RS)
            \<and> \<not> (\<exists>Ret. get_FreeReturnValue State SymBase = Some Ret
                       \<and> isNull C (EngineState State) Ret = ConstrainedTrue)
            \<and> (ChecksEnabled Chk CK_MallocChecker \<or> ChecksEnabled Chk CK_NewDeleteChecker)
            \<and> \<not> contains_ReallocSizeZeroSymbols (getState C) SymBase
            \<and> (\<forall>RS'. get_RegionState (getState C) SymBase = Some RS'
                      \<longrightarrow> getAllocationFamily RS' = AF_None)
          \<longrightarrow>
            (\<exists>e. FreeMemAux_Expr Chk C ArgExpr ParentExpr (Some State) Hold b ReturnsNullOnFailure =
                    Inl e))
       \<and> (\<forall>Res1 b1 S1 CK.
            FreeMemAux_Expr Chk C ArgExpr ParentExpr (Some State) Hold b ReturnsNullOnFailure
              = Inr (Res1, b1)
            \<and> NewState Res1 = Some S1
            \<and> \<not> (snd (State_assume C S1 (loc_MemRegionVal R)) \<noteq> None
                  \<and> fst (State_assume C S1 (loc_MemRegionVal R)) = None)
            \<and> \<not> (\<exists>Ret. get_FreeReturnValue S1 SymBase = Some Ret
                       \<and> isNull C (EngineState S1) Ret = ConstrainedTrue)
            \<and> (ChecksEnabled Chk CK_MallocChecker \<or> ChecksEnabled Chk CK_NewDeleteChecker)
            \<and> (if contains_ReallocSizeZeroSymbols S1 SymBase then CK = CK_MallocChecker
                else getCheckIfTracked_Family Chk (getAllocationFamily RS) False = Inr (Some CK))
            \<and> generateErrorNode C
          \<longrightarrow>
            Reports Res1 = []
            \<and> FreeMemAux_Expr Chk (C\<lparr>getState := S1\<rparr>) ArgExpr ParentExpr (Some S1) Hold b1
                 ReturnsNullOnFailure =
               Inr (\<lparr>NewState = None,
                     Reports = [DoubleFreeReport CK
                                  (if Hold then ''Attempt to free non-owned memory''
                                   else ''Attempt to free released memory'')
                                  SymBase (get_FreeReturnValue S1 SymBase)],
                     SymbolDependencies = []\<rparr>, False))"
proof (intro conjI allI impI)
  note unf = FreeMemAux_Expr_tracked [OF val notnull blk space base tracked]
  let ?call = "FreeMemAux_Expr Chk C ArgExpr ParentExpr (Some State) Hold b ReturnsNullOnFailure"
  let ?cond = "getAllocationFamily RS \<noteq> AF_Alloca
            \<and> (isReleased RS \<or> isRelinquished RS)
            \<and> \<not> (\<exists>Ret. get_FreeReturnValue State SymBase = Some Ret
                       \<and> isNull C (EngineState State) Ret = ConstrainedTrue)"
  have known: "isReleased RS \<or> isRelinquished RS \<Longrightarrow> \<not> (isAllocated RS \<or> isAllocatedOfSizeZero RS)"
    by (auto simp add: isReleased_def isRelinquished_def isAllocated_def isAllocatedOfSizeZero_def)
  have df: "?call =
      reports_and_returns_null
        (ReportDoubleFree Chk C (isReleased RS) SymBase (get_FreeReturnValue State SymBase)) False"
    if ?cond
    using that known unfolding unf by (simp add: didPreviousFreeFail_conv Let_def)
  have "list_ex isDoubleFreeReport (emitted ?call)
          \<longleftrightarrow> ?cond
            \<and> (ChecksEnabled Chk CK_MallocChecker \<or> ChecksEnabled Chk CK_NewDeleteChecker)
            \<and> (\<exists>CK. getCheckIfTracked_Sym Chk C SymBase False = Inr (Some CK))
            \<and> generateErrorNode C"
  proof (cases ?cond)
    case True
    then show ?thesis
      unfolding df [OF True] emitted_ReportDoubleFree by simp
  next
    case False
    have "\<not> list_ex isDoubleFreeReport (emitted ?call)"
    proof (cases "getAllocationFamily RS = AF_Alloca")
      case True
      then show ?thesis
        unfolding unf by (simp add: Let_def emitted_other_reports)
    next
      case nAlloca: False
      with False have ndf: "((isReleased RS \<or> isRelinquished RS)
          \<and> \<not> fst (didPreviousFreeFail C State SymBase)) = False"
        by (simp add: didPreviousFreeFail_conv)
      show ?thesis
        unfolding unf Let_def ndf
        by (simp add: nAlloca emitted_other_reports emitted_simps)
    qed
    with False show ?thesis by blast
  qed
  then show "list_ex isDoubleFreeReport (emitted ?call)
          \<longleftrightarrow>
            getAllocationFamily RS \<noteq> AF_Alloca
            \<and> (isReleased RS \<or> isRelinquished RS)
            \<and> \<not> (\<exists>Ret. get_FreeReturnValue State SymBase = Some Ret
                       \<and> isNull C (EngineState State) Ret = ConstrainedTrue)
            \<and> (ChecksEnabled Chk CK_MallocChecker \<or> ChecksEnabled Chk CK_NewDeleteChecker)
            \<and> (contains_ReallocSizeZeroSymbols (getState C) SymBase
                \<or> (\<exists>RS' CK. get_RegionState (getState C) SymBase = Some RS'
                      \<and> getCheckIfTracked_Family Chk (getAllocationFamily RS') False = Inr (Some CK)))
            \<and> generateErrorNode C"
    by (simp only: conj_assoc getCheckIfTracked_Sym_conv)
next
  let ?call = "FreeMemAux_Expr Chk C ArgExpr ParentExpr (Some State) Hold b ReturnsNullOnFailure"
  assume hyp: "getAllocationFamily RS \<noteq> AF_Alloca
            \<and> (isReleased RS \<or> isRelinquished RS)
            \<and> \<not> (\<exists>Ret. get_FreeReturnValue State SymBase = Some Ret
                       \<and> isNull C (EngineState State) Ret = ConstrainedTrue)
            \<and> (\<not> (ChecksEnabled Chk CK_MallocChecker \<or> ChecksEnabled Chk CK_NewDeleteChecker)
                \<or> contains_ReallocSizeZeroSymbols (getState C) SymBase
                \<or> (\<exists>RS'. get_RegionState (getState C) SymBase = Some RS'
                      \<and> getAllocationFamily RS' \<noteq> AF_None))"
  note unf = FreeMemAux_Expr_tracked [OF val notnull blk space base tracked]
  have known: "\<not> (isAllocated RS \<or> isAllocatedOfSizeZero RS)"
    using hyp
    by (auto simp add: isReleased_def isRelinquished_def isAllocated_def isAllocatedOfSizeZero_def)
  have df: "?call =
      reports_and_returns_null
        (ReportDoubleFree Chk C (isReleased RS) SymBase (get_FreeReturnValue State SymBase)) False"
    using hyp known unfolding unf by (simp add: didPreviousFreeFail_conv Let_def)
  from hyp have "\<not> (ChecksEnabled Chk CK_MallocChecker \<or> ChecksEnabled Chk CK_NewDeleteChecker)
           \<or> contains_ReallocSizeZeroSymbols (getState C) SymBase
           \<or> (\<exists>RS'. get_RegionState (getState C) SymBase = Some RS' \<and> getAllocationFamily RS' \<noteq> AF_None)"
    by simp
  from ReportDoubleFree_returns [OF this, of "isReleased RS" "get_FreeReturnValue State SymBase"]
  obtain Rs where Rs: "ReportDoubleFree Chk C (isReleased RS) SymBase (get_FreeReturnValue State SymBase) = Inr Rs"
    "Rs = [] \<or> (\<exists>CK. Rs = [DoubleFreeReport CK
                                    (if isReleased RS then ''Attempt to free released memory''
                                     else ''Attempt to free non-owned memory'')
                                    SymBase (get_FreeReturnValue State SymBase)])"
    by blast
  have "?call = Inr (\<lparr>NewState = None, Reports = Rs, SymbolDependencies = []\<rparr>, False)"
    unfolding df Rs(1) by (simp add: reports_and_returns_null_def)
  with Rs(2) show "\<exists>Rs. ?call =
                    Inr (\<lparr>NewState = None, Reports = Rs, SymbolDependencies = []\<rparr>, False)
                  \<and> (Rs = [] \<or>
                      (\<exists>CK. Rs = [DoubleFreeReport CK
                                    (if isReleased RS then ''Attempt to free released memory''
                                     else ''Attempt to free non-owned memory'')
                                    SymBase (get_FreeReturnValue State SymBase)]))"
    by blast
next
  let ?call = "FreeMemAux_Expr Chk C ArgExpr ParentExpr (Some State) Hold b ReturnsNullOnFailure"
  assume hyp: "getAllocationFamily RS \<noteq> AF_Alloca
            \<and> (isReleased RS \<or> isRelinquished RS)
            \<and> \<not> (\<exists>Ret. get_FreeReturnValue State SymBase = Some Ret
                       \<and> isNull C (EngineState State) Ret = ConstrainedTrue)
            \<and> (ChecksEnabled Chk CK_MallocChecker \<or> ChecksEnabled Chk CK_NewDeleteChecker)
            \<and> \<not> contains_ReallocSizeZeroSymbols (getState C) SymBase
            \<and> (\<forall>RS'. get_RegionState (getState C) SymBase = Some RS'
                      \<longrightarrow> getAllocationFamily RS' = AF_None)"
  note unf = FreeMemAux_Expr_tracked [OF val notnull blk space base tracked]
  have known: "\<not> (isAllocated RS \<or> isAllocatedOfSizeZero RS)"
    using hyp
    by (auto simp add: isReleased_def isRelinquished_def isAllocated_def isAllocatedOfSizeZero_def)
  have df: "?call =
      reports_and_returns_null
        (ReportDoubleFree Chk C (isReleased RS) SymBase (get_FreeReturnValue State SymBase)) False"
    using hyp known unfolding unf by (simp add: didPreviousFreeFail_conv Let_def)
  from hyp have en: "ChecksEnabled Chk CK_MallocChecker \<or> ChecksEnabled Chk CK_NewDeleteChecker"
    and nz: "\<not> contains_ReallocSizeZeroSymbols (getState C) SymBase"
    and nt: "\<forall>RS'. get_RegionState (getState C) SymBase = Some RS' \<longrightarrow> getAllocationFamily RS' = AF_None"
    by simp_all
  from ReportDoubleFree_stops [OF en nz nt, of "isReleased RS" "get_FreeReturnValue State SymBase"]
  obtain e where "ReportDoubleFree Chk C (isReleased RS) SymBase (get_FreeReturnValue State SymBase) = Inl e"
    ..
  then have "?call = Inl e"
    unfolding df by (simp add: reports_and_returns_null_def)
  then show "\<exists>e. ?call = Inl e" ..
next
  fix Res1 b1 S1 CK
  assume hyp: "FreeMemAux_Expr Chk C ArgExpr ParentExpr (Some State) Hold b ReturnsNullOnFailure
              = Inr (Res1, b1)
            \<and> NewState Res1 = Some S1
            \<and> \<not> (snd (State_assume C S1 (loc_MemRegionVal R)) \<noteq> None
                  \<and> fst (State_assume C S1 (loc_MemRegionVal R)) = None)
            \<and> \<not> (\<exists>Ret. get_FreeReturnValue S1 SymBase = Some Ret
                       \<and> isNull C (EngineState S1) Ret = ConstrainedTrue)
            \<and> (ChecksEnabled Chk CK_MallocChecker \<or> ChecksEnabled Chk CK_NewDeleteChecker)
            \<and> (if contains_ReallocSizeZeroSymbols S1 SymBase then CK = CK_MallocChecker
                else getCheckIfTracked_Family Chk (getAllocationFamily RS) False = Inr (Some CK))
            \<and> generateErrorNode C"
  note unf = FreeMemAux_Expr_tracked [OF val notnull blk space base tracked]
  let ?rec = "if Hold then getRelinquished (getAllocationFamily RS) ParentExpr
              else getReleased (getAllocationFamily RS) ParentExpr"
  from hyp have res1: "FreeMemAux_Expr Chk C ArgExpr ParentExpr (Some State) Hold b ReturnsNullOnFailure
              = Inr (Res1, b1)" and st1: "NewState Res1 = Some S1"
    and nn1: "\<not> (snd (State_assume C S1 (loc_MemRegionVal R)) \<noteq> None
                  \<and> fst (State_assume C S1 (loc_MemRegionVal R)) = None)"
    and pf1: "\<not> (\<exists>Ret. get_FreeReturnValue S1 SymBase = Some Ret
                       \<and> isNull C (EngineState S1) Ret = ConstrainedTrue)"
    and en1: "ChecksEnabled Chk CK_MallocChecker \<or> ChecksEnabled Chk CK_NewDeleteChecker"
    and ck1: "if contains_ReallocSizeZeroSymbols S1 SymBase then CK = CK_MallocChecker
                else getCheckIfTracked_Family Chk (getAllocationFamily RS) False = Inr (Some CK)"
    and gen1: "generateErrorNode C"
    by simp_all
  have null: "\<And>Rep b0. reports_and_returns_null Rep b0 \<noteq> Inr (Res1, b1)"
    using st1 by (auto dest: reports_and_returns_null_NewState)
  from res1 st1 null have first: "getAllocationFamily RS \<noteq> AF_Alloca \<and> Reports Res1 = []
      \<and> get_RegionState S1 SymBase = Some ?rec"
    unfolding unf
    by (auto simp add: Let_def get_RegionState_simps split: if_splits)
  let ?C2 = "C\<lparr>getState := S1\<rparr>"
  have val2: "getSVal ?C2 ArgExpr = loc_MemRegionVal R" using val by simp
  have notnull2: "\<not> (snd (State_assume ?C2 S1 (loc_MemRegionVal R)) \<noteq> None
                     \<and> fst (State_assume ?C2 S1 (loc_MemRegionVal R)) = None)"
    using nn1 by simp
  have tracked2: "get_RegionState S1 SymBase = Some ?rec" using first by simp
  note unf2 = FreeMemAux_Expr_tracked [OF val2 notnull2 blk space base tracked2]
  have rec: "getAllocationFamily ?rec = getAllocationFamily RS"
    "isReleased ?rec \<or> isRelinquished ?rec" "\<not> isAllocated ?rec" "\<not> isAllocatedOfSizeZero ?rec"
    "isReleased ?rec = (\<not> Hold)"
    by (simp_all add: getRelinquished_def getReleased_def isReleased_def isRelinquished_def
        isAllocated_def isAllocatedOfSizeZero_def)
  have chk: "getCheckIfTracked_Sym Chk ?C2 SymBase False = Inr (Some CK)"
  proof (cases "contains_ReallocSizeZeroSymbols S1 SymBase")
    case True
    with ck1 show ?thesis by (simp add: getCheckIfTracked_Sym_def)
  next
    case False
    with ck1 tracked2 rec(1) show ?thesis by (simp add: getCheckIfTracked_Sym_def)
  qed
  have second: "FreeMemAux_Expr Chk ?C2 ArgExpr ParentExpr (Some S1) Hold b1 ReturnsNullOnFailure =
               Inr (\<lparr>NewState = None,
                     Reports = [DoubleFreeReport CK
                                  (if Hold then ''Attempt to free non-owned memory''
                                   else ''Attempt to free released memory'')
                                  SymBase (get_FreeReturnValue S1 SymBase)],
                     SymbolDependencies = []\<rparr>, False)"
    unfolding unf2 using first pf1 en1 gen1 rec chk
    by (simp add: Let_def didPreviousFreeFail_conv reports_and_returns_null_def ReportDoubleFree_def
        cong: if_cong)
  from first second show "Reports Res1 = []" and
    "FreeMemAux_Expr Chk ?C2 ArgExpr ParentExpr (Some S1) Hold b1 ReturnsNullOnFailure =
               Inr (\<lparr>NewState = None,
                     Reports = [DoubleFreeReport CK
                                  (if Hold then ''Attempt to free non-owned memory''
                                   else ''Attempt to free released memory'')
                                  SymBase (get_FreeReturnValue S1 SymBase)],
                     SymbolDependencies = []\<rparr>, False)"
    by simp_all
qed

theorem FreeMemAux_double_free_witness:
  "FreeMemAux_Expr all_checks_enabled (example_context one_block_state) 11 10
     (Some one_block_state) False False False =
     Inr (\<lparr>NewState = Some freed_block_state, Reports = [], SymbolDependencies = []\<rparr>, True)
   \<and> FreeMemAux_Expr all_checks_enabled (example_context freed_block_state) 11 10
     (Some freed_block_state) False True False =
     Inr (\<lparr>NewState = None,
           Reports = [DoubleFreeReport CK_MallocChecker ''Attempt to free released memory'' 1 None],
           SymbolDependencies = []\<rparr>, False)
   \<and> \<not> list_ex isDoubleFreeReport
         (emitted (FreeMemAux_Expr all_checks_enabled (example_context one_block_state) 11 10
            (Some one_block_state) False False False))
   \<and> list_ex isDoubleFreeReport
         (emitted (FreeMemAux_Expr all_checks_enabled (example_context freed_block_state) 11 10
            (Some freed_block_state) False False False))
   \<and> \<not> list_ex isDoubleFreeReport
         (emitted (FreeMemAux_Expr only_new_delete_enabled (example_context freed_block_state) 11 10
            (Some freed_block_state) False False False))
   \<and> list_ex isDoubleFreeReport
         (emitted (FreeMemAux_Expr only_new_delete_enabled (example_context freed_zero_size_state)
            11 10 (Some freed_zero_size_state) False False False))
   \<and> (\<exists>Rs. FreeMemAux_Expr only_new_delete_enabled (example_context freed_block_state) 11 10
               (Some freed_block_state) False False False =
             Inr (\<lparr>NewState = None, Reports = Rs, SymbolDependencies = []\<rparr>, False))
   \<and> (\<exists>e. FreeMemAux_Expr all_checks_enabled (example_context empty_state) 11 10
              (Some freed_block_state) False False False = Inl e)"
proof -
  have first: "FreeMemAux_Expr all_checks_enabled (example_context one_block_state) 11 10
     (Some one_block_state) False False False =
     Inr (\<lparr>NewState = Some freed_block_state, Reports = [], SymbolDependencies = []\<rparr>, True)"
    by (simp add: modeler_defs example_defs Let_def all_checks_enabled_def
        one_block_state_def freed_block_state_def)
  have ctx: "(example_context one_block_state)\<lparr>getState := freed_block_state\<rparr> =
      example_context freed_block_state"
    by (simp add: example_context_def)
  note fixture_defs = example_defs one_block_state_def freed_block_state_def
    freed_zero_size_state_def empty_state_def all_checks_enabled_def only_new_delete_enabled_def
    get_RegionState_def get_FreeReturnValue_def contains_ReallocSizeZeroSymbols_def
    getCheckIfTracked_Family_def isBlockDataRegion_def isReleased_def isRelinquished_def
  note at_one = FreeMemAux_double_free [where C = "example_context one_block_state"
      and ArgExpr = 11 and R = "SymbolicRegion 1 UnknownSpaceRegion" and State = one_block_state
      and SymBase = 1 and RS = "RefState Allocated 20 AF_Malloc" and Chk = all_checks_enabled
      and ParentExpr = 10 and Hold = False and b = False and ReturnsNullOnFailure = False]
  note at_freed = FreeMemAux_double_free [where C = "example_context freed_block_state"
      and ArgExpr = 11 and R = "SymbolicRegion 1 UnknownSpaceRegion" and State = freed_block_state
      and SymBase = 1 and RS = "RefState Released 10 AF_Malloc" and ParentExpr = 10
      and Hold = False and b = False and ReturnsNullOnFailure = False]
  note at_zero = FreeMemAux_double_free [where C = "example_context freed_zero_size_state"
      and ArgExpr = 11 and R = "SymbolicRegion 1 UnknownSpaceRegion"
      and State = freed_zero_size_state
      and SymBase = 1 and RS = "RefState Released 10 AF_Malloc" and ParentExpr = 10
      and Hold = False and b = False and ReturnsNullOnFailure = False
      and Chk = only_new_delete_enabled]
  note at_empty = FreeMemAux_double_free [where C = "example_context empty_state"
      and ArgExpr = 11 and R = "SymbolicRegion 1 UnknownSpaceRegion" and State = freed_block_state
      and SymBase = 1 and RS = "RefState Released 10 AF_Malloc" and ParentExpr = 10
      and Hold = False and b = False and ReturnsNullOnFailure = False
      and Chk = all_checks_enabled]
  have second: "FreeMemAux_Expr all_checks_enabled (example_context freed_block_state) 11 10
     (Some freed_block_state) False True False =
     Inr (\<lparr>NewState = None,
           Reports = [DoubleFreeReport CK_MallocChecker ''Attempt to free released memory'' 1 None],
           SymbolDependencies = []\<rparr>, False)"
    using at_one [THEN conjunct2, THEN conjunct2, THEN conjunct2, rule_format,
        of "\<lparr>NewState = Some freed_block_state, Reports = [], SymbolDependencies = []\<rparr>" True
          freed_block_state CK_MallocChecker] first
    by (simp add: ctx) (simp add: fixture_defs)
  have not_first: "\<not> list_ex isDoubleFreeReport
         (emitted (FreeMemAux_Expr all_checks_enabled (example_context one_block_state) 11 10
            (Some one_block_state) False False False))"
    using at_one [THEN conjunct1] by (simp add: fixture_defs)
  have then_second: "list_ex isDoubleFreeReport
         (emitted (FreeMemAux_Expr all_checks_enabled (example_context freed_block_state) 11 10
            (Some freed_block_state) False False False))"
    using at_freed [where Chk = all_checks_enabled, THEN conjunct1] by (simp add: fixture_defs)
  have untracked_family: "\<not> list_ex isDoubleFreeReport
         (emitted (FreeMemAux_Expr only_new_delete_enabled (example_context freed_block_state) 11 10
            (Some freed_block_state) False False False))"
    using at_freed [where Chk = only_new_delete_enabled, THEN conjunct1]
    by (simp add: fixture_defs)
  have zero_size: "list_ex isDoubleFreeReport
         (emitted (FreeMemAux_Expr only_new_delete_enabled (example_context freed_zero_size_state)
            11 10 (Some freed_zero_size_state) False False False))"
    using at_zero [THEN conjunct1] by (simp add: fixture_defs)
  have null_state: "\<exists>Rs. FreeMemAux_Expr only_new_delete_enabled (example_context freed_block_state) 11 10
               (Some freed_block_state) False False False =
             Inr (\<lparr>NewState = None, Reports = Rs, SymbolDependencies = []\<rparr>, False)"
    using at_freed [where Chk = only_new_delete_enabled, THEN conjunct2, THEN conjunct1]
    by (simp add: fixture_defs) blast
  have stops: "\<exists>e. FreeMemAux_Expr all_checks_enabled (example_context empty_state) 11 10
              (Some freed_block_state) False False False = Inl e"
    using at_empty [THEN conjunct2, THEN conjunct2, THEN conjunct1] by (simp add: fixture_defs)
  from first second not_first then_second untracked_family zero_size null_state stops
  show ?thesis by (intro conjI)
qed

text \<open>
  The claim as written fails: with only the mismatched-deallocator check enabled, the
  free of a released block whose previous free did not fail emits no report.
\<close>

theorem FreeMemAux_double_free_suppressed_counterexample:
  "get_RegionState freed_block_state 1 = Some (RefState Released 10 AF_Malloc)
   \<and> isReleased (RefState Released 10 AF_Malloc)
   \<and> get_FreeReturnValue freed_block_state 1 = None
   \<and> FreeMemAux_Expr only_mismatched_enabled (example_context freed_block_state) 11 10
        (Some freed_block_state) False False False =
      Inr (\<lparr>NewState = None, Reports = [], SymbolDependencies = []\<rparr>, False)"
  by (simp add: modeler_defs example_defs Let_def only_mismatched_enabled_def freed_block_state_def)

end
